theory Spec2Isabelle
  imports Main "HOL-Library.Word" "HOL-Library.Multiset" "HOL-Library.Char_ord"
    "HOL-Library.List_Lexorder"
begin

unbundle bit_operations_syntax

chapter \<open>NoCEG: analyzer, in-process extractor and patcher\<close>

text \<open>
  The three programs of the repository are 32-bit x86 Windows programs: pointers,
  \<^verbatim>\<open>std::uintptr_t\<close>, \<^verbatim>\<open>std::size_t\<close> and \<^verbatim>\<open>DWORD\<close> are 32-bit words, and the
  code reads the process memory through raw pointers, so memory is a total function
  from 32-bit addresses to bytes.
\<close>

type_synonym u8 = "8 word"
type_synonym u16 = "16 word"
type_synonym u32 = "32 word"
type_synonym u64 = "64 word"
type_synonym memory = "u32 \<Rightarrow> u8"

section \<open>Model\<close>

subsection \<open>Breakpoint primitive (noceg/include/memory.h)\<close>

text \<open>
  \<^verbatim>\<open>MemoryManager\<close> is a scope guard around \<^verbatim>\<open>VirtualProtect\<close>; whether the
  operating system grants the protection change for the byte at an address is the
  parameter \<open>vp\<close> of the two operations that use the guard.
\<close>

record BreakpointManager =
  m_Address :: u32
  m_BackupByte :: u8
  m_IsSet :: bool

definition BreakpointManager_init :: BreakpointManager where
  "BreakpointManager_init = \<lparr>m_Address = 0, m_BackupByte = 0, m_IsSet = False\<rparr>"

definition SetBreakpoint ::
  "(u32 \<Rightarrow> bool) \<Rightarrow> u32 \<Rightarrow> memory \<times> BreakpointManager \<Rightarrow> memory \<times> BreakpointManager" where
  "SetBreakpoint vp address s =
     (case s of (mem, bp) \<Rightarrow>
        if m_IsSet bp then s
        else if \<not> vp address then s
        else (mem(address := 0xCC),
              bp\<lparr>m_Address := address, m_BackupByte := mem address, m_IsSet := True\<rparr>))"

definition RemoveBreakpoint ::
  "(u32 \<Rightarrow> bool) \<Rightarrow> memory \<times> BreakpointManager \<Rightarrow> memory \<times> BreakpointManager" where
  "RemoveBreakpoint vp s =
     (case s of (mem, bp) \<Rightarrow>
        if \<not> m_IsSet bp then s
        else if \<not> vp (m_Address bp) then s
        else (mem(m_Address bp := m_BackupByte bp), bp\<lparr>m_IsSet := False\<rparr>))"

definition GetAddress :: "BreakpointManager \<Rightarrow> u32" where
  "GetAddress bp = m_Address bp"

definition IsSet :: "BreakpointManager \<Rightarrow> bool" where
  "IsSet bp = m_IsSet bp"

subsection \<open>Patcher (noceg_patcher/main.cpp)\<close>

text \<open>
  \<^verbatim>\<open>m_FileData\<close> is a byte vector. The header fields are read through raw pointers
  into the vector (\<^verbatim>\<open>reinterpret_cast\<close> of \<^verbatim>\<open>m_FileData.data() + e_lfanew\<close>), with
  no bound check: a read at an index past the vector returns whatever the process holds
  there, the parameter \<open>oob\<close>. Writes go through \<^verbatim>\<open>m_FileData[i]\<close> and
  \<^verbatim>\<open>memcpy\<close>; a write at an index past the vector is undefined behaviour, the
  result \<open>None\<close>. The field offsets are those of \<^verbatim>\<open>IMAGE_DOS_HEADER\<close> (64 bytes,
  \<^verbatim>\<open>e_lfanew\<close> at 0x3C), \<^verbatim>\<open>IMAGE_NT_HEADERS32\<close> (248 bytes) and
  \<^verbatim>\<open>IMAGE_SECTION_HEADER\<close> (40 bytes) of winnt.h.
\<close>

record PatchInfo =
  m_Prologue :: string
  m_Type :: int
  m_Value :: string

text \<open>
  \<^verbatim>\<open>std::from_chars\<close> with base 16 into a 32-bit unsigned value: it consumes the
  longest prefix of hexadecimal digits (either case; no sign, no prefix, no white space),
  reports \<^verbatim>\<open>invalid_argument\<close> when there is none and \<^verbatim>\<open>result_out_of_range\<close>
  when the digits do not fit.
\<close>

datatype from_chars_result = errc_ok u32 | invalid_argument | result_out_of_range

definition hex_digit_value :: "char \<Rightarrow> u32 option" where
  "hex_digit_value c =
     (let n = (of_char c :: nat) in
      if 48 \<le> n \<and> n \<le> 57 then Some (of_nat (n - 48))
      else if 97 \<le> n \<and> n \<le> 102 then Some (of_nat (n - 87))
      else if 65 \<le> n \<and> n \<le> 70 then Some (of_nat (n - 55))
      else None)"

fun from_chars16 :: "string \<Rightarrow> from_chars_result \<Rightarrow> from_chars_result" where
  "from_chars16 [] r = r"
| "from_chars16 (c # cs) r =
     (case hex_digit_value c of
        None \<Rightarrow> r
      | Some v \<Rightarrow>
          from_chars16 cs
            (case r of
               invalid_argument \<Rightarrow> errc_ok v
             | errc_ok a \<Rightarrow> if a \<le> 0x0FFFFFFF then errc_ok (16 * a + v) else result_out_of_range
             | result_out_of_range \<Rightarrow> result_out_of_range))"

definition StringToNumber :: "string \<Rightarrow> u32" where
  "StringToNumber hex =
     (let h = (if take 2 hex = ''0x'' then drop 2 hex else hex) in
      case from_chars16 h invalid_argument of
        errc_ok v \<Rightarrow> v
      | _ \<Rightarrow> 0)"

definition rd8 :: "(u32 \<Rightarrow> u8) \<Rightarrow> u8 list \<Rightarrow> u32 \<Rightarrow> u8" where
  "rd8 oob d i = (if unat i < length d then d ! unat i else oob i)"

definition rd16 :: "(u32 \<Rightarrow> u8) \<Rightarrow> u8 list \<Rightarrow> u32 \<Rightarrow> u16" where
  "rd16 oob d i = ucast (rd8 oob d i) OR push_bit 8 (ucast (rd8 oob d (i + 1)))"

definition rd32 :: "(u32 \<Rightarrow> u8) \<Rightarrow> u8 list \<Rightarrow> u32 \<Rightarrow> u32" where
  "rd32 oob d i =
     ucast (rd8 oob d i) OR push_bit 8 (ucast (rd8 oob d (i + 1)))
       OR push_bit 16 (ucast (rd8 oob d (i + 2))) OR push_bit 24 (ucast (rd8 oob d (i + 3)))"

definition e_lfanew :: "(u32 \<Rightarrow> u8) \<Rightarrow> u8 list \<Rightarrow> u32" where
  "e_lfanew oob d = rd32 oob d 0x3C"

definition IsValidPe :: "(u32 \<Rightarrow> u8) \<Rightarrow> u8 list \<Rightarrow> bool" where
  "IsValidPe oob d =
     (if length d < 64 then False
      else if rd16 oob d 0 \<noteq> 0x5A4D then False
      else if length d < unat (e_lfanew oob d + 248) then False
      else rd32 oob d (e_lfanew oob d) = 0x00004550)"

definition GetImageBase :: "(u32 \<Rightarrow> u8) \<Rightarrow> u8 list \<Rightarrow> u32" where
  "GetImageBase oob d = rd32 oob d (e_lfanew oob d + 0x34)"

fun RvaToOffset_loop :: "(u32 \<Rightarrow> u8) \<Rightarrow> u8 list \<Rightarrow> u32 \<Rightarrow> u32 \<Rightarrow> nat list \<Rightarrow> u32" where
  "RvaToOffset_loop oob d section rva [] = 0"
| "RvaToOffset_loop oob d section rva (i # rest) =
     (let s = section + 40 * of_nat i;
          VirtualSize = rd32 oob d (s + 8);
          VirtualAddress = rd32 oob d (s + 12);
          PointerToRawData = rd32 oob d (s + 20)
      in if rva \<ge> VirtualAddress \<and> rva < VirtualAddress + VirtualSize
         then rva - VirtualAddress + PointerToRawData
         else RvaToOffset_loop oob d section rva rest)"

definition RvaToOffset :: "(u32 \<Rightarrow> u8) \<Rightarrow> u8 list \<Rightarrow> u32 \<Rightarrow> u32" where
  "RvaToOffset oob d rva =
     (let nt = e_lfanew oob d;
          NumberOfSections = rd16 oob d (nt + 6);
          SizeOfOptionalHeader = rd16 oob d (nt + 0x14);
          section = nt + 0x18 + ucast SizeOfOptionalHeader
      in RvaToOffset_loop oob d section rva [0 ..< unat NumberOfSections])"

definition wr8 :: "nat \<Rightarrow> u8 \<Rightarrow> u8 list \<Rightarrow> u8 list option" where
  "wr8 i v d = (if i < length d then Some (d[i := v]) else None)"

definition le_bytes :: "u32 \<Rightarrow> u8 list" where
  "le_bytes v = [ucast v, ucast (drop_bit 8 v), ucast (drop_bit 16 v), ucast (drop_bit 24 v)]"

fun memcpy :: "nat \<Rightarrow> u8 list \<Rightarrow> u8 list \<Rightarrow> u8 list option" where
  "memcpy i [] d = Some d"
| "memcpy i (b # bs) d = (case wr8 i b d of None \<Rightarrow> None | Some d' \<Rightarrow> memcpy (Suc i) bs d')"

definition memcpy_at :: "u32 \<Rightarrow> u32 \<Rightarrow> u8 list \<Rightarrow> u8 list option" where
  "memcpy_at i v d = (if unat i < length d then memcpy (unat i) (le_bytes v) d else None)"

definition patch_offset :: "(u32 \<Rightarrow> u8) \<Rightarrow> u32 \<Rightarrow> PatchInfo \<Rightarrow> u8 list \<Rightarrow> u32" where
  "patch_offset oob image_base info d =
     RvaToOffset oob d (StringToNumber (m_Prologue info) - image_base)"

definition ApplyPatch ::
  "(u32 \<Rightarrow> u8) \<Rightarrow> u32 \<Rightarrow> PatchInfo \<Rightarrow> u8 list \<Rightarrow> (u8 list \<times> bool) option" where
  "ApplyPatch oob image_base info d =
     (let prologue = StringToNumber (m_Prologue info) in
      if prologue < image_base then Some (d, False)
      else
        let rva = prologue - image_base;
            offset = RvaToOffset oob d rva
        in if offset = 0 \<or> unat offset \<ge> unat ((of_nat (length d) :: u32) - 5) then Some (d, False)
           else if m_Type info = 0 then
             Option.bind (wr8 (unat offset) 0xB0 d) (\<lambda>d1.
             Option.bind (wr8 (unat (offset + 1)) 0x01 d1) (\<lambda>d2.
             Option.bind (wr8 (unat (offset + 2)) 0xC3 d2) (\<lambda>d3. Some (d3, True))))
           else if m_Type info \<in> {1, 2, 3} then
             (let val = StringToNumber (m_Value info) in
              Option.bind (wr8 (unat offset) 0xB8 d) (\<lambda>d1.
              Option.bind (memcpy_at (offset + 1) val d1) (\<lambda>d2.
              Option.bind (wr8 (unat (offset + 5)) 0xC3 d2) (\<lambda>d3. Some (d3, True)))))
           else if m_Type info = 4 then
             (let dest = StringToNumber (m_Value info);
                  rel = dest - (prologue + 5)
              in Option.bind (wr8 (unat offset) 0xE9 d) (\<lambda>d1.
                 Option.bind (memcpy_at (offset + 1) rel d1) (\<lambda>d2. Some (d2, True))))
           else Some (d, False))"

fun ApplyPatches_loop ::
  "(u32 \<Rightarrow> u8) \<Rightarrow> u32 \<Rightarrow> (string \<times> PatchInfo) list \<Rightarrow> u8 list \<times> nat \<Rightarrow> (u8 list \<times> nat) option" where
  "ApplyPatches_loop oob image_base [] s = Some s"
| "ApplyPatches_loop oob image_base ((address, info) # rest) (d, num_applied) =
     (case ApplyPatch oob image_base info d of
        None \<Rightarrow> None
      | Some (d', applied) \<Rightarrow>
          ApplyPatches_loop oob image_base rest (d', if applied then Suc num_applied else num_applied))"

definition ApplyPatches ::
  "(u32 \<Rightarrow> u8) \<Rightarrow> u32 \<Rightarrow> (string \<times> PatchInfo) list \<Rightarrow> u8 list \<Rightarrow> (u8 list \<times> bool) option" where
  "ApplyPatches oob image_base patches d =
     map_option (\<lambda>(d', n). (d', n \<noteq> 0)) (ApplyPatches_loop oob image_base patches (d, 0))"


text \<open>
  A small well-formed image: DOS header with \<open>e_lfanew = 0x40\<close>, NT headers with
  \<open>ImageBase = 0x00400000\<close>, one section with virtual address \<open>0x1000\<close>, virtual size
  \<open>0x100\<close> and raw data at file offset \<open>0x200\<close>; 768 bytes in all.
\<close>

definition pe_example :: "u8 list" where
  "pe_example =
     [0x4D, 0x5A] @ replicate 58 0 @ [0x40, 0, 0, 0]
     @ [0x50, 0x45, 0, 0] @ [0x4C, 0x01, 0x01, 0] @ replicate 12 0 @ [0xE0, 0, 0x02, 0x01]
     @ replicate 28 0 @ [0, 0, 0x40, 0] @ replicate 192 0
     @ replicate 8 0x2E @ [0, 0x01, 0, 0] @ [0, 0x10, 0, 0] @ [0, 0x01, 0, 0] @ [0, 0x02, 0, 0]
     @ replicate 16 0
     @ replicate 160 0 @ replicate 256 0x90"

definition patch_example :: "(string \<times> PatchInfo) list" where
  "patch_example =
     [(''0x00401010'', \<lparr>m_Prologue = ''0x00401010'', m_Type = 4, m_Value = ''0x00401080''\<rparr>)]"

subsection \<open>JSON documents (nlohmann::json)\<close>

text \<open>
  The recipe is held as a \<^verbatim>\<open>nlohmann::json\<close> value. An object is a
  \<^verbatim>\<open>std::map\<close> from keys to values: it is modelled by its association list in
  iteration order (ascending keys), so \<^verbatim>\<open>begin()\<close> is the first pair. An access
  that throws, or that the library leaves undefined, is the result \<open>None\<close>.
\<close>

datatype json = JNull | JBool bool | JInt int | JString string
  | JArray "json list" | JObject "(string \<times> json) list"

definition is_object :: "json \<Rightarrow> bool" where
  "is_object j = (case j of JObject _ \<Rightarrow> True | _ \<Rightarrow> False)"

definition is_array :: "json \<Rightarrow> bool" where
  "is_array j = (case j of JArray _ \<Rightarrow> True | _ \<Rightarrow> False)"

definition is_string :: "json \<Rightarrow> bool" where
  "is_string j = (case j of JString _ \<Rightarrow> True | _ \<Rightarrow> False)"

definition is_number_integer :: "json \<Rightarrow> bool" where
  "is_number_integer j = (case j of JInt _ \<Rightarrow> True | _ \<Rightarrow> False)"

definition json_contains :: "json \<Rightarrow> string \<Rightarrow> bool" where
  "json_contains j k = (case j of JObject kvs \<Rightarrow> map_of kvs k \<noteq> None | _ \<Rightarrow> False)"

definition json_at :: "json \<Rightarrow> string \<Rightarrow> json option" where
  "json_at j k = (case j of JObject kvs \<Rightarrow> map_of kvs k | _ \<Rightarrow> None)"

definition json_size :: "json \<Rightarrow> nat" where
  "json_size j =
     (case j of JNull \<Rightarrow> 0 | JArray xs \<Rightarrow> length xs | JObject kvs \<Rightarrow> length kvs | _ \<Rightarrow> 1)"

definition json_empty :: "json \<Rightarrow> bool" where
  "json_empty j = (json_size j = 0)"

definition get_string :: "json \<Rightarrow> string" where
  "get_string j = (case j of JString s \<Rightarrow> s | _ \<Rightarrow> [])"

text \<open>\<^verbatim>\<open>get<int>()\<close> of an integer number: the conversion to a 32-bit \<^verbatim>\<open>int\<close>.\<close>

definition get_int :: "json \<Rightarrow> int" where
  "get_int j = (case j of JInt n \<Rightarrow> sint (word_of_int n :: u32) | _ \<Rightarrow> 0)"

text \<open>\<^verbatim>\<open>j.value(key, false)\<close>: the default for a missing key; it throws on a value that
  is not an object, and on a member that is not a boolean.\<close>

definition json_value_bool :: "json \<Rightarrow> string \<Rightarrow> bool option" where
  "json_value_bool j k =
     (case j of
        JObject kvs \<Rightarrow>
          (case map_of kvs k of None \<Rightarrow> Some False | Some (JBool b) \<Rightarrow> Some b | Some _ \<Rightarrow> None)
      | _ \<Rightarrow> None)"

definition obj_set :: "string \<Rightarrow> json \<Rightarrow> (string \<times> json) list \<Rightarrow> (string \<times> json) list" where
  "obj_set k v kvs =
     (if map_of kvs k = None then insort_key fst (k, v) kvs
      else map (\<lambda>(k', v'). if k' = k then (k', v) else (k', v')) kvs)"

subsection \<open>Hexadecimal formatting (std::format)\<close>

text \<open>
  \<^verbatim>\<open>std::format("0x{:08x}", v)\<close> and \<^verbatim>\<open>"0x{:08X}"\<close> for a 32-bit unsigned \<open>v\<close>: the
  digits of \<open>v\<close> in base 16 without leading zeros (one digit for 0), in lower or upper
  case, padded with zeros on the left to a width of at least 8.
\<close>

definition hex_alphabet :: "bool \<Rightarrow> string" where
  "hex_alphabet upper = (if upper then ''0123456789ABCDEF'' else ''0123456789abcdef'')"

fun to_hex :: "bool \<Rightarrow> nat \<Rightarrow> string" where
  "to_hex upper n =
     (if n < 16 then [hex_alphabet upper ! n]
      else to_hex upper (n div 16) @ [hex_alphabet upper ! (n mod 16)])"

declare to_hex.simps [simp del]

definition format_0x08 :: "bool \<Rightarrow> u32 \<Rightarrow> string" where
  "format_0x08 upper v =
     (let ds = to_hex upper (unat v) in ''0x'' @ replicate (8 - length ds) CHR ''0'' @ ds)"

definition is_hex8 :: "bool \<Rightarrow> string \<Rightarrow> bool" where
  "is_hex8 upper s =
     (take 2 s = ''0x'' \<and> length s = 10 \<and> list_all (\<lambda>c. c \<in> set (hex_alphabet upper)) (drop 2 s))"

subsection \<open>Extractor state (noceg/include/app.h, reader.h)\<close>

text \<open>
  The integer registers of the Win32 \<^verbatim>\<open>CONTEXT\<close> record. The exception dispatcher
  hands the handler a pointer to the record it resumes from; the records live in a store
  indexed by their address, because the handler keeps such a pointer across calls.
\<close>

record CONTEXT =
  Edi :: u32
  Esi :: u32
  Ebx :: u32
  Edx :: u32
  Ecx :: u32
  Eax :: u32
  Ebp :: u32
  Eip :: u32
  EFlags :: u32
  Esp :: u32

record ApplicationManager =
  m_TargetAddress :: u32
  m_BreakpointManager :: BreakpointManager
  m_EipAddress :: u32
  m_CurrentIndex :: nat
  m_RegisterThreadAddress :: u32
  m_JSON :: json
  m_ShouldRestart :: bool
  m_Context :: "u32 option"

record process =
  app :: ApplicationManager
  ram :: memory
  contexts :: "u32 \<Rightarrow> CONTEXT"

text \<open>
  What the operating system contributes: whether \<^verbatim>\<open>VirtualProtect\<close> succeeds at an
  address, whether writing \<^verbatim>\<open>noceg.json\<close> succeeds, and the address of the function
  \<^verbatim>\<open>RestartApp\<close>.
\<close>

record env =
  vprotect :: "u32 \<Rightarrow> bool"
  save_ok :: bool
  RestartApp :: u32

text \<open>\<^verbatim>\<open>JsonReader::UpdateEntry\<close>. The non-const \<^verbatim>\<open>operator[]\<close> creates a missing
  member (and turns \<^verbatim>\<open>null\<close> into an object); \<^verbatim>\<open>begin().value()\<close> of an object or
  an array is its first element.\<close>

definition set_entry_value :: "string \<Rightarrow> json \<Rightarrow> json option" where
  "set_entry_value s data =
     (case data of
        JObject fs \<Rightarrow> Some (JObject (obj_set ''Value'' (JString s) fs))
      | JNull \<Rightarrow> Some (JObject [(''Value'', JString s)])
      | _ \<Rightarrow> None)"

definition update_entry :: "string \<Rightarrow> json \<Rightarrow> json option" where
  "update_entry s entry =
     (case entry of
        JObject ((k, data) # rest) \<Rightarrow>
          map_option (\<lambda>data'. JObject ((k, data') # rest)) (set_entry_value s data)
      | JArray (data # rest) \<Rightarrow>
          map_option (\<lambda>data'. JArray (data' # rest)) (set_entry_value s data)
      | _ \<Rightarrow> None)"

definition UpdateEntry :: "nat \<Rightarrow> u32 \<Rightarrow> json \<Rightarrow> json option" where
  "UpdateEntry index eax j =
     (case j of
        JNull \<Rightarrow> Some (JObject [(''ConstantOrStolen'', JNull)])
      | JObject kvs \<Rightarrow>
          (case map_of kvs ''ConstantOrStolen'' of
             None \<Rightarrow> Some (JObject (obj_set ''ConstantOrStolen'' JNull kvs))
           | Some cs \<Rightarrow>
               if index < json_size cs then
                 (case cs of
                    JArray es \<Rightarrow>
                      map_option
                        (\<lambda>e'. JObject (obj_set ''ConstantOrStolen'' (JArray (es[index := e'])) kvs))
                        (update_entry (format_0x08 True eax) (es ! index))
                  | _ \<Rightarrow> None)
               else Some j)
      | _ \<Rightarrow> None)"

subsection \<open>Entry iteration (noceg/include/entry.h)\<close>

text \<open>
  \<^verbatim>\<open>std::stoull(s, nullptr, 16)\<close>: leading white space, an optional sign, an optional
  \<^verbatim>\<open>0x\<close> prefix, then the longest run of hexadecimal digits. \<open>None\<close> stands for the
  two exceptions (\<^verbatim>\<open>invalid_argument\<close> without a digit, \<^verbatim>\<open>out_of_range\<close> above 64
  bits); a minus sign negates the value in 64-bit arithmetic.
\<close>

definition is_space :: "char \<Rightarrow> bool" where
  "is_space c = (let n = (of_char c :: nat) in (9 \<le> n \<and> n \<le> 13) \<or> n = 32)"

fun stoull_digits :: "string \<Rightarrow> u64 option option \<Rightarrow> u64 option option" where
  "stoull_digits [] r = r"
| "stoull_digits (c # cs) r =
     (case hex_digit_value c of
        None \<Rightarrow> r
      | Some v \<Rightarrow>
          stoull_digits cs
            (case r of
               None \<Rightarrow> Some (Some (ucast v))
             | Some (Some a) \<Rightarrow>
                 if a \<le> 0x0FFFFFFFFFFFFFFF then Some (Some (16 * a + ucast v)) else Some None
             | Some None \<Rightarrow> Some None))"

definition strip_0x :: "string \<Rightarrow> string" where
  "strip_0x s =
     (case s of
        c0 # c1 # c2 # rest \<Rightarrow>
          if c0 = CHR ''0'' \<and> (c1 = CHR ''x'' \<or> c1 = CHR ''X'') \<and> hex_digit_value c2 \<noteq> None
          then c2 # rest else s
      | _ \<Rightarrow> s)"

definition stoull16 :: "string \<Rightarrow> u64 option" where
  "stoull16 s =
     (let t = dropWhile is_space s;
          neg = (t \<noteq> [] \<and> hd t = CHR ''-'');
          u = (if t \<noteq> [] \<and> (hd t = CHR ''-'' \<or> hd t = CHR ''+'') then tl t else t)
      in case stoull_digits (strip_0x u) None of
           Some (Some v) \<Rightarrow> Some (if neg then - v else v)
         | _ \<Rightarrow> None)"

text \<open>The code passed to \<^verbatim>\<open>RaiseException\<close>, and the Win32 exception codes the
  handler switches on.\<close>

definition m_CustomExceptionCode :: u32 where
  "m_CustomExceptionCode = 0xDEADDEAD"

definition EXCEPTION_SINGLE_STEP :: u32 where
  "EXCEPTION_SINGLE_STEP = 0x80000004"

definition EXCEPTION_BREAKPOINT :: u32 where
  "EXCEPTION_BREAKPOINT = 0x80000003"

definition EXCEPTION_ILLEGAL_INSTRUCTION :: u32 where
  "EXCEPTION_ILLEGAL_INSTRUCTION = 0xC000001D"

text \<open>
  How \<^verbatim>\<open>ProcessEntry\<close> ends: it returns (the recipe has no \<^verbatim>\<open>ConstantOrStolen\<close>
  array), it raises the custom exception for the entry it has armed (control passes to
  the exception dispatcher), or it has run through the array and exits the process.
\<close>

datatype pe_outcome = PE_Returned | PE_Raised u32 | PE_ExitProcess

definition SetCurrentIndex :: "nat \<Rightarrow> process \<Rightarrow> process" where
  "SetCurrentIndex i st = st\<lparr>app := (app st)\<lparr>m_CurrentIndex := i\<rparr>\<rparr>"

definition arm_entry :: "env \<Rightarrow> u64 \<Rightarrow> u64 \<Rightarrow> u64 \<Rightarrow> process \<Rightarrow> process" where
  "arm_entry e func_addr bp_addr eip_addr st =
     (let (mem', bp') = SetBreakpoint (vprotect e) (ucast bp_addr)
                          (ram st, m_BreakpointManager (app st))
      in st\<lparr>app := (app st)\<lparr>m_TargetAddress := ucast func_addr, m_EipAddress := ucast eip_addr,
                               m_BreakpointManager := bp'\<rparr>,
             ram := mem'\<rparr>)"

text \<open>One iteration of the loop: \<open>Inl\<close> is \<^verbatim>\<open>continue\<close> (with the state reached),
  \<open>Inr\<close> the raise. The call of the protection's \<^verbatim>\<open>RegisterThread\<close> routine for the
  types 1, 3 and 4 runs code of the protected program and is not part of the model.\<close>

definition process_one :: "env \<Rightarrow> json \<Rightarrow> nat \<Rightarrow> process \<Rightarrow> process + (u32 \<times> process)" where
  "process_one e entry i st =
     (if json_empty entry \<or> \<not> is_object entry then Inl st
      else case entry of
        JObject ((func_key, data) # _) \<Rightarrow>
          if \<not> is_object data then Inl st
          else if \<not> json_contains data ''Value'' \<or> \<not> is_string (the (json_at data ''Value''))
          then Inl st
          else if get_string (the (json_at data ''Value'')) = ''0x00000000'' then
            (let st1 = SetCurrentIndex i st in
             if func_key = [] then Inl st1
             else if \<not> json_contains data ''BP'' \<or> \<not> is_string (the (json_at data ''BP''))
             then Inl st1
             else if \<not> json_contains data ''EIP'' \<or> \<not> is_string (the (json_at data ''EIP''))
             then Inl st1
             else if \<not> json_contains data ''Type''
                     \<or> \<not> is_number_integer (the (json_at data ''Type''))
             then Inl st1
             else
               case stoull16 func_key of None \<Rightarrow> Inl st1 | Some func_addr \<Rightarrow>
               case stoull16 (get_string (the (json_at data ''BP''))) of
                 None \<Rightarrow> Inl st1 | Some bp_addr \<Rightarrow>
               case stoull16 (get_string (the (json_at data ''EIP''))) of
                 None \<Rightarrow> Inl st1 | Some eip_addr \<Rightarrow>
               if func_addr = 0 \<or> bp_addr = 0 \<or> eip_addr = 0 then Inl st1
               else
                 let st2 = arm_entry e func_addr bp_addr eip_addr st1;
                     type = get_int (the (json_at data ''Type''))
                 in if type = 2 then Inr (m_CustomExceptionCode, st2)
                    else if type = 1 \<or> type = 3 \<or> type = 4
                    then Inr (m_CustomExceptionCode, st2)
                    else Inl st2)
          else Inl st
      | _ \<Rightarrow> Inl st)"

fun ProcessEntry_loop :: "env \<Rightarrow> json list \<Rightarrow> nat \<Rightarrow> process \<Rightarrow> pe_outcome \<times> process" where
  "ProcessEntry_loop e [] i st = (PE_ExitProcess, st)"
| "ProcessEntry_loop e (entry # rest) i st =
     (case process_one e entry i st of
        Inl st' \<Rightarrow> ProcessEntry_loop e rest (Suc i) st'
      | Inr (code, st') \<Rightarrow> (PE_Raised code, st'))"

definition ProcessEntry :: "env \<Rightarrow> process \<Rightarrow> pe_outcome \<times> process" where
  "ProcessEntry e st =
     (case json_at (m_JSON (app st)) ''ConstantOrStolen'' of
        Some (JArray es) \<Rightarrow>
          ProcessEntry_loop e (drop (m_CurrentIndex (app st)) es) (m_CurrentIndex (app st)) st
      | _ \<Rightarrow> (PE_Returned, st))"

subsection \<open>Exception handler (noceg/include/handler.h)\<close>

record EXCEPTION_POINTERS =
  ExceptionCode :: u32
  ContextRecord :: u32

datatype disposition = EXCEPTION_CONTINUE_EXECUTION | EXCEPTION_CONTINUE_SEARCH

text \<open>
  How a call of the handler ends: it returns a disposition; or the nested
  \<^verbatim>\<open>ProcessEntry\<close> raises the custom exception or exits the process; or
  \<^verbatim>\<open>std::exit\<close> is called; or an exception escapes the \<^verbatim>\<open>noexcept\<close> handler
  (\<^verbatim>\<open>std::terminate\<close>).
\<close>

datatype handler_outcome =
  H_Return disposition | H_Raised u32 | H_ExitProcess | H_Terminate

definition ctx_update :: "u32 \<Rightarrow> (CONTEXT \<Rightarrow> CONTEXT) \<Rightarrow> process \<Rightarrow> process" where
  "ctx_update p f st = st\<lparr>contexts := (contexts st)(p := f (contexts st p))\<rparr>"

definition handle_breakpoint ::
  "env \<Rightarrow> EXCEPTION_POINTERS \<Rightarrow> process \<Rightarrow> handler_outcome \<times> process" where
  "handle_breakpoint e ei st =
     (let ctx = ContextRecord ei in
      if Eip (contexts st ctx) = GetAddress (m_BreakpointManager (app st)) then
        (let (mem', bp') = RemoveBreakpoint (vprotect e) (ram st, m_BreakpointManager (app st));
             st1 = st\<lparr>app := (app st)\<lparr>m_BreakpointManager := bp'\<rparr>, ram := mem'\<rparr>;
             index = m_CurrentIndex (app st1)
         in case json_at (m_JSON (app st1)) ''ConstantOrStolen'' of
              None \<Rightarrow> (H_Terminate, st1)
            | Some cs \<Rightarrow>
                if index < json_size cs then
                  (case UpdateEntry index (Eax (contexts st1 ctx)) (m_JSON (app st1)) of
                     None \<Rightarrow> (H_Terminate, st1)
                   | Some j' \<Rightarrow>
                       let st2 = st1\<lparr>app := (app st1)\<lparr>m_JSON := j'\<rparr>\<rparr> in
                       if \<not> save_ok e then (H_Return EXCEPTION_CONTINUE_EXECUTION, st2)
                       else
                         (case json_value_bool j' ''ShouldRestart'' of
                            None \<Rightarrow> (H_Terminate, st2)
                          | Some True \<Rightarrow>
                              (H_Return EXCEPTION_CONTINUE_EXECUTION,
                               ctx_update ctx (\<lambda>c. c\<lparr>Eip := RestartApp e\<rparr>)
                                 (st2\<lparr>app := (app st2)\<lparr>m_ShouldRestart := True\<rparr>\<rparr>))
                          | Some False \<Rightarrow>
                              (case m_Context (app st2) of
                                 None \<Rightarrow> (H_Terminate, st2)
                               | Some saved \<Rightarrow>
                                   (case ProcessEntry e (SetCurrentIndex (index + 1) st2) of
                                      (PE_Returned, st3) \<Rightarrow>
                                        (H_Return EXCEPTION_CONTINUE_EXECUTION, st3)
                                    | (PE_Raised code, st3) \<Rightarrow> (H_Raised code, st3)
                                    | (PE_ExitProcess, st3) \<Rightarrow> (H_ExitProcess, st3)))))
                else (H_Return EXCEPTION_CONTINUE_EXECUTION, st1))
      else (H_Return EXCEPTION_CONTINUE_SEARCH, st))"

definition CEGExceptionHandler ::
  "env \<Rightarrow> bool \<Rightarrow> EXCEPTION_POINTERS \<Rightarrow> process \<Rightarrow> handler_outcome \<times> process" where
  "CEGExceptionHandler e instance ei st =
     (if \<not> instance then (H_Return EXCEPTION_CONTINUE_SEARCH, st)
      else
        let ctx = ContextRecord ei; code = ExceptionCode ei in
        if code = 0xCEADDEAD then
          (H_Return EXCEPTION_CONTINUE_EXECUTION,
           ctx_update ctx (\<lambda>c. c\<lparr>EFlags := EFlags c OR 0x100\<rparr>)
             (ctx_update ctx (\<lambda>c. c\<lparr>Eip := m_EipAddress (app st)\<rparr>)
                (st\<lparr>app := (app st)\<lparr>m_Context := Some ctx\<rparr>\<rparr>)))
        else if code = EXCEPTION_SINGLE_STEP then
          (H_Return EXCEPTION_CONTINUE_EXECUTION,
           if Eip (contexts st ctx) = m_TargetAddress (app st)
           then ctx_update ctx (\<lambda>c. c\<lparr>EFlags := EFlags c AND NOT 0x100\<rparr>) st
           else st)
        else if code = EXCEPTION_BREAKPOINT then handle_breakpoint e ei st
        else if code = EXCEPTION_ILLEGAL_INSTRUCTION then
          (if m_ShouldRestart (app st) then (H_ExitProcess, st)
           else (H_Return EXCEPTION_CONTINUE_SEARCH, st))
        else (H_Return EXCEPTION_CONTINUE_SEARCH, st))"

subsection \<open>Raising the custom exception (Win32 \<^verbatim>\<open>RaiseException\<close>)\<close>

text \<open>
  \<^verbatim>\<open>RaiseException\<close> is a function of the Win32 API (kernel32), not of this
  program. The model keeps of it what the handler reads. The exception record it builds
  carries the code it was given with bit 28 cleared: the bit is reserved by the system
  and never reaches a handler. The dispatcher then calls the vectored handlers with that
  record and the context record of the raising thread (the address \<open>context\<close>).
\<close>

definition RaiseException :: "u32 \<Rightarrow> u32 \<Rightarrow> EXCEPTION_POINTERS" where
  "RaiseException dwExceptionCode context =
     \<lparr>ExceptionCode = dwExceptionCode AND NOT (push_bit 28 1), ContextRecord = context\<rparr>"

text \<open>The capture step of the handler on the context record at \<open>p\<close>: the pointer to
  the record is saved, \<open>Eip\<close> is redirected to the entry's \<^verbatim>\<open>EIP\<close> address and the
  trap flag is set.\<close>

definition capture_step :: "u32 \<Rightarrow> process \<Rightarrow> process" where
  "capture_step p st =
     st\<lparr>app := (app st)\<lparr>m_Context := Some p\<rparr>,
        contexts := (contexts st)
          (p := (contexts st p)\<lparr>Eip := m_EipAddress (app st),
                                 EFlags := EFlags (contexts st p) OR 0x100\<rparr>)\<rparr>"

subsection \<open>Unfilled entries of the recipe\<close>

text \<open>
  An entry is unfilled when \<^verbatim>\<open>ProcessEntry\<close> takes it as not yet processed: a
  non-empty object whose first member is an object with a string member \<^verbatim>\<open>Value\<close>
  equal to \<^verbatim>\<open>"0x00000000"\<close> (entry.h, the tests before and at line 85).
\<close>

definition entry_unfilled :: "json \<Rightarrow> bool" where
  "entry_unfilled entry =
     (case entry of
        JObject ((k, JObject fs) # rest) \<Rightarrow> map_of fs ''Value'' = Some (JString ''0x00000000'')
      | _ \<Rightarrow> False)"

definition entries :: "json \<Rightarrow> json list" where
  "entries j = (case json_at j ''ConstantOrStolen'' of Some (JArray es) \<Rightarrow> es | _ \<Rightarrow> [])"

definition unfilled :: "json \<Rightarrow> json multiset" where
  "unfilled j = mset (filter entry_unfilled (entries j))"

text \<open>The state in which a breakpoint hit finds the extractor after \<^verbatim>\<open>ProcessEntry\<close>
  has raised: the current index points at an unfilled entry.\<close>

definition armed_inv :: "process \<Rightarrow> bool" where
  "armed_inv st =
     (m_CurrentIndex (app st) < length (entries (m_JSON (app st)))
      \<and> entry_unfilled (entries (m_JSON (app st)) ! m_CurrentIndex (app st)))"

definition bp_hit :: "EXCEPTION_POINTERS \<Rightarrow> process \<Rightarrow> bool" where
  "bp_hit ei st =
     (ExceptionCode ei = EXCEPTION_BREAKPOINT
      \<and> Eip (contexts st (ContextRecord ei)) = GetAddress (m_BreakpointManager (app st)))"

subsection \<open>A two-entry recipe and an extractor run on it\<close>

definition ex_entry :: "string \<Rightarrow> string \<Rightarrow> string \<Rightarrow> string \<Rightarrow> int \<Rightarrow> json" where
  "ex_entry func eip bp val ty =
     JObject [(func, JObject [(''BP'', JString bp), (''EIP'', JString eip),
                              (''Prologue'', JString func), (''Type'', JInt ty),
                              (''Value'', JString val)])]"

definition ex_recipe :: json where
  "ex_recipe =
     JObject [(''ConstantOrStolen'',
                JArray [ex_entry ''0x00401000'' ''0x00500000'' ''0x00500020'' ''0x00000000'' 1,
                        ex_entry ''0x00402000'' ''0x00600000'' ''0x00600020'' ''0x00000000'' 4]),
              (''Init'', JString ''0x00403000''),
              (''Integrity'', JArray []),
              (''RegisterThread'', JString ''0x00404000''),
              (''ShouldRestart'', JBool False),
              (''Terminate'', JString ''0x00405000''),
              (''TestSecret'', JArray []),
              (''Version'', JInt 2)]"

definition ex_env :: env where
  "ex_env = \<lparr>vprotect = (\<lambda>_. True), save_ok = True, RestartApp = 0x10001000\<rparr>"

text \<open>The registers at the raise site, and at the breakpoint hit.\<close>

definition ex_context :: CONTEXT where
  "ex_context = \<lparr>Edi = 1, Esi = 2, Ebx = 3, Edx = 4, Ecx = 5, Eax = 6, Ebp = 0x0012FF00,
                  Eip = 0x00700000, EFlags = 0x202, Esp = 0x0012FE00\<rparr>"

definition ex_bp_context :: CONTEXT where
  "ex_bp_context = \<lparr>Edi = 7, Esi = 8, Ebx = 9, Edx = 10, Ecx = 11, Eax = 0xDEADBEEF,
                     Ebp = 0x0012FD00, Eip = 0x00500020, EFlags = 0x202, Esp = 0x0012FC00\<rparr>"

definition ex_process :: process where
  "ex_process =
     \<lparr>app = \<lparr>m_TargetAddress = 0, m_BreakpointManager = BreakpointManager_init,
              m_EipAddress = 0, m_CurrentIndex = 0, m_RegisterThreadAddress = 0x00404000,
              m_JSON = ex_recipe, m_ShouldRestart = False, m_Context = None\<rparr>,
      ram = (\<lambda>_. 0x90),
      contexts = (\<lambda>_. ex_context)\<rparr>"

text \<open>The state after \<^verbatim>\<open>ProcessEntry\<close> has armed the first entry.\<close>

definition ex_armed :: process where
  "ex_armed =
     \<lparr>app = \<lparr>m_TargetAddress = 0x00401000,
              m_BreakpointManager =
                \<lparr>m_Address = 0x00500020, m_BackupByte = 0x90, m_IsSet = True\<rparr>,
              m_EipAddress = 0x00500000, m_CurrentIndex = 0,
              m_RegisterThreadAddress = 0x00404000,
              m_JSON = ex_recipe, m_ShouldRestart = False, m_Context = None\<rparr>,
      ram = (\<lambda>_. 0x90)(0x00500020 := 0xCC),
      contexts = (\<lambda>_. ex_context)\<rparr>"

text \<open>The custom exception is delivered with the context record at \<open>0x0012F000\<close>, the
  breakpoint exception with the record at \<open>0x0012E000\<close>.\<close>

definition ex_redirected :: process where
  "ex_redirected =
     ex_armed\<lparr>app := (app ex_armed)\<lparr>m_Context := Some 0x0012F000\<rparr>,
              contexts := (\<lambda>_. ex_context)
                (0x0012F000 := ex_context\<lparr>Eip := 0x00500000, EFlags := 0x302\<rparr>)\<rparr>"

definition ex_at_breakpoint :: "u32 \<Rightarrow> process" where
  "ex_at_breakpoint eax =
     ex_redirected\<lparr>contexts := (contexts ex_redirected)
                      (0x0012E000 := ex_bp_context\<lparr>Eax := eax\<rparr>)\<rparr>"

subsection \<open>Analyzer globals and address arithmetic (noceg_signatures/include/utils.h)\<close>

datatype Error =
  FileNotFound | FileReadError | InvalidPattern | DecoderInitFailed | InvalidAddress
  | EmptyContent | NullBaseAddress | InvalidDOSHeader | InvalidPEHeader | NullImageBase
  | EmptyNtHeader | NullRawPointer | NullVirtualSize | FileWriteError | OutputFileCreateError

text \<open>
  A \<^verbatim>\<open>std::multimap\<close> from the function address to the tuple (prologue, eip, bp): the
  list of its pairs in iteration order, ascending by key; \<^verbatim>\<open>emplace\<close> puts a new pair
  after the pairs whose key is not greater.
\<close>

type_synonym multimap = "(u32 \<times> (u32 \<times> u32 \<times> u32)) list"

definition emplace :: "u32 \<Rightarrow> u32 \<times> u32 \<times> u32 \<Rightarrow> multimap \<Rightarrow> multimap" where
  "emplace k v m = takeWhile (\<lambda>kv. fst kv \<le> k) m @ (k, v) # dropWhile (\<lambda>kv. fst kv \<le> k) m"

definition keys :: "multimap \<Rightarrow> u32 set" where
  "keys m = fst ` set m"

record Data =
  CEG_CODE_BASE :: u32
  CEG_IMAGEBASE_RAW :: u32
  CEG_IMAGEBASE_MEMORY :: u32
  CEG_VIRTUAL_ADDRESS :: u32
  CEG_RAW_DATA_POINTER :: u32
  CEG_PROTECTED_STOLEN_FUNCS_v1 :: multimap
  CEG_PROTECTED_STOLEN_FUNCS_v2 :: multimap
  CEG_PROTECTED_STOLEN_FUNCS_v3 :: multimap
  CEG_PROTECTED_CONSTANT_FUNCS :: multimap
  CEG_REGISTER_THREAD_FUNC_FUNCS :: "u32 list"
  CEG_INTEGRITY_FUNCS :: "u32 list"
  CEG_TESTSECRET_FUNCS :: "u32 list"
  CEG_INIT_LIBRARY_FUNC :: u32
  CEG_TERM_LIBRARY_FUNC :: u32
  CEG_REGISTER_THREAD_FUNC :: u32
  CEG_OLD_VERSION :: u32
  CEG_ASLR_ENABLED :: bool

definition CEG_SCAN_SIZE :: nat where
  "CEG_SCAN_SIZE = 300"

definition CalculateRealAddress :: "Data \<Rightarrow> u32 \<Rightarrow> u32 \<Rightarrow> u32" where
  "CalculateRealAddress D address_start address_current =
     CEG_CODE_BASE D + (address_current - address_start)"

definition VaToOffset :: "Data \<Rightarrow> u32 \<Rightarrow> u32" where
  "VaToOffset D va =
     CEG_IMAGEBASE_MEMORY D
       + (va - CEG_IMAGEBASE_RAW D - CEG_VIRTUAL_ADDRESS D + CEG_RAW_DATA_POINTER D)"

subsection \<open>Pattern scanner\<close>

text \<open>
  Modelled from the spec: the wildcard pattern scanner (\<^verbatim>\<open>mem::pattern\<close>,
  \<^verbatim>\<open>mem::default_scanner\<close>) is a third-party library that is not among the sources.
  Section 4.2 of the specification: a pattern is a sequence of bytes and wildcards, a
  wildcard matches any byte, a region is \<open>(base, length)\<close>, half-open, and
  \<^verbatim>\<open>find_first\<close> returns the first address of the region at which the whole pattern
  matches inside the region, or none (the null pointer).
\<close>

type_synonym pattern = "u8 option list"

fun matches_at :: "memory \<Rightarrow> pattern \<Rightarrow> u32 \<Rightarrow> bool" where
  "matches_at m [] a = True"
| "matches_at m (None # p) a = matches_at m p (a + 1)"
| "matches_at m (Some b # p) a = (m a = b \<and> matches_at m p (a + 1))"

fun scan :: "memory \<Rightarrow> pattern \<Rightarrow> u32 \<Rightarrow> nat \<Rightarrow> u32" where
  "scan m p a n =
     (if n = 0 then 0
      else if matches_at m p a then a
      else scan m p (a + 1) (n - 1))"

declare scan.simps [simp del]

definition FindFunction :: "memory \<Rightarrow> pattern \<Rightarrow> u32 \<Rightarrow> nat \<Rightarrow> u32" where
  "FindFunction m p address region_size = scan m p address (Suc region_size - length p)"

subsection \<open>Instruction decoder\<close>

text \<open>
  The Zydis decoder is a third-party library: the analyzer takes the decoder as a
  parameter, a function from the memory and an address to the instruction decoded there
  (\<open>None\<close> when decoding fails). Of a decoded instruction the analyzer reads the
  mnemonic, the length and the first two operands.
\<close>

datatype mnemonic = CALL | JMP | MOV | PUSH | MNEMONIC_OTHER

datatype register = EAX | ECX | EDX | EBX | ESP | EBP | ESI | EDI | REGISTER_OTHER

datatype operand = OPERAND_IMMEDIATE int | OPERAND_REGISTER register | OPERAND_OTHER

record instruction =
  mnemonic_of :: mnemonic
  instr_length :: nat
  operand0 :: operand
  operand1 :: operand

type_synonym decoder = "memory \<Rightarrow> u32 \<Rightarrow> instruction option"

definition imm_value :: "operand \<Rightarrow> int" where
  "imm_value x = (case x of OPERAND_IMMEDIATE v \<Rightarrow> v | _ \<Rightarrow> 0)"

definition is_immediate :: "operand \<Rightarrow> bool" where
  "is_immediate x = (case x of OPERAND_IMMEDIATE _ \<Rightarrow> True | _ \<Rightarrow> False)"

subsection \<open>Instruction analyzer (noceg_signatures/include/analyzer.h)\<close>

definition FINALIZE_CRC_PATTERNS :: "pattern list" where
  "FINALIZE_CRC_PATTERNS =
     [[Some 0xE8, None, None, None, None, Some 0x8D, None, None, None, None, None,
       Some 0xE8, None, None, None, None, Some 0x8B, Some 0x0D, None, None, None, None,
       Some 0x8B],
      [Some 0xE8, None, None, None, None, Some 0x8D, None, None,
       Some 0xE8, None, None, None, None, Some 0x8B, Some 0x0D, None, None, None, None,
       Some 0x8B],
      [Some 0xE8, None, None, None, None, Some 0x8D, None, None, None,
       Some 0xE8, None, None, None, None, Some 0x8B, Some 0x0D, None, None, None, None,
       Some 0x8B],
      [Some 0xE8, None, None, None, None, Some 0x8D, None, None,
       Some 0xE8, None, None, None, None, Some 0x5F],
      [Some 0xE8, None, None, None, None, Some 0x8D, None, None, None, None, None,
       Some 0xE8, None, None, None, None, Some 0x5F],
      [Some 0xE8, None, None, None, None, Some 0x8D, None, None, None,
       Some 0xE8, None, None, None, None, Some 0x5F]]"

definition FINALIZE_CRC_OFFSETS :: "u32 list" where
  "FINALIZE_CRC_OFFSETS = [16, 13, 14, 13, 16, 14]"

text \<open>The first pattern, in the order of the table, that is found in the 300 bytes at
  the target, with the address of its hit and its offset.\<close>

fun find_finalize_crc :: "memory \<Rightarrow> u32 \<Rightarrow> (pattern \<times> u32) list \<Rightarrow> (u32 \<times> u32) option" where
  "find_finalize_crc m target_func [] = None"
| "find_finalize_crc m target_func ((p, off) # rest) =
     (let finalize_crc = FindFunction m p target_func CEG_SCAN_SIZE
      in if finalize_crc \<noteq> 0 then Some (finalize_crc, off)
         else find_finalize_crc m target_func rest)"

definition IsTargetInstruction :: "instruction \<Rightarrow> bool" where
  "IsTargetInstruction ins =
     ((mnemonic_of ins = CALL \<and> is_immediate (operand0 ins))
      \<or> (mnemonic_of ins = JMP \<and> is_immediate (operand0 ins))
      \<or> (mnemonic_of ins = MOV \<and> operand0 ins = OPERAND_REGISTER EAX
          \<and> is_immediate (operand1 ins)))"

definition is_push_ebp :: "instruction \<Rightarrow> bool" where
  "is_push_ebp ins = (mnemonic_of ins = PUSH \<and> operand0 ins = OPERAND_REGISTER EBP)"

definition is_mov_ebp_esp :: "instruction \<Rightarrow> bool" where
  "is_mov_ebp_esp ins =
     (mnemonic_of ins = MOV \<and> operand0 ins = OPERAND_REGISTER EBP
      \<and> operand1 ins = OPERAND_REGISTER ESP)"

text \<open>The test of \<^verbatim>\<open>FindFunctionPrologue\<close> at one offset: \<^verbatim>\<open>push ebp\<close> decoded
  there and \<^verbatim>\<open>mov ebp, esp\<close> decoded right after it.\<close>

definition prologue_at :: "decoder \<Rightarrow> memory \<Rightarrow> u32 \<Rightarrow> nat \<Rightarrow> bool" where
  "prologue_at dec m base off =
     (case dec m (base + of_nat off) of
        None \<Rightarrow> False
      | Some ins \<Rightarrow>
          is_push_ebp ins
          \<and> (case dec m (base + of_nat (off + instr_length ins)) of
                None \<Rightarrow> False
              | Some nxt \<Rightarrow> is_mov_ebp_esp nxt))"

text \<open>The loop \<^verbatim>\<open>for (offset = call_offset; offset > start_scan; --offset)\<close>.\<close>

fun prologue_scan :: "decoder \<Rightarrow> memory \<Rightarrow> Data \<Rightarrow> u32 \<Rightarrow> nat \<Rightarrow> nat \<Rightarrow> u32" where
  "prologue_scan dec m D base start_scan 0 = 0"
| "prologue_scan dec m D base start_scan (Suc n) =
     (if Suc n > start_scan then
        (if prologue_at dec m base (Suc n)
         then CalculateRealAddress D base (base + of_nat (Suc n))
         else prologue_scan dec m D base start_scan n)
      else 0)"

definition FindFunctionPrologue :: "decoder \<Rightarrow> memory \<Rightarrow> Data \<Rightarrow> u32 \<Rightarrow> nat \<Rightarrow> u32" where
  "FindFunctionPrologue dec m D base_address call_offset =
     (let start_scan = (if call_offset > CEG_SCAN_SIZE then call_offset - CEG_SCAN_SIZE else 0)
      in prologue_scan dec m D base_address start_scan call_offset)"

definition GetCEGFunctionType ::
  "decoder \<Rightarrow> memory \<Rightarrow> u32 \<Rightarrow> u32 \<Rightarrow> u32 \<Rightarrow> nat \<Rightarrow> u32 \<Rightarrow> Data \<Rightarrow> Data" where
  "GetCEGFunctionType dec m current_address bp address call_offset target_func D =
     (let eip = CalculateRealAddress D address current_address;
          real_bp = CalculateRealAddress D address bp;
          next = current_address + 5
      in if CEG_OLD_VERSION D \<noteq> 0 then
           (if m next = 0xFF \<and> m (next + 1) = 0xD0 then
              (if m (current_address - 1) = 0x51
               then D\<lparr>CEG_PROTECTED_STOLEN_FUNCS_v1 :=
                        emplace target_func (target_func, eip - 1, real_bp)
                          (CEG_PROTECTED_STOLEN_FUNCS_v1 D)\<rparr>
               else D\<lparr>CEG_PROTECTED_STOLEN_FUNCS_v1 :=
                        emplace target_func (target_func, eip, real_bp)
                          (CEG_PROTECTED_STOLEN_FUNCS_v1 D)\<rparr>)
            else if m next = 0xFF \<and> m (next + 1) = 0xE0 then
              D\<lparr>CEG_PROTECTED_STOLEN_FUNCS_v2 :=
                   emplace target_func (target_func, eip, real_bp)
                     (CEG_PROTECTED_STOLEN_FUNCS_v2 D)\<rparr>
            else D)
         else
           (if m next = 0xC3 \<or> m next = 0x89 then
              D\<lparr>CEG_PROTECTED_CONSTANT_FUNCS :=
                   emplace target_func (target_func, eip, real_bp)
                     (CEG_PROTECTED_CONSTANT_FUNCS D)\<rparr>
            else if m next = 0xFF \<and> m (next + 1) = 0xE0 then
              D\<lparr>CEG_PROTECTED_STOLEN_FUNCS_v2 :=
                   emplace target_func (target_func, eip, real_bp)
                     (CEG_PROTECTED_STOLEN_FUNCS_v2 D)\<rparr>
            else if m current_address = 0xEB then
              D\<lparr>CEG_PROTECTED_CONSTANT_FUNCS :=
                   emplace target_func (target_func, eip, real_bp)
                     (CEG_PROTECTED_CONSTANT_FUNCS D)\<rparr>
            else
              (let prologue = FindFunctionPrologue dec m D address call_offset
               in if prologue \<noteq> 0
                  then D\<lparr>CEG_PROTECTED_STOLEN_FUNCS_v3 :=
                           emplace target_func (prologue, eip, real_bp)
                             (CEG_PROTECTED_STOLEN_FUNCS_v3 D)\<rparr>
                  else D\<lparr>CEG_PROTECTED_STOLEN_FUNCS_v3 :=
                           emplace target_func (target_func, eip, real_bp)
                             (CEG_PROTECTED_STOLEN_FUNCS_v3 D)\<rparr>)))"

text \<open>The block of \<^verbatim>\<open>ProcessProtectedFunction\<close> for older versions whose stubs match
  none of the patterns (analyzer.h, lines 183 to 202).\<close>

definition legacy_fallback :: "memory \<Rightarrow> u32 \<Rightarrow> u32 \<Rightarrow> u32 \<Rightarrow> Data \<Rightarrow> Data" where
  "legacy_fallback m current_address target_func address D =
     (let next_instruction_address = current_address + 5 in
      if m next_instruction_address = 0xFF \<and> m (next_instruction_address + 1) = 0xD0 then
        (let func = CalculateRealAddress D address target_func;
             eip = CalculateRealAddress D address (current_address - 1);
             bp = CalculateRealAddress D address (next_instruction_address + 2)
         in if m (current_address - 1) = 0x51
            then D\<lparr>CEG_PROTECTED_STOLEN_FUNCS_v1 :=
                     emplace func (func, eip, bp) (CEG_PROTECTED_STOLEN_FUNCS_v1 D)\<rparr>
            else D\<lparr>CEG_PROTECTED_STOLEN_FUNCS_v1 :=
                     emplace func (func, eip + 1, bp) (CEG_PROTECTED_STOLEN_FUNCS_v1 D)\<rparr>)
      else D)"

definition ProcessProtectedFunction ::
  "decoder \<Rightarrow> memory \<Rightarrow> u32 \<Rightarrow> u32 \<Rightarrow> u32 \<Rightarrow> nat \<Rightarrow> Data \<Rightarrow> Data" where
  "ProcessProtectedFunction dec m current_address target_func address call_offset D =
     (case find_finalize_crc m target_func (zip FINALIZE_CRC_PATTERNS FINALIZE_CRC_OFFSETS) of
        Some (finalize_crc, off) \<Rightarrow>
          GetCEGFunctionType dec m current_address (finalize_crc + off) address call_offset
            (CalculateRealAddress D address target_func) D
      | None \<Rightarrow>
          if CEG_OLD_VERSION D \<noteq> 0 then legacy_fallback m current_address target_func address D
          else D)"

definition ProcessTargetInstruction ::
  "decoder \<Rightarrow> memory \<Rightarrow> instruction \<Rightarrow> u32 \<Rightarrow> nat \<Rightarrow> u32 list \<Rightarrow> Data \<Rightarrow> Data" where
  "ProcessTargetInstruction dec m ins address off protect_funcs D =
     (let current_address = address + of_nat off;
          call_target =
            (if mnemonic_of ins = MOV
             then VaToOffset D (word_of_int (imm_value (operand1 ins)))
             else current_address
                    + word_of_int (imm_value (operand0 ins) + int (instr_length ins)));
          D1 = (if CEG_REGISTER_THREAD_FUNC D = 0 \<and> CEG_REGISTER_THREAD_FUNC_FUNCS D \<noteq> []
                   \<and> call_target \<in> set (CEG_REGISTER_THREAD_FUNC_FUNCS D)
                then D\<lparr>CEG_REGISTER_THREAD_FUNC := call_target\<rparr> else D)
      in if call_target \<in> set protect_funcs
         then ProcessProtectedFunction dec m current_address call_target address off D1
         else D1)"

text \<open>
  \<^verbatim>\<open>ProcessInstruction\<close>: nothing is decoded within 15 bytes
  (\<^verbatim>\<open>ZYDIS_MAX_INSTRUCTION_LENGTH\<close>) of the end of the data. The data handed to the
  decoder is a copy of the file from the section's raw data on, so it holds the bytes the
  memory holds at \<open>address\<close>. The offset advances by one byte after every attempt.
\<close>

definition ProcessInstruction ::
  "decoder \<Rightarrow> memory \<Rightarrow> nat \<Rightarrow> u32 \<Rightarrow> nat \<Rightarrow> u32 list \<Rightarrow> Data \<Rightarrow> Data" where
  "ProcessInstruction dec m data_size address off protect_funcs D =
     (if off + 15 > data_size then D
      else case dec m (address + of_nat off) of
             None \<Rightarrow> D
           | Some ins \<Rightarrow>
               if IsTargetInstruction ins
               then ProcessTargetInstruction dec m ins address off protect_funcs D
               else D)"

function analyze_loop ::
  "decoder \<Rightarrow> memory \<Rightarrow> nat \<Rightarrow> u32 \<Rightarrow> u32 list \<Rightarrow> nat \<Rightarrow> Data \<Rightarrow> Data" where
  "analyze_loop dec m data_size address funcs off D =
     (if off < data_size
      then analyze_loop dec m data_size address funcs (Suc off)
             (ProcessInstruction dec m data_size address off funcs D)
      else D)"
  by pat_completeness auto
termination
  by (relation "measure (\<lambda>(dec, m, data_size, address, funcs, off, D). data_size - off)") auto

declare analyze_loop.simps [simp del]

definition AnalyzeCEGProtectedFunctions ::
  "decoder \<Rightarrow> memory \<Rightarrow> nat \<Rightarrow> u32 \<Rightarrow> u32 list \<Rightarrow> Data \<Rightarrow> Data" where
  "AnalyzeCEGProtectedFunctions dec m data_size address funcs D =
     analyze_loop dec m data_size address funcs 0 D"

subsection \<open>De-duplication (noceg_signatures/main.cpp)\<close>

definition erase_key :: "u32 \<Rightarrow> multimap \<Rightarrow> multimap" where
  "erase_key k m = filter (\<lambda>kv. fst kv \<noteq> k) m"

fun remove_ref :: "multimap \<Rightarrow> Data \<Rightarrow> Data" where
  "remove_ref [] D = D"
| "remove_ref ((key, v) # container) D =
     remove_ref container
       (D\<lparr>CEG_PROTECTED_STOLEN_FUNCS_v2 := erase_key key (CEG_PROTECTED_STOLEN_FUNCS_v2 D)\<rparr>)"

definition remove_duplicates :: "Data \<Rightarrow> Data" where
  "remove_duplicates D =
     (if CEG_OLD_VERSION D \<noteq> 0 then remove_ref (CEG_PROTECTED_STOLEN_FUNCS_v1 D) D
      else remove_ref (CEG_PROTECTED_STOLEN_FUNCS_v3 D)
             (remove_ref (CEG_PROTECTED_CONSTANT_FUNCS D) D))"

definition analyzer_pass ::
  "decoder \<Rightarrow> memory \<Rightarrow> nat \<Rightarrow> u32 \<Rightarrow> u32 list \<Rightarrow> Data \<Rightarrow> Data" where
  "analyzer_pass dec m data_size address funcs D =
     remove_duplicates (AnalyzeCEGProtectedFunctions dec m data_size address funcs D)"

subsection \<open>A code section for the analyzer\<close>

definition read32 :: "memory \<Rightarrow> u32 \<Rightarrow> u32" where
  "read32 m a =
     ucast (m a) OR push_bit 8 (ucast (m (a + 1))) OR push_bit 16 (ucast (m (a + 2)))
       OR push_bit 24 (ucast (m (a + 3)))"

definition read16 :: "memory \<Rightarrow> u32 \<Rightarrow> u16" where
  "read16 m a = ucast (m a) OR push_bit 8 (ucast (m (a + 1)))"

text \<open>
  The x86 encodings that occur in the example section, decoded as any x86 decoder
  decodes them in 32-bit mode: \<^verbatim>\<open>E8 rel32\<close> (call), \<^verbatim>\<open>E9 rel32\<close> (jmp),
  \<^verbatim>\<open>B8 imm32\<close> (mov eax, imm32), \<^verbatim>\<open>55\<close> (push ebp), \<^verbatim>\<open>8B EC\<close> (mov ebp, esp),
  \<^verbatim>\<open>90\<close> (nop) and \<^verbatim>\<open>C3\<close> (ret).
\<close>

definition decode_fragment :: decoder where
  "decode_fragment m a =
     (if m a = 0xE8 then
        Some \<lparr>mnemonic_of = CALL, instr_length = 5,
              operand0 = OPERAND_IMMEDIATE (sint (read32 m (a + 1))), operand1 = OPERAND_OTHER\<rparr>
      else if m a = 0xE9 then
        Some \<lparr>mnemonic_of = JMP, instr_length = 5,
              operand0 = OPERAND_IMMEDIATE (sint (read32 m (a + 1))), operand1 = OPERAND_OTHER\<rparr>
      else if m a = 0xB8 then
        Some \<lparr>mnemonic_of = MOV, instr_length = 5, operand0 = OPERAND_REGISTER EAX,
              operand1 = OPERAND_IMMEDIATE (uint (read32 m (a + 1)))\<rparr>
      else if m a = 0x55 then
        Some \<lparr>mnemonic_of = PUSH, instr_length = 1, operand0 = OPERAND_REGISTER EBP,
              operand1 = OPERAND_OTHER\<rparr>
      else if m a = 0x8B \<and> m (a + 1) = 0xEC then
        Some \<lparr>mnemonic_of = MOV, instr_length = 2, operand0 = OPERAND_REGISTER EBP,
              operand1 = OPERAND_REGISTER ESP\<rparr>
      else if m a = 0x90 \<or> m a = 0xC3 then
        Some \<lparr>mnemonic_of = MNEMONIC_OTHER, instr_length = 1, operand0 = OPERAND_OTHER,
              operand1 = OPERAND_OTHER\<rparr>
      else None)"

text \<open>
  A section of 112 bytes loaded at \<open>0x10001000\<close>, code base \<open>0x00401000\<close>. Offset 16:
  \<^verbatim>\<open>push ebp; mov ebp, esp\<close>. Offset 32: a call of the stub at offset 48, followed
  by \<^verbatim>\<open>nop\<close>.
  Offset 38: a call of the stub at offset 48, followed by \<^verbatim>\<open>ret\<close>. Offset 48: a stub
  that starts with the bytes of the first finalize-CRC pattern. Offset 71:
  \<^verbatim>\<open>push ecx\<close>, a call of the stub at offset 80, \<^verbatim>\<open>call eax\<close>. Offset 80: a stub
  that matches no pattern.
\<close>

definition ex_section :: "u8 list" where
  "ex_section =
     [
      0x90, 0x90, 0x90, 0x90, 0x90, 0x90, 0x90, 0x90, 0x90, 0x90, 0x90, 0x90, 0x90, 0x90, 0x90, 0x90,
      0x55, 0x8B, 0xEC, 0x90, 0x90, 0x90, 0x90, 0x90, 0x90, 0x90, 0x90, 0x90, 0x90, 0x90, 0x90, 0x90,
      0xE8, 0x0B, 0x00, 0x00, 0x00, 0x90, 0xE8, 0x05, 0x00, 0x00, 0x00, 0xC3, 0x90, 0x90, 0x90, 0x90,
      0xE8, 0x00, 0x00, 0x00, 0x00, 0x8D, 0x4D, 0xF0, 0x90, 0x90, 0x90, 0xE8, 0x00, 0x00, 0x00, 0x00,
      0x8B, 0x0D, 0x00, 0x00, 0x00, 0x00, 0x8B, 0x51, 0xE8, 0x03, 0x00, 0x00, 0x00, 0xFF, 0xD0, 0x90,
      0x90, 0x90, 0x90, 0x90, 0x90, 0x90, 0x90, 0x90, 0x90, 0x90, 0x90, 0x90, 0x90, 0x90, 0x90, 0x90,
      0x90, 0x90, 0x90, 0x90, 0x90, 0x90, 0x90, 0x90, 0x90, 0x90, 0x90, 0x90, 0x90, 0x90, 0x90, 0x90]"

definition ex_mem :: memory where
  "ex_mem a = (if a - 0x10001000 < 112 then ex_section ! unat (a - 0x10001000) else 0)"

definition ex_Data :: "u32 \<Rightarrow> Data" where
  "ex_Data old_version =
     \<lparr>CEG_CODE_BASE = 0x00401000, CEG_IMAGEBASE_RAW = 0x00400000,
      CEG_IMAGEBASE_MEMORY = 0x10000C00, CEG_VIRTUAL_ADDRESS = 0x1000,
      CEG_RAW_DATA_POINTER = 0x400,
      CEG_PROTECTED_STOLEN_FUNCS_v1 = [], CEG_PROTECTED_STOLEN_FUNCS_v2 = [],
      CEG_PROTECTED_STOLEN_FUNCS_v3 = [], CEG_PROTECTED_CONSTANT_FUNCS = [],
      CEG_REGISTER_THREAD_FUNC_FUNCS = [], CEG_INTEGRITY_FUNCS = [], CEG_TESTSECRET_FUNCS = [],
      CEG_INIT_LIBRARY_FUNC = 0, CEG_TERM_LIBRARY_FUNC = 0, CEG_REGISTER_THREAD_FUNC = 0,
      CEG_OLD_VERSION = old_version, CEG_ASLR_ENABLED = False\<rparr>"

text \<open>The \<open>eip\<close> of a StolenV1 record as the specification states it: one byte before
  the call site when that byte is \<^verbatim>\<open>push ecx\<close> (\<open>51\<close>), the call site otherwise; as
  an address of the image.\<close>

definition StolenV1_eip :: "memory \<Rightarrow> Data \<Rightarrow> u32 \<Rightarrow> u32 \<Rightarrow> u32" where
  "StolenV1_eip m D address call_site =
     (if m (call_site - 1) = 0x51 then CalculateRealAddress D address call_site - 1
      else CalculateRealAddress D address call_site)"

text \<open>The function addresses recorded in the four variant maps.\<close>

definition recorded :: "Data \<Rightarrow> u32 set" where
  "recorded D =
     keys (CEG_PROTECTED_CONSTANT_FUNCS D) \<union> keys (CEG_PROTECTED_STOLEN_FUNCS_v1 D)
       \<union> keys (CEG_PROTECTED_STOLEN_FUNCS_v2 D) \<union> keys (CEG_PROTECTED_STOLEN_FUNCS_v3 D)"

text \<open>What every step of the analyzer pass keeps, relative to the globals \<open>D0\<close> it
  started from.\<close>

definition pass_inv :: "Data \<Rightarrow> u32 \<Rightarrow> u32 list \<Rightarrow> Data \<Rightarrow> bool" where
  "pass_inv D0 address funcs D =
     (CEG_OLD_VERSION D = CEG_OLD_VERSION D0 \<and> CEG_CODE_BASE D = CEG_CODE_BASE D0
      \<and> (if CEG_OLD_VERSION D0 \<noteq> 0
          then CEG_PROTECTED_STOLEN_FUNCS_v3 D = [] \<and> CEG_PROTECTED_CONSTANT_FUNCS D = []
          else CEG_PROTECTED_STOLEN_FUNCS_v1 D = [])
      \<and> recorded D \<subseteq> CalculateRealAddress D0 address ` set funcs)"

subsection \<open>A code section that starts with a function\<close>

text \<open>
  A section of 112 bytes loaded at \<open>0x10001000\<close>, code base \<open>0x00401000\<close>. Offset 0:
  \<^verbatim>\<open>push ebp; mov ebp, esp\<close>, the prologue of the function the section starts with.
  Offset 8: \<^verbatim>\<open>push ebp; nop\<close>. Offset 10: \<^verbatim>\<open>nop; mov ebp, esp\<close>. Offset 32: a
  call of the stub at offset 48, followed by \<^verbatim>\<open>nop\<close>. Offset 48: a stub that starts
  with the bytes of the first finalize-CRC pattern.
\<close>

definition ex_start_section :: "u8 list" where
  "ex_start_section =
     [
      0x55, 0x8B, 0xEC, 0x90, 0x90, 0x90, 0x90, 0x90, 0x55, 0x90, 0x90, 0x8B, 0xEC, 0x90, 0x90, 0x90,
      0x90, 0x90, 0x90, 0x90, 0x90, 0x90, 0x90, 0x90, 0x90, 0x90, 0x90, 0x90, 0x90, 0x90, 0x90, 0x90,
      0xE8, 0x0B, 0x00, 0x00, 0x00, 0x90, 0x90, 0x90, 0x90, 0x90, 0x90, 0x90, 0x90, 0x90, 0x90, 0x90,
      0xE8, 0x00, 0x00, 0x00, 0x00, 0x8D, 0x4D, 0xF0, 0x90, 0x90, 0x90, 0xE8, 0x00, 0x00, 0x00, 0x00,
      0x8B, 0x0D, 0x00, 0x00, 0x00, 0x00, 0x8B, 0x90, 0x90, 0x90, 0x90, 0x90, 0x90, 0x90, 0x90, 0x90,
      0x90, 0x90, 0x90, 0x90, 0x90, 0x90, 0x90, 0x90, 0x90, 0x90, 0x90, 0x90, 0x90, 0x90, 0x90, 0x90,
      0x90, 0x90, 0x90, 0x90, 0x90, 0x90, 0x90, 0x90, 0x90, 0x90, 0x90, 0x90, 0x90, 0x90, 0x90, 0x90]"

definition ex_start_mem :: memory where
  "ex_start_mem a =
     (if a - 0x10001000 < 112 then ex_start_section ! unat (a - 0x10001000) else 0)"

text \<open>The same bytes one byte further into the section, after a \<^verbatim>\<open>nop\<close> at offset 0:
  the function starts at offset 1, the call is at offset 33, the stub at offset 49.\<close>

definition ex_shifted_mem :: memory where
  "ex_shifted_mem a = (if a = 0x10001000 then 0x90 else ex_start_mem (a - 1))"

subsection \<open>Call sites and their classification (specification, section 4.3)\<close>

text \<open>
  The four variant maps, and which global holds each: ConstantV2 is
  \<^verbatim>\<open>CEG_PROTECTED_CONSTANT_FUNCS\<close>, StolenV1 to StolenV3 are
  \<^verbatim>\<open>CEG_PROTECTED_STOLEN_FUNCS_v1\<close> to \<^verbatim>\<open>_v3\<close>.
\<close>

datatype variant = ConstantV2 | StolenV1 | StolenV2 | StolenV3

definition variant_map :: "variant \<Rightarrow> Data \<Rightarrow> multimap" where
  "variant_map v D =
     (case v of
        ConstantV2 \<Rightarrow> CEG_PROTECTED_CONSTANT_FUNCS D
      | StolenV1 \<Rightarrow> CEG_PROTECTED_STOLEN_FUNCS_v1 D
      | StolenV2 \<Rightarrow> CEG_PROTECTED_STOLEN_FUNCS_v2 D
      | StolenV3 \<Rightarrow> CEG_PROTECTED_STOLEN_FUNCS_v3 D)"

text \<open>
  The instructions of interest and their target, in the words of section 4.3:
  \<^verbatim>\<open>CALL imm\<close> or \<^verbatim>\<open>JMP imm\<close>, with target
  \<open>current_address + instr_length + imm\<close>, and \<^verbatim>\<open>MOV EAX, imm\<close>, whose target is
  the image address \<open>imm\<close> converted to a memory address.
\<close>

definition site_target :: "Data \<Rightarrow> u32 \<Rightarrow> instruction \<Rightarrow> u32 option" where
  "site_target D current_address ins =
     (if (mnemonic_of ins = CALL \<or> mnemonic_of ins = JMP) \<and> is_immediate (operand0 ins)
      then Some (current_address + of_nat (instr_length ins)
                   + word_of_int (imm_value (operand0 ins)))
      else if mnemonic_of ins = MOV \<and> operand0 ins = OPERAND_REGISTER EAX
              \<and> is_immediate (operand1 ins)
      then Some (VaToOffset D (word_of_int (imm_value (operand1 ins))))
      else None)"

text \<open>A finalize-CRC pattern occurs within the first 300 bytes of the stub.\<close>

definition pattern_found :: "memory \<Rightarrow> u32 \<Rightarrow> bool" where
  "pattern_found m target =
     (\<exists>p \<in> set FINALIZE_CRC_PATTERNS. FindFunction m p target CEG_SCAN_SIZE \<noteq> 0)"

text \<open>
  The classification rules of section 4.3.1 as the analyzer applies them. Modern binary:
  a pattern must occur in the stub; then \<open>C3\<close> or \<open>89\<close> after the call is ConstantV2,
  \<open>FF E0\<close> is StolenV2, \<open>EB\<close> at the call site is ConstantV2, anything else StolenV3.
  Legacy binary: \<open>FF D0\<close> after the call is StolenV1, with or without a pattern;
  \<open>FF E0\<close> is StolenV2 when a pattern occurs; anything else is not recorded.
\<close>

definition classify :: "memory \<Rightarrow> bool \<Rightarrow> u32 \<Rightarrow> u32 \<Rightarrow> variant option" where
  "classify m legacy call_site target =
     (let next = call_site + 5;
          call_eax = (m next = 0xFF \<and> m (next + 1) = 0xD0);
          jmp_eax = (m next = 0xFF \<and> m (next + 1) = 0xE0)
      in if legacy then
           (if call_eax then Some StolenV1
            else if jmp_eax \<and> pattern_found m target then Some StolenV2
            else None)
         else if \<not> pattern_found m target then None
         else if m next = 0xC3 \<or> m next = 0x89 then Some ConstantV2
         else if jmp_eax then Some StolenV2
         else if m call_site = 0xEB then Some ConstantV2
         else Some StolenV3)"

text \<open>
  What the offset \<open>off\<close> of the section contributes: when an instruction of interest is
  decoded there, at least 15 bytes before the end of the data, and its target is a
  protected function that the rules classify, the variant and the image address of the
  target.
\<close>

definition variant_at ::
  "decoder \<Rightarrow> memory \<Rightarrow> nat \<Rightarrow> u32 \<Rightarrow> u32 list \<Rightarrow> Data \<Rightarrow> nat \<Rightarrow> (variant \<times> u32) option" where
  "variant_at dec m data_size address funcs D off =
     (if off + 15 \<le> data_size then
        (case dec m (address + of_nat off) of
           None \<Rightarrow> None
         | Some ins \<Rightarrow>
             (case site_target D (address + of_nat off) ins of
                None \<Rightarrow> None
              | Some target \<Rightarrow>
                  if target \<in> set funcs
                  then map_option (\<lambda>v. (v, CalculateRealAddress D address target))
                         (classify m (CEG_OLD_VERSION D \<noteq> 0) (address + of_nat off) target)
                  else None))
      else None)"

text \<open>The image addresses of the targets with a call site classified as \<open>v\<close>.\<close>

definition classified ::
  "decoder \<Rightarrow> memory \<Rightarrow> nat \<Rightarrow> u32 \<Rightarrow> u32 list \<Rightarrow> Data \<Rightarrow> variant \<Rightarrow> u32 set" where
  "classified dec m data_size address funcs D v =
     (\<Union>off \<in> set [0 ..< data_size].
        case variant_at dec m data_size address funcs D off of
          None \<Rightarrow> {}
        | Some (v', k) \<Rightarrow> if v' = v then {k} else {})"

text \<open>The globals the address arithmetic reads are those of \<open>D0\<close>.\<close>

definition same_image :: "Data \<Rightarrow> Data \<Rightarrow> bool" where
  "same_image D0 D =
     (CEG_OLD_VERSION D = CEG_OLD_VERSION D0 \<and> CEG_CODE_BASE D = CEG_CODE_BASE D0
      \<and> CEG_IMAGEBASE_RAW D = CEG_IMAGEBASE_RAW D0
      \<and> CEG_IMAGEBASE_MEMORY D = CEG_IMAGEBASE_MEMORY D0
      \<and> CEG_VIRTUAL_ADDRESS D = CEG_VIRTUAL_ADDRESS D0
      \<and> CEG_RAW_DATA_POINTER D = CEG_RAW_DATA_POINTER D0)"

subsection \<open>PE image loader (noceg_signatures/include/utils.h)\<close>

text \<open>
  \<^verbatim>\<open>LoadBinaryImage\<close> reads the headers through raw pointers into the buffer
  \<^verbatim>\<open>content\<close> (its address \<open>content_data\<close>, its length \<open>content_size\<close>) and
  writes the globals, its two out-parameters and, when the dynamic-base flag is set, the
  \<^verbatim>\<open>DllCharacteristics\<close> field in the buffer. The layout is that of winnt.h:
  \<^verbatim>\<open>e_magic\<close> at 0 and \<^verbatim>\<open>e_lfanew\<close> at 0x3C of the DOS header;
  \<^verbatim>\<open>Signature\<close> at 0, \<^verbatim>\<open>SizeOfOptionalHeader\<close> at 0x14, \<^verbatim>\<open>ImageBase\<close> at 0x34
  and \<^verbatim>\<open>DllCharacteristics\<close> at 0x5E of the NT headers; the first section header at
  \<open>0x18 + SizeOfOptionalHeader\<close> (\<^verbatim>\<open>IMAGE_FIRST_SECTION\<close>), with \<^verbatim>\<open>VirtualSize\<close>
  at 8, \<^verbatim>\<open>VirtualAddress\<close> at 12 and \<^verbatim>\<open>PointerToRawData\<close> at 20.
\<close>

record loader_state =
  globals :: Data
  image :: memory
  out_address :: u32
  out_size :: u32

definition write16 :: "memory \<Rightarrow> u32 \<Rightarrow> u16 \<Rightarrow> memory" where
  "write16 m a v = m(a := ucast v, a + 1 := ucast (drop_bit 8 v))"

definition IMAGE_DLLCHARACTERISTICS_DYNAMIC_BASE :: u16 where
  "IMAGE_DLLCHARACTERISTICS_DYNAMIC_BASE = 0x0040"

definition IsASLREnabled :: "u32 \<Rightarrow> loader_state \<Rightarrow> bool \<times> loader_state" where
  "IsASLREnabled nt_headers s =
     (if nt_headers = 0 then (False, s)
      else
        let enabled = (read16 (image s) (nt_headers + 0x5E)
                         AND IMAGE_DLLCHARACTERISTICS_DYNAMIC_BASE \<noteq> 0)
        in (enabled, s\<lparr>globals := (globals s)\<lparr>CEG_ASLR_ENABLED := enabled\<rparr>\<rparr>))"

definition DisableASLR :: "u32 \<Rightarrow> loader_state \<Rightarrow> Error option \<times> loader_state" where
  "DisableASLR nt_headers s =
     (if nt_headers = 0 then (Some InvalidPEHeader, s)
      else if CEG_ASLR_ENABLED (globals s)
      then (None, s\<lparr>image := write16 (image s) (nt_headers + 0x5E)
                              (read16 (image s) (nt_headers + 0x5E)
                                 AND NOT IMAGE_DLLCHARACTERISTICS_DYNAMIC_BASE)\<rparr>)
      else (None, s))"

definition LoadBinaryImage :: "u32 \<Rightarrow> nat \<Rightarrow> loader_state \<Rightarrow> Error option \<times> loader_state" where
  "LoadBinaryImage content_data content_size s =
     (if content_size = 0 then (Some EmptyContent, s)
      else
        let s1 = s\<lparr>globals := (globals s)\<lparr>CEG_IMAGEBASE_MEMORY := content_data\<rparr>\<rparr> in
        if content_data = 0 then (Some NullBaseAddress, s1)
        else if read16 (image s1) content_data \<noteq> 0x5A4D then (Some InvalidDOSHeader, s1)
        else
          let nt_headers = content_data + read32 (image s1) (content_data + 0x3C) in
          if read32 (image s1) nt_headers \<noteq> 0x00004550 then (Some InvalidPEHeader, s1)
          else if read32 (image s1) (nt_headers + 0x34) = 0 then (Some NullImageBase, s1)
          else
            let s2 = s1\<lparr>globals := (globals s1)
                         \<lparr>CEG_IMAGEBASE_RAW := read32 (image s1) (nt_headers + 0x34)\<rparr>\<rparr>;
                section_header =
                  nt_headers + 0x18 + ucast (read16 (image s2) (nt_headers + 0x14))
            in
            if section_header = 0 then (Some EmptyNtHeader, s2)
            else if read32 (image s2) (section_header + 20) = 0 then (Some NullRawPointer, s2)
            else
              let s3 = s2\<lparr>globals := (globals s2)
                           \<lparr>CEG_RAW_DATA_POINTER := read32 (image s2) (section_header + 20)\<rparr>,
                         out_address := content_data + read32 (image s2) (section_header + 20),
                         out_size := read32 (image s2) (section_header + 8)\<rparr>
              in
              if out_size s3 = 0 then (Some NullVirtualSize, s3)
              else
                let s4 = s3\<lparr>globals := (globals s3)
                             \<lparr>CEG_VIRTUAL_ADDRESS := read32 (image s3) (section_header + 12),
                              CEG_CODE_BASE := CEG_IMAGEBASE_RAW (globals s3)
                                                 + read32 (image s3) (section_header + 12)\<rparr>\<rparr>;
                    (enabled, s5) = IsASLREnabled nt_headers s4
                in if enabled then (None, snd (DisableASLR nt_headers s5)) else (None, s5))"

text \<open>The globals as the program starts with them, and the image of the patcher's
  example file loaded at \<open>0x10000000\<close>; with the byte at \<open>0x141\<close> cleared its first
  section has virtual size 0.\<close>

definition Data_init :: Data where
  "Data_init =
     \<lparr>CEG_CODE_BASE = 0, CEG_IMAGEBASE_RAW = 0, CEG_IMAGEBASE_MEMORY = 0,
      CEG_VIRTUAL_ADDRESS = 0, CEG_RAW_DATA_POINTER = 0,
      CEG_PROTECTED_STOLEN_FUNCS_v1 = [], CEG_PROTECTED_STOLEN_FUNCS_v2 = [],
      CEG_PROTECTED_STOLEN_FUNCS_v3 = [], CEG_PROTECTED_CONSTANT_FUNCS = [],
      CEG_REGISTER_THREAD_FUNC_FUNCS = [], CEG_INTEGRITY_FUNCS = [], CEG_TESTSECRET_FUNCS = [],
      CEG_INIT_LIBRARY_FUNC = 0, CEG_TERM_LIBRARY_FUNC = 0, CEG_REGISTER_THREAD_FUNC = 0,
      CEG_OLD_VERSION = 0, CEG_ASLR_ENABLED = False\<rparr>"

definition ex_image :: memory where
  "ex_image a = (if a - 0x10000000 < 768 then pe_example ! unat (a - 0x10000000) else 0)"

definition ex_loader_state :: "memory \<Rightarrow> loader_state" where
  "ex_loader_state m = \<lparr>globals = Data_init, image = m, out_address = 0, out_size = 0\<rparr>"

subsection \<open>Recipe writer (noceg_signatures/include/writer.h)\<close>

definition add_protected_funcs :: "multimap \<Rightarrow> int \<Rightarrow> json list" where
  "add_protected_funcs container type =
     map (\<lambda>(func, prologue, eip, bp).
            JObject [(format_0x08 False func,
                      JObject [(''BP'', JString (format_0x08 False bp)),
                               (''EIP'', JString (format_0x08 False eip)),
                               (''Prologue'', JString (format_0x08 False prologue)),
                               (''Type'', JInt type),
                               (''Value'', JString ''0x00000000'')])])
         container"

definition add_funcs :: "u32 list \<Rightarrow> json" where
  "add_funcs container = JArray (map (\<lambda>address. JString (format_0x08 False address)) container)"

definition WriteJSON :: "Data \<Rightarrow> json" where
  "WriteJSON D =
     JObject
       [(''ConstantOrStolen'',
           JArray (add_protected_funcs (CEG_PROTECTED_CONSTANT_FUNCS D) 1
                   @ add_protected_funcs (CEG_PROTECTED_STOLEN_FUNCS_v1 D) 2
                   @ add_protected_funcs (CEG_PROTECTED_STOLEN_FUNCS_v2 D) 3
                   @ add_protected_funcs (CEG_PROTECTED_STOLEN_FUNCS_v3 D) 4)),
        (''Init'', JString (format_0x08 False (CEG_INIT_LIBRARY_FUNC D))),
        (''Integrity'', add_funcs (CEG_INTEGRITY_FUNCS D)),
        (''RegisterThread'', JString (format_0x08 False (CEG_REGISTER_THREAD_FUNC D))),
        (''ShouldRestart'', JBool False),
        (''Terminate'', JString (format_0x08 False (CEG_TERM_LIBRARY_FUNC D))),
        (''TestSecret'', add_funcs (CEG_TESTSECRET_FUNCS D)),
        (''Version'', JInt (if CEG_OLD_VERSION D \<noteq> 0 then 1 else 2))]"

text \<open>Every string value of a document, and the keys of the entries of its
  \<^verbatim>\<open>ConstantOrStolen\<close> array (the function addresses).\<close>

fun json_strings :: "json \<Rightarrow> string list" where
  "json_strings (JString s) = [s]"
| "json_strings (JArray xs) = concat (map json_strings xs)"
| "json_strings (JObject kvs) = concat (map (\<lambda>kv. json_strings (snd kv)) kvs)"
| "json_strings _ = []"

definition entry_keys :: "json \<Rightarrow> string list" where
  "entry_keys j =
     concat (map (\<lambda>e. case e of JObject kvs \<Rightarrow> map fst kvs | _ \<Rightarrow> []) (entries j))"

text \<open>The member \<^verbatim>\<open>Value\<close> of an entry, read the way \<^verbatim>\<open>UpdateEntry\<close> reaches it:
  the member \<^verbatim>\<open>Value\<close> of \<^verbatim>\<open>entry.begin().value()\<close>.\<close>

definition entry_value :: "json \<Rightarrow> json option" where
  "entry_value entry =
     (case entry of
        JObject ((k, data) # rest) \<Rightarrow> json_at data ''Value''
      | JArray (data # rest) \<Rightarrow> json_at data ''Value''
      | _ \<Rightarrow> None)"

section \<open>Properties\<close>

subsection \<open>Breakpoint primitive\<close>

lemma SetBreakpoint_armed:
  "\<not> m_IsSet bp \<Longrightarrow> vp a \<Longrightarrow>
   SetBreakpoint vp a (mem, bp) =
     (mem(a := 0xCC), \<lparr>m_Address = a, m_BackupByte = mem a, m_IsSet = True\<rparr>)"
  by (simp add: SetBreakpoint_def)

text \<open>
  C6. The documentation of \<^verbatim>\<open>GetAddress\<close> promises 0 while no breakpoint is set.
  The code never clears \<open>m_Address\<close>: after a breakpoint is armed at \<open>0x00500020\<close>
  and removed again, no breakpoint is set, the original byte is back in memory, and
  \<^verbatim>\<open>GetAddress\<close> still returns \<open>0x00500020\<close>.
\<close>

theorem C6_GetAddress_after_remove:
  "(let s1 = SetBreakpoint (\<lambda>_. True) 0x00500020 (\<lambda>_. 0x90, BreakpointManager_init);
        s2 = RemoveBreakpoint (\<lambda>_. True) s1
    in IsSet (snd s1) \<and> GetAddress (snd s1) = 0x00500020 \<and> fst s1 0x00500020 = 0xCC
       \<and> \<not> IsSet (snd s2) \<and> GetAddress (snd s2) = 0x00500020 \<and> GetAddress (snd s2) \<noteq> 0
       \<and> fst s2 0x00500020 = 0x90)"
  by (simp add: SetBreakpoint_def RemoveBreakpoint_def BreakpointManager_init_def
      GetAddress_def IsSet_def Let_def)

subsection \<open>Patcher\<close>

lemma memcpy_Some:
  "i + length bs \<le> length d \<Longrightarrow>
   \<exists>d'. memcpy i bs d = Some d' \<and> length d' = length d \<and>
        (\<forall>j. j < i \<or> i + length bs \<le> j \<longrightarrow> d' ! j = d ! j)"
proof (induction bs arbitrary: i d)
  case Nil
  then show ?case by simp
next
  case (Cons b bs)
  have "Suc i + length bs \<le> length (d[i := b])" using Cons.prems by simp
  from Cons.IH[OF this] obtain d' where
    d': "memcpy (Suc i) bs (d[i := b]) = Some d'" "length d' = length d"
      "\<forall>j. j < Suc i \<or> Suc i + length bs \<le> j \<longrightarrow> d' ! j = (d[i := b]) ! j"
    by auto
  have "memcpy i (b # bs) d = Some d'"
    using Cons.prems d'(1) by (simp add: wr8_def)
  moreover have "\<forall>j. j < i \<or> i + length (b # bs) \<le> j \<longrightarrow> d' ! j = d ! j"
    using d'(3) by auto
  ultimately show ?case using d'(2) by blast
qed

lemma offset_bounds:
  fixes offset :: u32
  assumes "64 \<le> length d" "length d < 2 ^ 32"
    and "\<not> (offset = 0 \<or> unat offset \<ge> unat ((of_nat (length d) :: u32) - 5))"
  shows "1 \<le> unat offset \<and> unat offset + 5 < length d"
proof -
  have n: "unat (of_nat (length d) :: u32) = length d"
    using assms(2) by (simp add: unat_of_nat)
  have "(5 :: u32) \<le> of_nat (length d)"
    using assms(1) n by (simp add: word_le_nat_alt)
  then have "unat ((of_nat (length d) :: u32) - 5) = length d - 5"
    using n by (simp add: unat_sub)
  moreover have "unat offset \<noteq> 0" using assms(3) by (simp add: unat_eq_zero)
  ultimately show ?thesis using assms by auto
qed

lemma unat_plus_small:
  fixes offset :: u32
  assumes "unat offset + 5 < n" "n < 2 ^ 32" "k \<le> 5"
  shows "unat (offset + of_nat k) = unat offset + k"
proof -
  have "unat offset + k < 2 ^ 32" using assms by simp
  moreover have "unat (of_nat k :: u32) = k" using assms by (simp add: unat_of_nat)
  ultimately show ?thesis by (simp add: unat_add_lem[THEN iffD1])
qed

lemma ApplyPatch_in_bounds:
  assumes len: "64 \<le> length d" "length d < 2 ^ 32"
  shows "\<exists>d' applied. ApplyPatch oob image_base info d = Some (d', applied)
           \<and> length d' = length d
           \<and> (applied \<longrightarrow> 1 \<le> unat (patch_offset oob image_base info d)
                          \<and> unat (patch_offset oob image_base info d) + 5 < length d)
           \<and> (\<forall>j. j < unat (patch_offset oob image_base info d)
                    \<or> unat (patch_offset oob image_base info d) + 5 < j \<longrightarrow> d' ! j = d ! j)"
proof -
  define prologue where "prologue = StringToNumber (m_Prologue info)"
  define offset where "offset = RvaToOffset oob d (prologue - image_base)"
  have po: "patch_offset oob image_base info d = offset"
    by (simp add: patch_offset_def offset_def prologue_def)
  show ?thesis
  proof (cases "prologue < image_base \<or> offset = 0
                  \<or> unat offset \<ge> unat ((of_nat (length d) :: u32) - 5)")
    case True
    then have "ApplyPatch oob image_base info d = Some (d, False)"
      by (auto simp: ApplyPatch_def Let_def prologue_def offset_def)
    then show ?thesis by auto
  next
    case False
    then have nb: "\<not> (offset = 0 \<or> unat offset \<ge> unat ((of_nat (length d) :: u32) - 5))"
      and np: "\<not> prologue < image_base" by auto
    from offset_bounds[OF len nb] have ob: "1 \<le> unat offset" "unat offset + 5 < length d"
      by auto
    have u1: "unat (offset + 1) = unat offset + 1"
      using unat_plus_small[OF ob(2) len(2), of 1] by simp
    have u2: "unat (offset + 2) = unat offset + 2"
      using unat_plus_small[OF ob(2) len(2), of 2] by simp
    have u5: "unat (offset + 5) = unat offset + 5"
      using unat_plus_small[OF ob(2) len(2), of 5] by simp
    have mc: "\<exists>d'. memcpy_at (offset + 1) v e = Some d' \<and> length d' = length e \<and>
                (\<forall>j. j < unat offset + 1 \<or> unat offset + 5 \<le> j \<longrightarrow> d' ! j = e ! j)"
      if "length e = length d" for v e
    proof -
      have l4: "length (le_bytes v) = 4" by (simp add: le_bytes_def)
      then have "unat offset + 1 + length (le_bytes v) \<le> length e"
        using ob that by simp
      from memcpy_Some[OF this] obtain d' where
        "memcpy (unat offset + 1) (le_bytes v) e = Some d'" "length d' = length e"
        "\<forall>j. j < unat offset + 1 \<or> unat offset + 1 + length (le_bytes v) \<le> j
           \<longrightarrow> d' ! j = e ! j"
        by blast
      then show ?thesis
        using ob that l4 by (simp add: memcpy_at_def u1)
    qed
    consider (t0) "m_Type info = 0" | (t123) "m_Type info \<in> {1, 2, 3}" | (t4) "m_Type info = 4"
      | (other) "m_Type info \<noteq> 0" "m_Type info \<notin> {1, 2, 3}" "m_Type info \<noteq> 4"
      by blast
    then show ?thesis
    proof cases
      case t0
      have "ApplyPatch oob image_base info d =
              Some (d[unat offset := 0xB0, unat offset + 1 := 0x01, unat offset + 2 := 0xC3], True)"
        using nb np t0 ob
        by (simp add: ApplyPatch_def Let_def prologue_def[symmetric] offset_def[symmetric]
            wr8_def u1 u2)
      then show ?thesis using ob by (auto simp: po)
    next
      case t123
      define d1 where "d1 = d[unat offset := 0xB8]"
      obtain d2 where d2: "memcpy_at (offset + 1) (StringToNumber (m_Value info)) d1 = Some d2"
        "length d2 = length d1"
        "\<forall>j. j < unat offset + 1 \<or> unat offset + 5 \<le> j \<longrightarrow> d2 ! j = d1 ! j"
        using mc[of d1] by (auto simp: d1_def)
      have "ApplyPatch oob image_base info d = Some (d2[unat offset + 5 := 0xC3], True)"
        using nb np t123 ob d2(1,2)
        by (simp add: ApplyPatch_def Let_def prologue_def[symmetric] offset_def[symmetric]
            wr8_def u5 d1_def[symmetric])
           (auto simp: d1_def)
      moreover have "\<forall>j. j < unat offset \<or> unat offset + 5 < j
                       \<longrightarrow> (d2[unat offset + 5 := 0xC3]) ! j = d ! j"
        using d2(3) by (auto simp: d1_def)
      ultimately show ?thesis using ob d2(2) by (auto simp: po d1_def)
    next
      case t4
      define d1 where "d1 = d[unat offset := 0xE9]"
      obtain d2 where d2:
        "memcpy_at (offset + 1) (StringToNumber (m_Value info) - (prologue + 5)) d1 = Some d2"
        "length d2 = length d1"
        "\<forall>j. j < unat offset + 1 \<or> unat offset + 5 \<le> j \<longrightarrow> d2 ! j = d1 ! j"
        using mc[of d1] by (auto simp: d1_def)
      have "ApplyPatch oob image_base info d = Some (d2, True)"
        using nb np t4 ob d2(1,2)
        by (simp add: ApplyPatch_def Let_def prologue_def[symmetric] offset_def[symmetric]
            wr8_def d1_def[symmetric])
      moreover have "\<forall>j. j < unat offset \<or> unat offset + 5 < j \<longrightarrow> d2 ! j = d ! j"
        using d2(3) by (auto simp: d1_def)
      ultimately show ?thesis using ob d2(2) by (auto simp: po d1_def)
    next
      case other
      then have "ApplyPatch oob image_base info d = Some (d, False)"
        using nb np
        by (simp add: ApplyPatch_def Let_def prologue_def[symmetric] offset_def[symmetric])
      then show ?thesis by auto
    qed
  qed
qed

lemma ApplyPatches_loop_Some:
  "64 \<le> length d \<Longrightarrow> length d < 2 ^ 32 \<Longrightarrow>
   \<exists>d' n'. ApplyPatches_loop oob image_base patches (d, n) = Some (d', n')
             \<and> length d' = length d"
proof (induction patches arbitrary: d n)
  case Nil
  then show ?case by simp
next
  case (Cons p patches)
  obtain address info where p: "p = (address, info)" by (cases p)
  from ApplyPatch_in_bounds[OF Cons.prems, of oob image_base info]
  obtain d1 applied where a: "ApplyPatch oob image_base info d = Some (d1, applied)"
    "length d1 = length d" by blast
  from Cons.IH[of d1] Cons.prems a(2)
  obtain d' n' where "ApplyPatches_loop oob image_base patches
      (d1, if applied then Suc n else n) = Some (d', n')" "length d' = length d1"
    by fastforce
  then show ?case using a p by simp
qed

text \<open>
  C10. For a file that passed \<^verbatim>\<open>IsValidPe\<close> (held in a 32-bit address space),
  \<^verbatim>\<open>ApplyPatches\<close> never writes past the end of the file data, whatever the recipe
  and whatever the header fields say: the run returns, the buffer keeps its length, and
  every single patch, applied to any buffer of that length, changes nothing outside the
  indices \<open>offset .. offset + 5\<close>; when it is applied (counted), \<open>1 \<le> offset\<close> and
  \<open>offset + 5 < size\<close>.
\<close>

theorem C10_ApplyPatches_in_bounds:
  assumes "IsValidPe oob d" and "length d < 2 ^ 32"
  shows "(\<exists>d' ok. ApplyPatches oob image_base patches d = Some (d', ok) \<and> length d' = length d)
       \<and> (\<forall>e info. length e = length d \<longrightarrow>
            (\<exists>e' applied. ApplyPatch oob image_base info e = Some (e', applied)
               \<and> length e' = length e
               \<and> (applied \<longrightarrow> 1 \<le> unat (patch_offset oob image_base info e)
                            \<and> unat (patch_offset oob image_base info e) + 5 < length e)
               \<and> (\<forall>j. j < unat (patch_offset oob image_base info e)
                        \<or> unat (patch_offset oob image_base info e) + 5 < j
                      \<longrightarrow> e' ! j = e ! j)))"
proof -
  have len: "64 \<le> length d"
    using assms(1) by (simp add: IsValidPe_def split: if_splits)
  from ApplyPatches_loop_Some[OF len assms(2), of oob image_base patches 0]
  have "\<exists>d' ok. ApplyPatches oob image_base patches d = Some (d', ok) \<and> length d' = length d"
    by (auto simp: ApplyPatches_def)
  moreover have "\<exists>e' applied. ApplyPatch oob image_base info e = Some (e', applied)
               \<and> length e' = length e
               \<and> (applied \<longrightarrow> 1 \<le> unat (patch_offset oob image_base info e)
                            \<and> unat (patch_offset oob image_base info e) + 5 < length e)
               \<and> (\<forall>j. j < unat (patch_offset oob image_base info e)
                        \<or> unat (patch_offset oob image_base info e) + 5 < j
                      \<longrightarrow> e' ! j = e ! j)"
    if "length e = length d" for e info
    using ApplyPatch_in_bounds[of e oob image_base info] len assms(2) that by simp
  ultimately show ?thesis by blast
qed

theorem C10_ApplyPatches_in_bounds_witness:
  "IsValidPe (\<lambda>_. 0) pe_example \<and> length pe_example = 768
   \<and> GetImageBase (\<lambda>_. 0) pe_example = 0x00400000
   \<and> patch_offset (\<lambda>_. 0) 0x00400000 (snd (hd patch_example)) pe_example = 0x210
   \<and> (\<exists>d'. ApplyPatches (\<lambda>_. 0) 0x00400000 patch_example pe_example = Some (d', True)
           \<and> length d' = 768 \<and> take 6 (drop 0x210 d') = [0xE9, 0x6B, 0, 0, 0, 0x90])"
proof -
  have v: "IsValidPe (\<lambda>_. 0) pe_example" by code_simp
  have l: "length pe_example = 768" by (simp add: pe_example_def)
  have l': "length pe_example < 2 ^ 32" by (simp add: l)
  have b: "GetImageBase (\<lambda>_. 0) pe_example = 0x00400000" by code_simp
  have p: "patch_offset (\<lambda>_. 0) 0x00400000 (snd (hd patch_example)) pe_example = 0x210"
    by code_simp
  have r: "map_option (\<lambda>(d', ok). (take 6 (drop 0x210 d'), ok))
             (ApplyPatches (\<lambda>_. 0) 0x00400000 patch_example pe_example)
           = Some ([0xE9, 0x6B, 0, 0, 0, 0x90], True)"
    by code_simp
  from C10_ApplyPatches_in_bounds[OF v l', of "0x00400000" patch_example]
  obtain d' ok where "ApplyPatches (\<lambda>_. 0) 0x00400000 patch_example pe_example = Some (d', ok)"
    "length d' = length pe_example" by blast
  then show ?thesis using v l b p r by auto
qed

subsection \<open>Hexadecimal formatting\<close>

lemma hex_alphabet_length: "length (hex_alphabet upper) = 16"
  by (simp add: hex_alphabet_def)

lemma to_hex_chars: "set (to_hex upper n) \<subseteq> set (hex_alphabet upper)"
proof (induction upper n rule: to_hex.induct)
  case (1 upper n)
  show ?case
  proof (cases "n < 16")
    case True
    then have "hex_alphabet upper ! n \<in> set (hex_alphabet upper)"
      by (simp add: hex_alphabet_length)
    then show ?thesis using True by (simp add: to_hex.simps[of upper n])
  next
    case False
    have "hex_alphabet upper ! (n mod 16) \<in> set (hex_alphabet upper)"
      by (simp add: hex_alphabet_length)
    then show ?thesis using False 1 by (simp add: to_hex.simps[of upper n])
  qed
qed

lemma to_hex_length: "0 < k \<Longrightarrow> n < 16 ^ k \<Longrightarrow> length (to_hex upper n) \<le> k"
proof (induction upper n arbitrary: k rule: to_hex.induct)
  case (1 upper n)
  show ?case
  proof (cases "n < 16")
    case True
    then show ?thesis using 1(2) by (simp add: to_hex.simps[of upper n])
  next
    case False
    obtain k' where k: "k = Suc k'" using 1(2) by (cases k) auto
    have "0 < k'" using False 1(3) k by (cases k') auto
    moreover have "n div 16 < 16 ^ k'"
      using 1(3) k by (simp add: less_mult_imp_div_less mult.commute)
    ultimately have "length (to_hex upper (n div 16)) \<le> k'"
      using 1(1)[OF False] by blast
    then show ?thesis using False k by (simp add: to_hex.simps[of upper n])
  qed
qed

lemma to_hex_nonempty: "to_hex upper n \<noteq> []"
  by (simp add: to_hex.simps[of upper n])

lemma hex_alphabet_zero: "i < 16 \<Longrightarrow> hex_alphabet upper ! i = CHR ''0'' \<Longrightarrow> i = 0"
proof (rule ccontr)
  assume a: "i < 16" "hex_alphabet upper ! i = CHR ''0''" and n: "i \<noteq> 0"
  define others where "others = tl (hex_alphabet upper)"
  have h: "hex_alphabet upper = CHR ''0'' # others" and l: "length others = 15"
    and z: "CHR ''0'' \<notin> set others"
    by (cases upper; simp add: others_def hex_alphabet_def)+
  have "hex_alphabet upper ! i = others ! (i - 1)"
    using n by (simp add: h nth_Cons')
  moreover have "others ! (i - 1) \<in> set others"
    using a(1) n l by (intro nth_mem) simp
  ultimately show False using a(2) z by simp
qed

lemma to_hex_all_zero: "set (to_hex upper n) \<subseteq> {CHR ''0''} \<Longrightarrow> n = 0"
proof (induction upper n rule: to_hex.induct)
  case (1 upper n)
  show ?case
  proof (cases "n < 16")
    case True
    then show ?thesis using 1(2) hex_alphabet_zero[of n upper]
      by (simp add: to_hex.simps[of upper n])
  next
    case False
    have "set (to_hex upper (n div 16)) \<subseteq> {CHR ''0''}"
      using 1(2) False by (simp add: to_hex.simps[of upper n])
    then have "n div 16 = 0" using 1(1)[OF False] by blast
    then show ?thesis using False by simp
  qed
qed

lemma format_0x08_is_hex8: "is_hex8 upper (format_0x08 upper v)"
proof -
  have "unat v < 16 ^ 8"
    using unsigned_less[of v, where 'a = nat] by simp
  then have l: "length (to_hex upper (unat v)) \<le> 8"
    using to_hex_length[of 8 "unat v" upper] by simp
  have "CHR ''0'' \<in> set (hex_alphabet upper)"
    by (simp add: hex_alphabet_def)
  then have "\<forall>c \<in> set (replicate (8 - length (to_hex upper (unat v))) CHR ''0''
                      @ to_hex upper (unat v)). c \<in> set (hex_alphabet upper)"
    using to_hex_chars[of upper "unat v"] by auto
  then show ?thesis
    using l by (simp add: is_hex8_def format_0x08_def Let_def list_all_iff)
qed

lemma format_0x08_zero: "format_0x08 upper 0 = ''0x00000000''"
  by (simp add: format_0x08_def to_hex.simps[of upper 0] hex_alphabet_def numeral_eq_Suc)

lemma format_0x08_zero_iff: "format_0x08 upper v = ''0x00000000'' \<longleftrightarrow> v = 0"
proof
  assume a: "format_0x08 upper v = ''0x00000000''"
  have "set (replicate (8 - length (to_hex upper (unat v))) CHR ''0'' @ to_hex upper (unat v))
          = set ''00000000''"
    using a by (simp add: format_0x08_def Let_def)
  then have "set (to_hex upper (unat v)) \<subseteq> {CHR ''0''}" by auto
  then have "unat v = 0" by (rule to_hex_all_zero)
  then show "v = 0" by (simp add: unat_eq_zero)
next
  assume "v = 0"
  then show "format_0x08 upper v = ''0x00000000''" by (simp add: format_0x08_zero)
qed

lemma is_hex8_upper_not_lower: "format_0x08 True 0xDEADBEEF = ''0xDEADBEEF''"
  by (simp add: format_0x08_def to_hex.simps hex_alphabet_def)

subsection \<open>Extractor\<close>

lemma map_of_obj_set_same: "map_of kvs k = Some w \<Longrightarrow> map_of (obj_set k v kvs) k = Some v"
  by (induction kvs) (auto simp: obj_set_def split: if_splits)

lemma process_one_frame:
  "process_one e entry i st = Inl st' \<Longrightarrow>
     m_JSON (app st') = m_JSON (app st) \<and> contexts st' = contexts st
     \<and> m_Context (app st') = m_Context (app st)"
  by (auto simp: process_one_def SetCurrentIndex_def arm_entry_def Let_def
      split: if_splits json.splits list.splits option.splits prod.splits)

lemma process_one_raise:
  "process_one e entry i st = Inr (c, st') \<Longrightarrow>
     c = m_CustomExceptionCode \<and> entry_unfilled entry \<and> m_CurrentIndex (app st') = i
     \<and> m_JSON (app st') = m_JSON (app st) \<and> contexts st' = contexts st
     \<and> m_Context (app st') = m_Context (app st)"
  by (auto simp: process_one_def SetCurrentIndex_def arm_entry_def Let_def entry_unfilled_def
      json_contains_def json_at_def is_string_def get_string_def is_object_def
      split: if_splits json.splits list.splits option.splits prod.splits)

lemma ProcessEntry_loop_frame:
  "ProcessEntry_loop e es i st = (out, st') \<Longrightarrow>
     m_JSON (app st') = m_JSON (app st) \<and> contexts st' = contexts st
     \<and> m_Context (app st') = m_Context (app st)"
proof (induction es arbitrary: i st)
  case Nil
  then show ?case by simp
next
  case (Cons entry rest)
  show ?case
  proof (cases "process_one e entry i st")
    case (Inl st1)
    then have "ProcessEntry_loop e rest (Suc i) st1 = (out, st')"
      using Cons.prems by simp
    from Cons.IH[OF this] process_one_frame[OF Inl] show ?thesis by simp
  next
    case (Inr r)
    obtain c st1 where r: "r = (c, st1)" by (cases r)
    then have "st' = st1" using Cons.prems Inr by simp
    then show ?thesis using process_one_raise[of e entry i st c st1] Inr r by simp
  qed
qed

lemma ProcessEntry_loop_raise:
  "ProcessEntry_loop e es i st = (PE_Raised c, st') \<Longrightarrow>
     c = m_CustomExceptionCode
     \<and> (\<exists>k < length es. m_CurrentIndex (app st') = i + k \<and> entry_unfilled (es ! k))"
proof (induction es arbitrary: i st)
  case Nil
  then show ?case by simp
next
  case (Cons entry rest)
  show ?case
  proof (cases "process_one e entry i st")
    case (Inl st1)
    then have "ProcessEntry_loop e rest (Suc i) st1 = (PE_Raised c, st')"
      using Cons.prems by simp
    from Cons.IH[OF this] obtain k where
      k: "c = m_CustomExceptionCode" "k < length rest"
         "m_CurrentIndex (app st') = Suc i + k" "entry_unfilled (rest ! k)"
      by blast
    then have "Suc k < length (entry # rest) \<and> m_CurrentIndex (app st') = i + Suc k
                 \<and> entry_unfilled ((entry # rest) ! Suc k)"
      by simp
    then show ?thesis using k(1) by blast
  next
    case (Inr r)
    obtain c1 st1 where r: "r = (c1, st1)" by (cases r)
    then have eq: "c1 = c" "st1 = st'" using Cons.prems Inr by simp_all
    from process_one_raise[of e entry i st c st'] Inr r eq
    have "c = m_CustomExceptionCode" "entry_unfilled entry" "m_CurrentIndex (app st') = i"
      by simp_all
    then have "0 < length (entry # rest) \<and> m_CurrentIndex (app st') = i + 0
                 \<and> entry_unfilled ((entry # rest) ! 0)"
      by simp
    then show ?thesis using \<open>c = m_CustomExceptionCode\<close> by blast
  qed
qed

lemma ProcessEntry_frame:
  "ProcessEntry e st = (out, st') \<Longrightarrow>
     m_JSON (app st') = m_JSON (app st) \<and> contexts st' = contexts st
     \<and> m_Context (app st') = m_Context (app st)"
  by (auto simp: ProcessEntry_def split: option.splits json.splits
      dest: ProcessEntry_loop_frame)

lemma ProcessEntry_raise:
  assumes "ProcessEntry e st = (PE_Raised c, st')"
  shows "c = m_CustomExceptionCode \<and> armed_inv st'"
proof -
  obtain es where es: "json_at (m_JSON (app st)) ''ConstantOrStolen'' = Some (JArray es)"
    and loop: "ProcessEntry_loop e (drop (m_CurrentIndex (app st)) es) (m_CurrentIndex (app st)) st
                 = (PE_Raised c, st')"
    using assms by (auto simp: ProcessEntry_def split: option.splits json.splits)
  from ProcessEntry_loop_raise[OF loop] obtain k where
    k: "c = m_CustomExceptionCode" "k < length (drop (m_CurrentIndex (app st)) es)"
       "m_CurrentIndex (app st') = m_CurrentIndex (app st) + k"
       "entry_unfilled (drop (m_CurrentIndex (app st)) es ! k)"
    by blast
  have j: "m_JSON (app st') = m_JSON (app st)"
    using ProcessEntry_loop_frame[OF loop] by simp
  have "entries (m_JSON (app st')) = es" using es j by (simp add: entries_def)
  moreover have "m_CurrentIndex (app st) + k < length es" using k(2) by simp
  moreover have "entry_unfilled (es ! (m_CurrentIndex (app st) + k))"
    using k(2,4) by simp
  ultimately show ?thesis using k(1,3) by (simp add: armed_inv_def)
qed

lemma handler_custom:
  "CEGExceptionHandler e True \<lparr>ExceptionCode = 0xCEADDEAD, ContextRecord = p\<rparr> st =
     (H_Return EXCEPTION_CONTINUE_EXECUTION,
      st\<lparr>app := (app st)\<lparr>m_Context := Some p\<rparr>,
         contexts := (contexts st)
           (p := (contexts st p)\<lparr>Eip := m_EipAddress (app st),
                                  EFlags := EFlags (contexts st p) OR 0x100\<rparr>)\<rparr>)"
  by (simp add: CEGExceptionHandler_def ctx_update_def Let_def)

lemma handler_declines:
  "code \<noteq> 0xCEADDEAD \<Longrightarrow> code \<noteq> EXCEPTION_SINGLE_STEP \<Longrightarrow> code \<noteq> EXCEPTION_BREAKPOINT \<Longrightarrow>
   code \<noteq> EXCEPTION_ILLEGAL_INSTRUCTION \<Longrightarrow>
   CEGExceptionHandler e inst \<lparr>ExceptionCode = code, ContextRecord = p\<rparr> st =
     (H_Return EXCEPTION_CONTINUE_SEARCH, st)"
  by (simp add: CEGExceptionHandler_def Let_def)

lemma handler_no_hit:
  assumes "\<not> bp_hit ei st" and "CEGExceptionHandler e inst ei st = (out, st')"
  shows "app st' = (app st)\<lparr>m_Context := m_Context (app st')\<rparr>"
  using assms
  by (auto simp: CEGExceptionHandler_def handle_breakpoint_def bp_hit_def ctx_update_def Let_def
      split: if_splits)

lemma RemoveBreakpoint_app:
  "RemoveBreakpoint vp (m, b) = (m', b') \<Longrightarrow> m_Address b' = m_Address b"
  by (auto simp: RemoveBreakpoint_def split: if_splits)

lemma handle_breakpoint_json:
  assumes hit: "Eip (contexts st (ContextRecord ei)) = GetAddress (m_BreakpointManager (app st))"
    and upd: "UpdateEntry (m_CurrentIndex (app st)) (Eax (contexts st (ContextRecord ei)))
                (m_JSON (app st)) = Some j'"
    and idx: "m_CurrentIndex (app st) < length (entries (m_JSON (app st)))"
    and run: "handle_breakpoint e ei st = (out, st')"
  shows "m_JSON (app st') = j'"
proof -
  obtain es where es: "json_at (m_JSON (app st)) ''ConstantOrStolen'' = Some (JArray es)"
    "entries (m_JSON (app st)) = es"
    using idx by (auto simp: entries_def split: option.splits json.splits)
  obtain mem' bp' where rb:
    "RemoveBreakpoint (vprotect e) (ram st, m_BreakpointManager (app st)) = (mem', bp')"
    by (cases "RemoveBreakpoint (vprotect e) (ram st, m_BreakpointManager (app st))")
  define st1 where "st1 = st\<lparr>app := (app st)\<lparr>m_BreakpointManager := bp'\<rparr>, ram := mem'\<rparr>"
  define st2 where "st2 = st1\<lparr>app := (app st1)\<lparr>m_JSON := j'\<rparr>\<rparr>"
  define next_run where
    "next_run = ProcessEntry e (SetCurrentIndex (m_CurrentIndex (app st) + 1) st2)"
  have j2: "m_JSON (app st2) = j'" by (simp add: st2_def)
  have j3: "m_JSON (app (snd next_run)) = j'"
    using ProcessEntry_frame[of e "SetCurrentIndex (m_CurrentIndex (app st) + 1) st2"
        "fst next_run" "snd next_run"] j2
    by (simp add: next_run_def SetCurrentIndex_def)
  have hb: "handle_breakpoint e ei st =
      (if \<not> save_ok e then (H_Return EXCEPTION_CONTINUE_EXECUTION, st2)
       else case json_value_bool j' ''ShouldRestart'' of
              None \<Rightarrow> (H_Terminate, st2)
            | Some True \<Rightarrow>
                (H_Return EXCEPTION_CONTINUE_EXECUTION,
                 ctx_update (ContextRecord ei) (\<lambda>c. c\<lparr>Eip := RestartApp e\<rparr>)
                   (st2\<lparr>app := (app st2)\<lparr>m_ShouldRestart := True\<rparr>\<rparr>))
            | Some False \<Rightarrow>
                (case m_Context (app st2) of
                   None \<Rightarrow> (H_Terminate, st2)
                 | Some saved \<Rightarrow>
                     (case next_run of
                        (PE_Returned, st3) \<Rightarrow> (H_Return EXCEPTION_CONTINUE_EXECUTION, st3)
                      | (PE_Raised code, st3) \<Rightarrow> (H_Raised code, st3)
                      | (PE_ExitProcess, st3) \<Rightarrow> (H_ExitProcess, st3))))"
    using hit rb es idx upd unfolding st2_def next_run_def st1_def
    by (simp add: handle_breakpoint_def Let_def json_size_def
        split: option.split bool.split prod.split pe_outcome.split)
  have "st' = st2 \<or> st' = ctx_update (ContextRecord ei) (\<lambda>c. c\<lparr>Eip := RestartApp e\<rparr>)
                              (st2\<lparr>app := (app st2)\<lparr>m_ShouldRestart := True\<rparr>\<rparr>)
        \<or> st' = snd next_run"
    using run unfolding hb
    by (auto split: if_splits option.splits bool.splits prod.splits pe_outcome.splits)
  then show ?thesis
    using j2 j3 by (auto simp: ctx_update_def)
qed

lemma UpdateEntry_armed:
  assumes "i < length (entries j)" and "entry_unfilled (entries j ! i)"
  shows "\<exists>j' e'. UpdateEntry i eax j = Some j' \<and> entries j' = (entries j)[i := e']
            \<and> (entry_unfilled e' \<longleftrightarrow> eax = 0)"
proof -
  obtain kvs es where j: "j = JObject kvs" "map_of kvs ''ConstantOrStolen'' = Some (JArray es)"
    using assms(1) by (auto simp: entries_def json_at_def split: option.splits json.splits)
  then have es: "entries j = es" by (simp add: entries_def json_at_def)
  have "\<exists>k fs rest. es ! i = JObject ((k, JObject fs) # rest)
           \<and> map_of fs ''Value'' = Some (JString ''0x00000000'')"
  proof (cases "es ! i")
    case (JObject kvs')
    show ?thesis
    proof (cases kvs')
      case Nil
      then show ?thesis using assms(2) es JObject by (simp add: entry_unfilled_def)
    next
      case (Cons kv rest)
      obtain k d where kv: "kv = (k, d)" by (cases kv)
      show ?thesis using assms(2) es JObject Cons kv
        by (cases d) (simp_all add: entry_unfilled_def)
    qed
  qed (use assms(2) es in \<open>simp_all add: entry_unfilled_def\<close>)
  then obtain k fs rest where e: "es ! i = JObject ((k, JObject fs) # rest)"
    "map_of fs ''Value'' = Some (JString ''0x00000000'')"
    by blast
  define e' where
    "e' = JObject ((k, JObject (obj_set ''Value'' (JString (format_0x08 True eax)) fs)) # rest)"
  define j' where "j' = JObject (obj_set ''ConstantOrStolen'' (JArray (es[i := e'])) kvs)"
  have "UpdateEntry i eax j = Some j'"
    using j e(1) assms(1) es
    by (simp add: UpdateEntry_def json_size_def update_entry_def set_entry_value_def
        e'_def j'_def)
  moreover have "entries j' = es[i := e']"
    using map_of_obj_set_same[OF j(2)] by (simp add: j'_def entries_def json_at_def)
  moreover have "entry_unfilled e' \<longleftrightarrow> eax = 0"
    using map_of_obj_set_same[OF e(2), of "JString (format_0x08 True eax)"]
    by (simp add: e'_def entry_unfilled_def format_0x08_zero_iff)
  ultimately show ?thesis using es by blast
qed

lemma filter_update_drop:
  assumes "i < length es" and "P (es ! i)" and "\<not> P e'"
  shows "mset (filter P (es[i := e'])) = mset (filter P es) - {#es ! i#}"
proof -
  have "mset (filter P (es[i := e'])) = filter_mset P (mset (es[i := e']))"
    by (simp only: mset_filter)
  also have "\<dots> = filter_mset P (add_mset e' (mset es - {#es ! i#}))"
    by (simp only: mset_update[OF assms(1)])
  also have "\<dots> = filter_mset P (mset es - {#es ! i#})"
    using assms(3) by simp
  also have "\<dots> = filter_mset P (mset es) - filter_mset P {#es ! i#}"
    by (simp only: filter_diff_mset)
  also have "\<dots> = mset (filter P es) - {#es ! i#}"
    using assms(2) by simp
  finally show ?thesis .
qed

lemma filter_update_keep:
  assumes "i < length es" and "P (es ! i)" and "P e'"
  shows "length (filter P (es[i := e'])) = length (filter P es)"
proof -
  have u: "es[i := e'] = take i es @ e' # drop (Suc i) es"
    using assms(1) by (simp add: upd_conv_take_nth_drop)
  have o: "es = take i es @ es ! i # drop (Suc i) es"
    using assms(1) by (simp add: id_take_nth_drop)
  have "length (filter P (take i es @ e' # drop (Suc i) es))
      = length (filter P (take i es @ es ! i # drop (Suc i) es))"
    using assms(2,3) by simp
  then show ?thesis using u o by metis
qed
lemma handler_raised:
  assumes "CEGExceptionHandler e inst ei st = (H_Raised c, st')"
  shows "\<exists>s. ProcessEntry e s = (PE_Raised c, st')"
proof -
  have hb: "handle_breakpoint e ei st = (H_Raised c, st')"
    using assms by (auto simp: CEGExceptionHandler_def Let_def split: if_splits)
  then show ?thesis
    unfolding handle_breakpoint_def Let_def
    by (auto split: if_splits option.splits bool.splits prod.splits pe_outcome.splits)
qed

lemma handler_is_handle_breakpoint:
  "ExceptionCode ei = EXCEPTION_BREAKPOINT \<Longrightarrow>
   CEGExceptionHandler e True ei st = handle_breakpoint e ei st"
  by (simp add: CEGExceptionHandler_def Let_def EXCEPTION_BREAKPOINT_def
      EXCEPTION_SINGLE_STEP_def)

lemma process_one_raises:
  assumes "func_key \<noteq> []"
    and "map_of fs ''Value'' = Some (JString ''0x00000000'')"
    and "map_of fs ''BP'' = Some (JString bp)" and "map_of fs ''EIP'' = Some (JString eip)"
    and "map_of fs ''Type'' = Some (JInt t)" and "t \<in> {1, 2, 3, 4}"
    and "stoull16 func_key = Some func_addr" and "stoull16 bp = Some bp_addr"
    and "stoull16 eip = Some eip_addr"
    and "func_addr \<noteq> 0" and "bp_addr \<noteq> 0" and "eip_addr \<noteq> 0"
  shows "process_one e (JObject ((func_key, JObject fs) # rest)) i st =
           Inr (m_CustomExceptionCode,
                arm_entry e func_addr bp_addr eip_addr (SetCurrentIndex i st))"
proof -
  have "get_int (JInt t) = t" using assms(6) by (auto simp: get_int_def)
  then show ?thesis
    using assms
    by (auto simp: process_one_def json_empty_def json_size_def is_object_def json_contains_def
        json_at_def is_string_def get_string_def is_number_integer_def Let_def)
qed

lemma stoull_ex: "stoull16 ''0x00401000'' = Some 0x00401000"
  "stoull16 ''0x00500000'' = Some 0x00500000" "stoull16 ''0x00500020'' = Some 0x00500020"
  "stoull16 ''0x00402000'' = Some 0x00402000"
  "stoull16 ''0x00600000'' = Some 0x00600000" "stoull16 ''0x00600020'' = Some 0x00600020"
  by (simp_all add: stoull16_def strip_0x_def is_space_def hex_digit_value_def Let_def)

lemma ex_ProcessEntry: "ProcessEntry ex_env ex_process = (PE_Raised 0xDEADDEAD, ex_armed)"
  by (simp add: ProcessEntry_def ex_process_def ex_recipe_def json_at_def ex_entry_def
      process_one_def json_empty_def json_size_def is_object_def json_contains_def is_string_def
      get_string_def SetCurrentIndex_def is_number_integer_def stoull_ex arm_entry_def
      SetBreakpoint_def BreakpointManager_init_def ex_env_def get_int_def
      m_CustomExceptionCode_def ex_armed_def Let_def)

lemma ex_entries:
  "entries ex_recipe =
     [ex_entry ''0x00401000'' ''0x00500000'' ''0x00500020'' ''0x00000000'' 1,
      ex_entry ''0x00402000'' ''0x00600000'' ''0x00600020'' ''0x00000000'' 4]"
  by (simp add: entries_def ex_recipe_def json_at_def)

lemma ex_entry_unfilled: "entry_unfilled (ex_entry f ei b v t) \<longleftrightarrow> v = ''0x00000000''"
  by (simp add: entry_unfilled_def ex_entry_def)

lemma ex_armed_inv: "armed_inv (ex_at_breakpoint eax)"
  by (simp add: armed_inv_def ex_at_breakpoint_def ex_redirected_def ex_armed_def ex_entries
      ex_entry_unfilled)

lemma ex_bp_hit:
  "bp_hit \<lparr>ExceptionCode = EXCEPTION_BREAKPOINT, ContextRecord = 0x0012E000\<rparr>
     (ex_at_breakpoint eax)"
  by (simp add: bp_hit_def ex_at_breakpoint_def ex_redirected_def ex_armed_def GetAddress_def
      ex_bp_context_def)

lemma ex_bp_handler:
  "fst (CEGExceptionHandler ex_env True
          \<lparr>ExceptionCode = EXCEPTION_BREAKPOINT, ContextRecord = 0x0012E000\<rparr>
          (ex_at_breakpoint eax)) = H_Raised 0xDEADDEAD
   \<and> m_CurrentIndex (app (snd (CEGExceptionHandler ex_env True
          \<lparr>ExceptionCode = EXCEPTION_BREAKPOINT, ContextRecord = 0x0012E000\<rparr>
          (ex_at_breakpoint eax)))) = 1
   \<and> contexts (snd (CEGExceptionHandler ex_env True
          \<lparr>ExceptionCode = EXCEPTION_BREAKPOINT, ContextRecord = 0x0012E000\<rparr>
          (ex_at_breakpoint eax))) = contexts (ex_at_breakpoint eax)
   \<and> entries (m_JSON (app (snd (CEGExceptionHandler ex_env True
          \<lparr>ExceptionCode = EXCEPTION_BREAKPOINT, ContextRecord = 0x0012E000\<rparr>
          (ex_at_breakpoint eax))))) =
       [ex_entry ''0x00401000'' ''0x00500000'' ''0x00500020'' (format_0x08 True eax) 1,
        ex_entry ''0x00402000'' ''0x00600000'' ''0x00600020'' ''0x00000000'' 4]"
  by (simp add: handler_is_handle_breakpoint handle_breakpoint_def ex_at_breakpoint_def
      ex_redirected_def ex_armed_def ex_bp_context_def GetAddress_def RemoveBreakpoint_def
      ex_env_def ex_recipe_def json_at_def json_size_def UpdateEntry_def update_entry_def
      ex_entry_def set_entry_value_def obj_set_def json_value_bool_def ProcessEntry_def
      SetCurrentIndex_def process_one_def json_empty_def is_object_def json_contains_def
      is_string_def get_string_def is_number_integer_def stoull_ex arm_entry_def
      SetBreakpoint_def get_int_def m_CustomExceptionCode_def entries_def Let_def)

lemma RaiseException_custom:
  "RaiseException m_CustomExceptionCode p = \<lparr>ExceptionCode = 0xCEADDEAD, ContextRecord = p\<rparr>"
  by (simp add: RaiseException_def m_CustomExceptionCode_def)

lemma raise_handled:
  "ExceptionCode (RaiseException m_CustomExceptionCode p) = 0xCEADDEAD
   \<and> CEGExceptionHandler e True (RaiseException m_CustomExceptionCode p) st =
       (H_Return EXCEPTION_CONTINUE_EXECUTION, capture_step p st)"
  by (simp add: RaiseException_custom handler_custom capture_step_def)

text \<open>
  C1. Every raise of the extractor is handled by the capture step. \<^verbatim>\<open>ProcessEntry\<close>
  passes \<^verbatim>\<open>m_CustomExceptionCode\<close> to \<^verbatim>\<open>RaiseException\<close>; the exception record
  that reaches the handler carries \<open>0xCEADDEAD\<close>, the code of the handler's capture
  case, and the handler saves the context pointer, redirects \<open>Eip\<close>, sets the trap flag
  and returns \<^verbatim>\<open>EXCEPTION_CONTINUE_EXECUTION\<close>. This holds for whatever
  \<^verbatim>\<open>ProcessEntry\<close> raises, called from the start-up code or from inside the handler,
  and every well-formed unfilled entry of type 1, 2, 3 or 4 does raise.
\<close>

theorem C1_raise_handled:
  "(ProcessEntry e st = (PE_Raised c, st') \<longrightarrow>
      ExceptionCode (RaiseException c p) = 0xCEADDEAD
      \<and> CEGExceptionHandler e True (RaiseException c p) st' =
          (H_Return EXCEPTION_CONTINUE_EXECUTION, capture_step p st'))
   \<and> (CEGExceptionHandler e inst ei st3 = (H_Raised c3, st4) \<longrightarrow>
      ExceptionCode (RaiseException c3 p) = 0xCEADDEAD
      \<and> CEGExceptionHandler e True (RaiseException c3 p) st4 =
          (H_Return EXCEPTION_CONTINUE_EXECUTION, capture_step p st4))
   \<and> (func_key \<noteq> [] \<and> map_of fs ''Value'' = Some (JString ''0x00000000'')
       \<and> map_of fs ''BP'' = Some (JString bp) \<and> map_of fs ''EIP'' = Some (JString eip)
       \<and> map_of fs ''Type'' = Some (JInt t) \<and> t \<in> {1, 2, 3, 4}
       \<and> stoull16 func_key = Some func_addr \<and> stoull16 bp = Some bp_addr
       \<and> stoull16 eip = Some eip_addr \<and> func_addr \<noteq> 0 \<and> bp_addr \<noteq> 0 \<and> eip_addr \<noteq> 0 \<longrightarrow>
      (\<exists>c1. process_one e (JObject ((func_key, JObject fs) # rest)) i st1 =
               Inr (c1, arm_entry e func_addr bp_addr eip_addr (SetCurrentIndex i st1))
             \<and> ExceptionCode (RaiseException c1 p) = 0xCEADDEAD
             \<and> CEGExceptionHandler e True (RaiseException c1 p)
                  (arm_entry e func_addr bp_addr eip_addr (SetCurrentIndex i st1)) =
                 (H_Return EXCEPTION_CONTINUE_EXECUTION,
                  capture_step p (arm_entry e func_addr bp_addr eip_addr
                                    (SetCurrentIndex i st1)))))"
proof -
  have a: "ProcessEntry e st = (PE_Raised c, st') \<longrightarrow>
      ExceptionCode (RaiseException c p) = 0xCEADDEAD
      \<and> CEGExceptionHandler e True (RaiseException c p) st' =
          (H_Return EXCEPTION_CONTINUE_EXECUTION, capture_step p st')"
    using ProcessEntry_raise[of e st c st'] raise_handled[of p e st'] by blast
  have b: "CEGExceptionHandler e inst ei st3 = (H_Raised c3, st4) \<longrightarrow>
      ExceptionCode (RaiseException c3 p) = 0xCEADDEAD
      \<and> CEGExceptionHandler e True (RaiseException c3 p) st4 =
          (H_Return EXCEPTION_CONTINUE_EXECUTION, capture_step p st4)"
  proof
    assume "CEGExceptionHandler e inst ei st3 = (H_Raised c3, st4)"
    from handler_raised[OF this] obtain s where "ProcessEntry e s = (PE_Raised c3, st4)"
      by blast
    from ProcessEntry_raise[OF this] have "c3 = m_CustomExceptionCode" by simp
    then show "ExceptionCode (RaiseException c3 p) = 0xCEADDEAD
      \<and> CEGExceptionHandler e True (RaiseException c3 p) st4 =
          (H_Return EXCEPTION_CONTINUE_EXECUTION, capture_step p st4)"
      using raise_handled[of p e st4] by simp
  qed
  have d: "func_key \<noteq> [] \<and> map_of fs ''Value'' = Some (JString ''0x00000000'')
       \<and> map_of fs ''BP'' = Some (JString bp) \<and> map_of fs ''EIP'' = Some (JString eip)
       \<and> map_of fs ''Type'' = Some (JInt t) \<and> t \<in> {1, 2, 3, 4}
       \<and> stoull16 func_key = Some func_addr \<and> stoull16 bp = Some bp_addr
       \<and> stoull16 eip = Some eip_addr \<and> func_addr \<noteq> 0 \<and> bp_addr \<noteq> 0 \<and> eip_addr \<noteq> 0 \<longrightarrow>
      (\<exists>c1. process_one e (JObject ((func_key, JObject fs) # rest)) i st1 =
               Inr (c1, arm_entry e func_addr bp_addr eip_addr (SetCurrentIndex i st1))
             \<and> ExceptionCode (RaiseException c1 p) = 0xCEADDEAD
             \<and> CEGExceptionHandler e True (RaiseException c1 p)
                  (arm_entry e func_addr bp_addr eip_addr (SetCurrentIndex i st1)) =
                 (H_Return EXCEPTION_CONTINUE_EXECUTION,
                  capture_step p (arm_entry e func_addr bp_addr eip_addr
                                    (SetCurrentIndex i st1))))"
    using process_one_raises[of func_key fs bp eip t func_addr bp_addr eip_addr e rest i st1]
      raise_handled[of p e "arm_entry e func_addr bp_addr eip_addr (SetCurrentIndex i st1)"]
    by blast
  show ?thesis using a b d by blast
qed

theorem C1_raise_handled_witness:
  "ProcessEntry ex_env ex_process = (PE_Raised 0xDEADDEAD, ex_armed)
   \<and> RaiseException 0xDEADDEAD 0x0012F000
       = \<lparr>ExceptionCode = 0xCEADDEAD, ContextRecord = 0x0012F000\<rparr>
   \<and> CEGExceptionHandler ex_env True (RaiseException 0xDEADDEAD 0x0012F000) ex_armed
       = (H_Return EXCEPTION_CONTINUE_EXECUTION, ex_redirected)
   \<and> fst (CEGExceptionHandler ex_env True
            \<lparr>ExceptionCode = EXCEPTION_BREAKPOINT, ContextRecord = 0x0012E000\<rparr>
            (ex_at_breakpoint 0xDEADBEEF)) = H_Raised 0xDEADDEAD
   \<and> fst (CEGExceptionHandler ex_env True (RaiseException 0xDEADDEAD 0x0012F000)
            (snd (CEGExceptionHandler ex_env True
                    \<lparr>ExceptionCode = EXCEPTION_BREAKPOINT, ContextRecord = 0x0012E000\<rparr>
                    (ex_at_breakpoint 0xDEADBEEF))))
       = H_Return EXCEPTION_CONTINUE_EXECUTION
   \<and> (\<exists>c1. process_one ex_env
              (ex_entry ''0x00402000'' ''0x00600000'' ''0x00600020'' ''0x00000000'' 4)
              1 ex_armed
            = Inr (c1, arm_entry ex_env 0x00402000 0x00600020 0x00600000
                         (SetCurrentIndex 1 ex_armed))
          \<and> ExceptionCode (RaiseException c1 0x0012F000) = 0xCEADDEAD)"
proof -
  have r: "capture_step 0x0012F000 ex_armed = ex_redirected"
    by (simp add: capture_step_def ex_redirected_def ex_armed_def ex_context_def)
  have x: "RaiseException 0xDEADDEAD 0x0012F000
       = \<lparr>ExceptionCode = 0xCEADDEAD, ContextRecord = 0x0012F000\<rparr>"
    by (simp add: RaiseException_def)
  obtain out st4 where h: "CEGExceptionHandler ex_env True
            \<lparr>ExceptionCode = EXCEPTION_BREAKPOINT, ContextRecord = 0x0012E000\<rparr>
            (ex_at_breakpoint 0xDEADBEEF) = (out, st4)"
    by (cases "CEGExceptionHandler ex_env True
            \<lparr>ExceptionCode = EXCEPTION_BREAKPOINT, ContextRecord = 0x0012E000\<rparr>
            (ex_at_breakpoint 0xDEADBEEF)")
  have o: "out = H_Raised 0xDEADDEAD"
    using ex_bp_handler[of "0xDEADBEEF"] h by simp
  from C1_raise_handled[where e = ex_env and st = ex_process and c = "0xDEADDEAD"
      and st' = ex_armed and p = "0x0012F000" and ?st1.0 = ex_armed
      and inst = True
      and ei = "\<lparr>ExceptionCode = EXCEPTION_BREAKPOINT, ContextRecord = 0x0012E000\<rparr>"
      and ?st3.0 = "ex_at_breakpoint 0xDEADBEEF" and ?c3.0 = "0xDEADDEAD" and ?st4.0 = st4
      and func_key = "''0x00402000''" and i = 1 and rest = "[]" and t = 4
      and bp = "''0x00600020''" and eip = "''0x00600000''"
      and func_addr = "0x00402000" and bp_addr = "0x00600020" and eip_addr = "0x00600000"
      and fs = "[(''BP'', JString ''0x00600020''), (''EIP'', JString ''0x00600000''),
                 (''Prologue'', JString ''0x00402000''), (''Type'', JInt 4),
                 (''Value'', JString ''0x00000000'')]"]
  show ?thesis using ex_ProcessEntry r x h o by (simp add: stoull_ex ex_entry_def) blast
qed

text \<open>
  C2. The comment in the handler says \<^verbatim>\<open>Restore the previously saved context.\<close>, and the
  code assigns the saved pointer to the handler's local variable only. On the run over
  the two-entry recipe: the custom exception is handled with the context record at
  \<open>0x0012F000\<close>, whose address is saved and whose \<open>Eip\<close> and trap flag are then
  overwritten in place; the breakpoint exception arrives with the record at
  \<open>0x0012E000\<close>. The handler advances the index to 1 and, from inside
  \<^verbatim>\<open>ProcessEntry\<close>, raises the next custom exception; the record at \<open>0x0012E000\<close>
  is left as the breakpoint delivered it, and no record holds the registers of the raise
  site any more.
\<close>

theorem C2_context_not_restored:
  "CEGExceptionHandler ex_env True \<lparr>ExceptionCode = 0xCEADDEAD, ContextRecord = 0x0012F000\<rparr>
      ex_armed = (H_Return EXCEPTION_CONTINUE_EXECUTION, ex_redirected)
   \<and> m_Context (app ex_redirected) = Some 0x0012F000
   \<and> contexts ex_redirected 0x0012F000 = ex_context\<lparr>Eip := 0x00500000, EFlags := 0x302\<rparr>
   \<and> (case CEGExceptionHandler ex_env True
              \<lparr>ExceptionCode = EXCEPTION_BREAKPOINT, ContextRecord = 0x0012E000\<rparr>
              (ex_at_breakpoint 0xDEADBEEF) of
         (out, st') \<Rightarrow>
           out = H_Raised 0xDEADDEAD
           \<and> m_CurrentIndex (app st') = 1
           \<and> contexts st' 0x0012E000 = ex_bp_context
           \<and> contexts st' 0x0012E000 \<noteq> ex_context
           \<and> contexts st' 0x0012F000 = ex_context\<lparr>Eip := 0x00500000, EFlags := 0x302\<rparr>
           \<and> contexts st' 0x0012F000 \<noteq> ex_context)"
proof -
  have "CEGExceptionHandler ex_env True
          \<lparr>ExceptionCode = 0xCEADDEAD, ContextRecord = 0x0012F000\<rparr> ex_armed
        = (H_Return EXCEPTION_CONTINUE_EXECUTION, ex_redirected)"
    by (simp add: handler_custom ex_redirected_def ex_armed_def ex_context_def)
  moreover have "contexts (ex_at_breakpoint 0xDEADBEEF) 0x0012E000 = ex_bp_context"
    "contexts (ex_at_breakpoint 0xDEADBEEF) 0x0012F000
       = ex_context\<lparr>Eip := 0x00500000, EFlags := 0x302\<rparr>"
    "ex_bp_context \<noteq> ex_context" "ex_context\<lparr>Eip := 0x00500000, EFlags := 0x302\<rparr> \<noteq> ex_context"
    "m_Context (app ex_redirected) = Some 0x0012F000"
    "contexts ex_redirected 0x0012F000 = ex_context\<lparr>Eip := 0x00500000, EFlags := 0x302\<rparr>"
    by (simp_all add: ex_at_breakpoint_def ex_redirected_def ex_bp_context_def ex_context_def
        ex_armed_def)
  ultimately show ?thesis
    using ex_bp_handler[of "0xDEADBEEF"] by (simp add: case_prod_beta)
qed

text \<open>
  C4. When the captured \<open>EAX\<close> is zero, \<^verbatim>\<open>UpdateEntry\<close> writes
  \<^verbatim>\<open>"0x00000000"\<close>, the very string that marks an entry as unfilled. On the run over
  the two-entry recipe, a breakpoint hit with \<open>EAX = 0\<close> is handled (the recipe is
  written, the index advances, the next entry is armed and raised) and the recipe still
  has two unfilled entries.
\<close>

theorem C4_unfilled_counterexample:
  "armed_inv (ex_at_breakpoint 0)
   \<and> bp_hit \<lparr>ExceptionCode = EXCEPTION_BREAKPOINT, ContextRecord = 0x0012E000\<rparr>
        (ex_at_breakpoint 0)
   \<and> Eax (contexts (ex_at_breakpoint 0) 0x0012E000) = 0
   \<and> size (unfilled (m_JSON (app (ex_at_breakpoint 0)))) = 2
   \<and> fst (CEGExceptionHandler ex_env True
            \<lparr>ExceptionCode = EXCEPTION_BREAKPOINT, ContextRecord = 0x0012E000\<rparr>
            (ex_at_breakpoint 0)) = H_Raised 0xDEADDEAD
   \<and> size (unfilled (m_JSON (app (snd (CEGExceptionHandler ex_env True
            \<lparr>ExceptionCode = EXCEPTION_BREAKPOINT, ContextRecord = 0x0012E000\<rparr>
            (ex_at_breakpoint 0)))))) = 2"
proof -
  have "size (unfilled (m_JSON (app (ex_at_breakpoint 0)))) = 2"
    by (simp add: unfilled_def ex_at_breakpoint_def ex_redirected_def ex_armed_def ex_entries
        ex_entry_unfilled)
  moreover have "Eax (contexts (ex_at_breakpoint 0) 0x0012E000) = 0"
    by (simp add: ex_at_breakpoint_def)
  ultimately show ?thesis
    using ex_armed_inv[of 0] ex_bp_hit[of 0] ex_bp_handler[of 0]
    by (simp add: unfilled_def ex_entry_unfilled format_0x08_zero)
qed

text \<open>
  C4, amended. Let the current index point at an unfilled entry, as it does whenever
  \<^verbatim>\<open>ProcessEntry\<close> has raised. A call of the handler that is not a breakpoint hit
  leaves the recipe as it is. A breakpoint hit with a captured \<open>EAX \<noteq> 0\<close> removes
  exactly that entry from the multiset of unfilled entries; a hit with \<open>EAX = 0\<close>
  leaves the number of unfilled entries unchanged. So the multiset never grows. When the
  handler goes on to raise for the next entry, the current index again points at an
  unfilled entry.
\<close>

theorem C4_unfilled_monotone:
  assumes inv: "armed_inv st" and run: "CEGExceptionHandler e True ei st = (out, st')"
  shows "(\<not> bp_hit ei st \<longrightarrow> m_JSON (app st') = m_JSON (app st))
       \<and> (bp_hit ei st \<and> Eax (contexts st (ContextRecord ei)) \<noteq> 0 \<longrightarrow>
            entries (m_JSON (app st)) ! m_CurrentIndex (app st) \<in># unfilled (m_JSON (app st))
            \<and> unfilled (m_JSON (app st')) =
                unfilled (m_JSON (app st))
                  - {#entries (m_JSON (app st)) ! m_CurrentIndex (app st)#})
       \<and> (bp_hit ei st \<and> Eax (contexts st (ContextRecord ei)) = 0 \<longrightarrow>
            size (unfilled (m_JSON (app st'))) = size (unfilled (m_JSON (app st))))
       \<and> (\<forall>c. out = H_Raised c \<longrightarrow> armed_inv st')"
proof -
  define i where "i = m_CurrentIndex (app st)"
  define es where "es = entries (m_JSON (app st))"
  define eax where "eax = Eax (contexts st (ContextRecord ei))"
  have i: "i < length es" "entry_unfilled (es ! i)"
    using inv by (simp_all add: armed_inv_def i_def es_def)
  have no_hit: "m_JSON (app st') = m_JSON (app st)" if "\<not> bp_hit ei st"
  proof -
    have "app st' = (app st)\<lparr>m_Context := m_Context (app st')\<rparr>"
      using handler_no_hit[OF that run] .
    then have "m_JSON (app st') = m_JSON ((app st)\<lparr>m_Context := m_Context (app st')\<rparr>)"
      by simp
    then show ?thesis by simp
  qed
  have hit: "\<exists>e'. entries (m_JSON (app st')) = es[i := e'] \<and> (entry_unfilled e' \<longleftrightarrow> eax = 0)"
    if h: "bp_hit ei st"
  proof -
    from UpdateEntry_armed[of i "m_JSON (app st)" eax] i
    obtain j' e' where u: "UpdateEntry i eax (m_JSON (app st)) = Some j'"
      "entries j' = es[i := e']" "entry_unfilled e' \<longleftrightarrow> eax = 0"
      by (auto simp: es_def)
    have "handle_breakpoint e ei st = (out, st')"
      using run h by (simp add: handler_is_handle_breakpoint bp_hit_def)
    then have "m_JSON (app st') = j'"
      using handle_breakpoint_json[of st ei j' e out st'] h u(1) i(1)
      by (simp add: bp_hit_def i_def eax_def es_def)
    then show ?thesis using u(2,3) by blast
  qed
  have drop: "es ! i \<in># unfilled (m_JSON (app st))
              \<and> unfilled (m_JSON (app st')) = unfilled (m_JSON (app st)) - {#es ! i#}"
    if h: "bp_hit ei st" and nz: "eax \<noteq> 0"
  proof -
    from hit[OF h] nz obtain e' where
      e': "entries (m_JSON (app st')) = es[i := e']" "\<not> entry_unfilled e'" by blast
    have "es ! i \<in> set (filter entry_unfilled es)" using i by simp
    then show ?thesis
      using filter_update_drop[OF i e'(2)] e'(1)
      by (simp add: unfilled_def es_def[symmetric])
  qed
  have keep: "size (unfilled (m_JSON (app st'))) = size (unfilled (m_JSON (app st)))"
    if h: "bp_hit ei st" and z: "eax = 0"
  proof -
    from hit[OF h] z obtain e' where
      e': "entries (m_JSON (app st')) = es[i := e']" "entry_unfilled e'" by blast
    have "size (mset (filter entry_unfilled (es[i := e'])))
            = size (mset (filter entry_unfilled es))"
      using filter_update_keep[OF i e'(2)] by (simp only: size_mset)
    then show ?thesis
      by (simp only: unfilled_def e'(1) es_def[symmetric])
  qed
  have again: "armed_inv st'" if "out = H_Raised c" for c
  proof -
    from handler_raised[of e True ei st c st'] run that
    obtain s where "ProcessEntry e s = (PE_Raised c, st')" by blast
    then show ?thesis using ProcessEntry_raise by blast
  qed
  show ?thesis
    using no_hit drop keep again unfolding i_def es_def eax_def by blast
qed

theorem C4_unfilled_monotone_witness:
  "armed_inv (ex_at_breakpoint 0xDEADBEEF)
   \<and> bp_hit \<lparr>ExceptionCode = EXCEPTION_BREAKPOINT, ContextRecord = 0x0012E000\<rparr>
        (ex_at_breakpoint 0xDEADBEEF)
   \<and> unfilled (m_JSON (app (ex_at_breakpoint 0xDEADBEEF))) =
       {#ex_entry ''0x00401000'' ''0x00500000'' ''0x00500020'' ''0x00000000'' 1,
         ex_entry ''0x00402000'' ''0x00600000'' ''0x00600020'' ''0x00000000'' 4#}
   \<and> unfilled (m_JSON (app (snd (CEGExceptionHandler ex_env True
            \<lparr>ExceptionCode = EXCEPTION_BREAKPOINT, ContextRecord = 0x0012E000\<rparr>
            (ex_at_breakpoint 0xDEADBEEF))))) =
       {#ex_entry ''0x00402000'' ''0x00600000'' ''0x00600020'' ''0x00000000'' 4#}
   \<and> armed_inv (snd (CEGExceptionHandler ex_env True
            \<lparr>ExceptionCode = EXCEPTION_BREAKPOINT, ContextRecord = 0x0012E000\<rparr>
            (ex_at_breakpoint 0xDEADBEEF)))"
proof -
  define ei where "ei = \<lparr>ExceptionCode = EXCEPTION_BREAKPOINT, ContextRecord = 0x0012E000\<rparr>"
  define r where "r = CEGExceptionHandler ex_env True ei (ex_at_breakpoint 0xDEADBEEF)"
  have run: "CEGExceptionHandler ex_env True ei (ex_at_breakpoint 0xDEADBEEF) = (fst r, snd r)"
    by (simp add: r_def)
  have out: "fst r = H_Raised 0xDEADDEAD"
    using ex_bp_handler[of "0xDEADBEEF"] by (simp add: r_def ei_def)
  have eax: "Eax (contexts (ex_at_breakpoint 0xDEADBEEF) (ContextRecord ei)) \<noteq> 0"
    by (simp add: ex_at_breakpoint_def ei_def)
  have hit: "bp_hit ei (ex_at_breakpoint 0xDEADBEEF)"
    using ex_bp_hit[of "0xDEADBEEF"] by (simp add: ei_def)
  have u: "unfilled (m_JSON (app (ex_at_breakpoint 0xDEADBEEF))) =
       {#ex_entry ''0x00401000'' ''0x00500000'' ''0x00500020'' ''0x00000000'' 1,
         ex_entry ''0x00402000'' ''0x00600000'' ''0x00600020'' ''0x00000000'' 4#}"
    and e0: "entries (m_JSON (app (ex_at_breakpoint 0xDEADBEEF)))
               ! m_CurrentIndex (app (ex_at_breakpoint 0xDEADBEEF))
             = ex_entry ''0x00401000'' ''0x00500000'' ''0x00500020'' ''0x00000000'' 1"
    by (simp_all add: unfilled_def ex_at_breakpoint_def ex_redirected_def ex_armed_def
        ex_entries ex_entry_unfilled)
  from C4_unfilled_monotone[OF ex_armed_inv run]
  have "unfilled (m_JSON (app (snd r))) =
          unfilled (m_JSON (app (ex_at_breakpoint 0xDEADBEEF)))
            - {#entries (m_JSON (app (ex_at_breakpoint 0xDEADBEEF)))
                  ! m_CurrentIndex (app (ex_at_breakpoint 0xDEADBEEF))#}"
    and "armed_inv (snd r)"
    using hit eax out by blast+
  then show ?thesis
    using ex_armed_inv[of "0xDEADBEEF"] hit u e0 by (simp add: r_def ei_def)
qed

subsection \<open>Analyzer\<close>

lemma set_emplace: "set (emplace k v m) = insert (k, v) (set m)"
proof -
  have "set m = set (takeWhile (\<lambda>kv. fst kv \<le> k) m) \<union> set (dropWhile (\<lambda>kv. fst kv \<le> k) m)"
    by (metis set_append takeWhile_dropWhile_id)
  then show ?thesis by (auto simp: emplace_def)
qed

lemma keys_emplace: "keys (emplace k v m) = insert k (keys m)"
  by (simp add: keys_def set_emplace)

lemma CalculateRealAddress_offset:
  "CalculateRealAddress D base (base + x) = CEG_CODE_BASE D + x"
  by (simp add: CalculateRealAddress_def)

lemma find_finalize_crc_Some:
  "find_finalize_crc m target ps = Some (hit, off) \<Longrightarrow>
     hit \<noteq> 0 \<and> (\<exists>i < length ps. snd (ps ! i) = off
                    \<and> hit = FindFunction m (fst (ps ! i)) target CEG_SCAN_SIZE
                    \<and> (\<forall>j < i. FindFunction m (fst (ps ! j)) target CEG_SCAN_SIZE = 0))"
proof (induction ps)
  case Nil
  then show ?case by simp
next
  case (Cons a ps)
  obtain p o' where a: "a = (p, o')" by (cases a)
  show ?case
  proof (cases "FindFunction m p target CEG_SCAN_SIZE = 0")
    case True
    then have "find_finalize_crc m target ps = Some (hit, off)"
      using Cons.prems a by simp
    from Cons.IH[OF this] obtain i where
      i: "hit \<noteq> 0" "i < length ps" "snd (ps ! i) = off"
         "hit = FindFunction m (fst (ps ! i)) target CEG_SCAN_SIZE"
         "\<forall>j < i. FindFunction m (fst (ps ! j)) target CEG_SCAN_SIZE = 0"
      by blast
    have "\<forall>j < Suc i. FindFunction m (fst ((a # ps) ! j)) target CEG_SCAN_SIZE = 0"
      using i(5) True a by (auto simp: less_Suc_eq_0_disj)
    then have "Suc i < length (a # ps) \<and> snd ((a # ps) ! Suc i) = off
        \<and> hit = FindFunction m (fst ((a # ps) ! Suc i)) target CEG_SCAN_SIZE
        \<and> (\<forall>j < Suc i. FindFunction m (fst ((a # ps) ! j)) target CEG_SCAN_SIZE = 0)"
      using i by simp
    then show ?thesis using i(1) by blast
  next
    case False
    then have "hit = FindFunction m p target CEG_SCAN_SIZE" "off = o'"
      using Cons.prems a by (simp_all add: Let_def)
    then show ?thesis
      using False a by (intro conjI exI[of _ 0]) simp_all
  qed
qed
text \<open>
  C7. In a legacy binary, at a call site followed by \<^verbatim>\<open>call eax\<close> (\<open>FF D0\<close>), the
  path through \<^verbatim>\<open>GetCEGFunctionType\<close> (a finalize-CRC pattern matched) and the
  fallback path of \<^verbatim>\<open>ProcessProtectedFunction\<close> (none matched) put a StolenV1 record
  with the same \<open>eip\<close>: the address before the call site when the byte there is \<open>51\<close>,
  the call site otherwise. The first path computes \<open>eip - 1\<close> or \<open>eip\<close> from the call
  site, the second \<open>eip\<close> or \<open>eip + 1\<close> from the byte before it.
\<close>

theorem C7_legacy_eip_agree:
  assumes "CEG_OLD_VERSION D \<noteq> 0"
    and "m (call_site + 5) = 0xFF" and "m (call_site + 5 + 1) = 0xD0"
  shows "GetCEGFunctionType dec m call_site bp address call_offset
           (CalculateRealAddress D address target) D
         = D\<lparr>CEG_PROTECTED_STOLEN_FUNCS_v1 :=
               emplace (CalculateRealAddress D address target)
                 (CalculateRealAddress D address target, StolenV1_eip m D address call_site,
                  CalculateRealAddress D address bp)
                 (CEG_PROTECTED_STOLEN_FUNCS_v1 D)\<rparr>
       \<and> legacy_fallback m call_site target address D
         = D\<lparr>CEG_PROTECTED_STOLEN_FUNCS_v1 :=
               emplace (CalculateRealAddress D address target)
                 (CalculateRealAddress D address target, StolenV1_eip m D address call_site,
                  CalculateRealAddress D address (call_site + 5 + 2))
                 (CEG_PROTECTED_STOLEN_FUNCS_v1 D)\<rparr>"
proof -
  have e: "CalculateRealAddress D address (call_site - 1) + 1
             = CalculateRealAddress D address call_site"
    "CalculateRealAddress D address (call_site - 1)
             = CalculateRealAddress D address call_site - 1"
    by (simp_all add: CalculateRealAddress_def)
  show ?thesis
    using assms
    by (simp add: GetCEGFunctionType_def legacy_fallback_def StolenV1_eip_def Let_def e)
qed

theorem C7_legacy_eip_agree_witness:
  "CEG_OLD_VERSION (ex_Data 0x10001000) \<noteq> 0
   \<and> ex_mem (0x10001048 + 5) = 0xFF \<and> ex_mem (0x10001048 + 5 + 1) = 0xD0
   \<and> ex_mem (0x10001048 - 1) = 0x51
   \<and> StolenV1_eip ex_mem (ex_Data 0x10001000) 0x10001000 0x10001048 = 0x00401047
   \<and> GetCEGFunctionType decode_fragment ex_mem 0x10001048 0x10001060 0x10001000 72
        (CalculateRealAddress (ex_Data 0x10001000) 0x10001000 0x10001050) (ex_Data 0x10001000)
      = (ex_Data 0x10001000)\<lparr>CEG_PROTECTED_STOLEN_FUNCS_v1 :=
           [(0x00401050, (0x00401050, 0x00401047, 0x00401060))]\<rparr>
   \<and> legacy_fallback ex_mem 0x10001048 0x10001050 0x10001000 (ex_Data 0x10001000)
      = (ex_Data 0x10001000)\<lparr>CEG_PROTECTED_STOLEN_FUNCS_v1 :=
           [(0x00401050, (0x00401050, 0x00401047, 0x0040104F))]\<rparr>"
proof -
  have h: "CEG_OLD_VERSION (ex_Data 0x10001000) \<noteq> 0"
    "ex_mem (0x10001048 + 5) = 0xFF" "ex_mem (0x10001048 + 5 + 1) = 0xD0"
    by code_simp+
  have p: "ex_mem (0x10001048 - 1) = 0x51" by code_simp
  have v: "StolenV1_eip ex_mem (ex_Data 0x10001000) 0x10001000 0x10001048 = 0x00401047"
    "CalculateRealAddress (ex_Data 0x10001000) 0x10001000 0x10001050 = 0x00401050"
    "CalculateRealAddress (ex_Data 0x10001000) 0x10001000 0x10001060 = 0x00401060"
    "CalculateRealAddress (ex_Data 0x10001000) 0x10001000 (0x10001048 + 5 + 2) = 0x0040104F"
    "CEG_PROTECTED_STOLEN_FUNCS_v1 (ex_Data 0x10001000) = []"
    by code_simp+
  from C7_legacy_eip_agree[OF h, of decode_fragment "0x10001060" "0x10001000" 72 "0x10001050"]
  show ?thesis using h p v by (simp add: emplace_def)
qed

text \<open>
  C3. The section that starts with a function, modern binary, the stub at offset 48
  protected. The call at offset 32 is classified StolenV3 (the byte after the call is
  \<open>90\<close>, the byte at the call site \<open>E8\<close>), with \<open>eip\<close> the call site and \<open>bp\<close>
  the pattern hit plus 16. The bytes at offset 0 decode as \<^verbatim>\<open>push ebp\<close> followed by
  \<^verbatim>\<open>mov ebp, esp\<close>, 32 bytes before the call site, and no other prologue lies in
  between; yet the record's prologue is the target \<open>0x00401030\<close>, not \<open>0x00401000\<close>:
  the backward scan stops before it tests offset 0. With the same bytes one byte further
  into the section the scan finds the prologue, \<open>0x00401001\<close>.
\<close>

theorem C3_prologue_at_section_start:
  "decode_fragment ex_start_mem 0x10001000
     = Some \<lparr>mnemonic_of = PUSH, instr_length = 1, operand0 = OPERAND_REGISTER EBP,
             operand1 = OPERAND_OTHER\<rparr>
   \<and> decode_fragment ex_start_mem (0x10001000 + 1)
     = Some \<lparr>mnemonic_of = MOV, instr_length = 2, operand0 = OPERAND_REGISTER EBP,
             operand1 = OPERAND_REGISTER ESP\<rparr>
   \<and> AnalyzeCEGProtectedFunctions decode_fragment ex_start_mem 112 0x10001000 [0x10001030]
        (ex_Data 0)
     = (ex_Data 0)\<lparr>CEG_PROTECTED_STOLEN_FUNCS_v3 :=
                      [(0x00401030, (0x00401030, 0x00401020, 0x00401040))]\<rparr>
   \<and> AnalyzeCEGProtectedFunctions decode_fragment ex_shifted_mem 112 0x10001000 [0x10001031]
        (ex_Data 0)
     = (ex_Data 0)\<lparr>CEG_PROTECTED_STOLEN_FUNCS_v3 :=
                      [(0x00401031, (0x00401001, 0x00401021, 0x00401041))]\<rparr>"
proof -
  have d: "decode_fragment ex_start_mem 0x10001000
     = Some \<lparr>mnemonic_of = PUSH, instr_length = 1, operand0 = OPERAND_REGISTER EBP,
             operand1 = OPERAND_OTHER\<rparr>"
    "decode_fragment ex_start_mem (0x10001000 + 1)
     = Some \<lparr>mnemonic_of = MOV, instr_length = 2, operand0 = OPERAND_REGISTER EBP,
             operand1 = OPERAND_REGISTER ESP\<rparr>"
    by code_simp+
  have a: "AnalyzeCEGProtectedFunctions decode_fragment ex_start_mem 112 0x10001000 [0x10001030]
        (ex_Data 0)
     = (ex_Data 0)\<lparr>CEG_PROTECTED_STOLEN_FUNCS_v3 :=
                      [(0x00401030, (0x00401030, 0x00401020, 0x00401040))]\<rparr>"
    by code_simp
  have b: "AnalyzeCEGProtectedFunctions decode_fragment ex_shifted_mem 112 0x10001000 [0x10001031]
        (ex_Data 0)
     = (ex_Data 0)\<lparr>CEG_PROTECTED_STOLEN_FUNCS_v3 :=
                      [(0x00401031, (0x00401001, 0x00401021, 0x00401041))]\<rparr>"
    by code_simp
  show ?thesis using d a b by (intro conjI)
qed

lemma keys_Nil: "keys [] = {}"
  by (simp add: keys_def)

lemma pass_inv_emplace_constant:
  "pass_inv D0 address funcs D \<Longrightarrow> CEG_OLD_VERSION D = 0 \<Longrightarrow>
   k \<in> CalculateRealAddress D0 address ` set funcs \<Longrightarrow>
   pass_inv D0 address funcs
     (D\<lparr>CEG_PROTECTED_CONSTANT_FUNCS := emplace k v (CEG_PROTECTED_CONSTANT_FUNCS D)\<rparr>)"
  by (auto simp: pass_inv_def recorded_def keys_emplace keys_Nil split: if_splits)

lemma pass_inv_emplace_v1:
  "pass_inv D0 address funcs D \<Longrightarrow> CEG_OLD_VERSION D \<noteq> 0 \<Longrightarrow>
   k \<in> CalculateRealAddress D0 address ` set funcs \<Longrightarrow>
   pass_inv D0 address funcs
     (D\<lparr>CEG_PROTECTED_STOLEN_FUNCS_v1 := emplace k v (CEG_PROTECTED_STOLEN_FUNCS_v1 D)\<rparr>)"
  by (auto simp: pass_inv_def recorded_def keys_emplace keys_Nil split: if_splits)

lemma pass_inv_emplace_v2:
  "pass_inv D0 address funcs D \<Longrightarrow>
   k \<in> CalculateRealAddress D0 address ` set funcs \<Longrightarrow>
   pass_inv D0 address funcs
     (D\<lparr>CEG_PROTECTED_STOLEN_FUNCS_v2 := emplace k v (CEG_PROTECTED_STOLEN_FUNCS_v2 D)\<rparr>)"
  by (auto simp: pass_inv_def recorded_def keys_emplace keys_Nil split: if_splits)

lemma pass_inv_emplace_v3:
  "pass_inv D0 address funcs D \<Longrightarrow> CEG_OLD_VERSION D = 0 \<Longrightarrow>
   k \<in> CalculateRealAddress D0 address ` set funcs \<Longrightarrow>
   pass_inv D0 address funcs
     (D\<lparr>CEG_PROTECTED_STOLEN_FUNCS_v3 := emplace k v (CEG_PROTECTED_STOLEN_FUNCS_v3 D)\<rparr>)"
  by (auto simp: pass_inv_def recorded_def keys_emplace keys_Nil split: if_splits)

lemma GetCEGFunctionType_inv:
  assumes "pass_inv D0 address funcs D" and "target \<in> set funcs"
  shows "pass_inv D0 address funcs
           (GetCEGFunctionType dec m cur bp address co (CalculateRealAddress D address target) D)"
proof -
  have r: "CalculateRealAddress D address target = CalculateRealAddress D0 address target"
    using assms(1) by (simp add: pass_inv_def CalculateRealAddress_def)
  have t: "CalculateRealAddress D0 address target \<in> CalculateRealAddress D0 address ` set funcs"
    using assms(2) by simp
  show ?thesis
    unfolding r GetCEGFunctionType_def Let_def
    using assms(1) t
    by (simp add: pass_inv_emplace_constant pass_inv_emplace_v1 pass_inv_emplace_v2
        pass_inv_emplace_v3)
qed

lemma legacy_fallback_inv:
  assumes "pass_inv D0 address funcs D" and "target \<in> set funcs" and "CEG_OLD_VERSION D \<noteq> 0"
  shows "pass_inv D0 address funcs (legacy_fallback m cur target address D)"
proof -
  have r: "CalculateRealAddress D address target = CalculateRealAddress D0 address target"
    using assms(1) by (simp add: pass_inv_def CalculateRealAddress_def)
  have t: "CalculateRealAddress D0 address target \<in> CalculateRealAddress D0 address ` set funcs"
    using assms(2) by simp
  show ?thesis
    unfolding legacy_fallback_def Let_def r
    using assms(1,3) t by (simp add: pass_inv_emplace_v1)
qed

lemma ProcessProtectedFunction_inv:
  assumes "pass_inv D0 address funcs D" and "target \<in> set funcs"
  shows "pass_inv D0 address funcs (ProcessProtectedFunction dec m cur target address co D)"
  using assms GetCEGFunctionType_inv[OF assms] legacy_fallback_inv[OF assms]
  by (auto simp: ProcessProtectedFunction_def split: option.splits)

lemma register_thread_inv:
  "pass_inv D0 address funcs D \<Longrightarrow>
   pass_inv D0 address funcs (D\<lparr>CEG_REGISTER_THREAD_FUNC := t\<rparr>)"
  by (simp add: pass_inv_def recorded_def)

lemma ProcessInstruction_inv:
  assumes "pass_inv D0 address funcs D"
  shows "pass_inv D0 address funcs (ProcessInstruction dec m data_size address off funcs D)"
proof -
  have "pass_inv D0 address funcs (ProcessTargetInstruction dec m ins address off funcs D)" for ins
    unfolding ProcessTargetInstruction_def Let_def
    using assms register_thread_inv[OF assms] ProcessProtectedFunction_inv
    by (simp split: if_splits)
  then show ?thesis
    using assms by (simp add: ProcessInstruction_def split: option.splits)
qed

lemma analyze_loop_inv:
  "pass_inv D0 address funcs D \<Longrightarrow>
   pass_inv D0 address funcs (analyze_loop dec m data_size address funcs off D)"
proof (induction dec m data_size address funcs off D rule: analyze_loop.induct)
  case (1 dec m data_size address funcs off D)
  show ?case
  proof (cases "off < data_size")
    case True
    then show ?thesis
      using 1 ProcessInstruction_inv[OF "1.prems"]
      by (simp add: analyze_loop.simps[of dec m data_size address funcs off D])
  next
    case False
    then show ?thesis
      using "1.prems" by (simp add: analyze_loop.simps[of dec m data_size address funcs off D])
  qed
qed

lemma remove_ref_eq:
  "remove_ref c D =
     D\<lparr>CEG_PROTECTED_STOLEN_FUNCS_v2 :=
         filter (\<lambda>kv. fst kv \<notin> keys c) (CEG_PROTECTED_STOLEN_FUNCS_v2 D)\<rparr>"
proof (induction c arbitrary: D)
  case Nil
  then show ?case by (simp add: keys_def)
next
  case (Cons a c)
  obtain k v where a: "a = (k, v)" by (cases a)
  have "filter (\<lambda>kv. fst kv \<notin> keys c) (erase_key k (CEG_PROTECTED_STOLEN_FUNCS_v2 D))
        = filter (\<lambda>kv. fst kv \<notin> keys (a # c)) (CEG_PROTECTED_STOLEN_FUNCS_v2 D)"
    by (auto simp: erase_key_def keys_def a intro: filter_cong)
  then show ?case using Cons a by simp
qed

lemma keys_filter: "keys (filter (\<lambda>kv. fst kv \<notin> S) m) = keys m - S"
  by (auto simp: keys_def)

lemma find_finalize_crc_None:
  "find_finalize_crc m t ps = None \<longleftrightarrow>
     (\<forall>p \<in> set (map fst ps). FindFunction m p t CEG_SCAN_SIZE = 0)"
  by (induction ps) (auto simp: Let_def split: if_splits)

lemma pattern_found_iff:
  "pattern_found m t \<longleftrightarrow>
     find_finalize_crc m t (zip FINALIZE_CRC_PATTERNS FINALIZE_CRC_OFFSETS) \<noteq> None"
proof -
  have "length FINALIZE_CRC_PATTERNS = length FINALIZE_CRC_OFFSETS"
    by (simp add: FINALIZE_CRC_PATTERNS_def FINALIZE_CRC_OFFSETS_def)
  then have "map fst (zip FINALIZE_CRC_PATTERNS FINALIZE_CRC_OFFSETS) = FINALIZE_CRC_PATTERNS"
    by (rule map_fst_zip)
  then show ?thesis
    using find_finalize_crc_None[of m t "zip FINALIZE_CRC_PATTERNS FINALIZE_CRC_OFFSETS"]
    by (auto simp: pattern_found_def)
qed

lemma same_image_refl: "same_image D D"
  by (simp add: same_image_def)

lemma same_image_CalculateRealAddress:
  "same_image D0 D \<Longrightarrow> CalculateRealAddress D a b = CalculateRealAddress D0 a b"
  by (simp add: same_image_def CalculateRealAddress_def)

lemma same_image_VaToOffset: "same_image D0 D \<Longrightarrow> VaToOffset D va = VaToOffset D0 va"
  by (simp add: same_image_def VaToOffset_def)

lemma GetCEGFunctionType_same_image:
  "same_image D0 D \<Longrightarrow> same_image D0 (GetCEGFunctionType dec m cur bp address co tf D)"
  by (simp add: GetCEGFunctionType_def same_image_def Let_def)

lemma legacy_fallback_same_image:
  "same_image D0 D \<Longrightarrow> same_image D0 (legacy_fallback m cur target address D)"
  by (simp add: legacy_fallback_def same_image_def Let_def)

lemma GetCEGFunctionType_keys:
  assumes "pattern_found m target"
  shows "keys (variant_map v (GetCEGFunctionType dec m cur bp address co tf D)) =
           keys (variant_map v D)
             \<union> (if classify m (CEG_OLD_VERSION D \<noteq> 0) cur target = Some v then {tf} else {})"
  using assms
  by (cases v)
     (simp_all add: GetCEGFunctionType_def classify_def variant_map_def Let_def keys_emplace)

lemma legacy_fallback_keys:
  assumes "\<not> pattern_found m target" and "CEG_OLD_VERSION D \<noteq> 0"
  shows "keys (variant_map v (legacy_fallback m cur target address D)) =
           keys (variant_map v D)
             \<union> (if classify m (CEG_OLD_VERSION D \<noteq> 0) cur target = Some v
                 then {CalculateRealAddress D address target} else {})"
  using assms
  by (cases v)
     (simp_all add: legacy_fallback_def classify_def variant_map_def Let_def keys_emplace)

lemma ProcessProtectedFunction_keys:
  "keys (variant_map v (ProcessProtectedFunction dec m cur target address co D)) =
     keys (variant_map v D)
       \<union> (if classify m (CEG_OLD_VERSION D \<noteq> 0) cur target = Some v
           then {CalculateRealAddress D address target} else {})"
proof (cases "pattern_found m target")
  case True
  then have "find_finalize_crc m target (zip FINALIZE_CRC_PATTERNS FINALIZE_CRC_OFFSETS) \<noteq> None"
    by (simp add: pattern_found_iff)
  then obtain hit off where
    "find_finalize_crc m target (zip FINALIZE_CRC_PATTERNS FINALIZE_CRC_OFFSETS) = Some (hit, off)"
    by (metis not_None_eq surj_pair)
  then show ?thesis
    using GetCEGFunctionType_keys[OF True] by (simp add: ProcessProtectedFunction_def)
next
  case False
  then have n: "find_finalize_crc m target (zip FINALIZE_CRC_PATTERNS FINALIZE_CRC_OFFSETS) = None"
    using pattern_found_iff[of m target] by blast
  show ?thesis
  proof (cases "CEG_OLD_VERSION D \<noteq> 0")
    case True
    then show ?thesis
      using legacy_fallback_keys[OF False True] n by (simp add: ProcessProtectedFunction_def)
  next
    case old: False
    then show ?thesis
      using False n by (simp add: ProcessProtectedFunction_def classify_def Let_def)
  qed
qed

lemma ProcessProtectedFunction_same_image:
  "same_image D0 D \<Longrightarrow>
   same_image D0 (ProcessProtectedFunction dec m cur target address co D)"
  by (auto simp: ProcessProtectedFunction_def GetCEGFunctionType_same_image
      legacy_fallback_same_image split: option.splits)

lemma site_target_code:
  "site_target D cur ins =
     (if IsTargetInstruction ins
      then Some (if mnemonic_of ins = MOV
                 then VaToOffset D (word_of_int (imm_value (operand1 ins)))
                 else cur + word_of_int (imm_value (operand0 ins) + int (instr_length ins)))
      else None)"
  by (auto simp: site_target_def IsTargetInstruction_def)

lemma ProcessInstruction_keys:
  assumes "same_image D0 D"
  shows "keys (variant_map v (ProcessInstruction dec m data_size address off funcs D)) =
           keys (variant_map v D)
             \<union> (case variant_at dec m data_size address funcs D0 off of
                   None \<Rightarrow> {}
                 | Some (v', k) \<Rightarrow> if v' = v then {k} else {})"
proof -
  have old: "CEG_OLD_VERSION D = CEG_OLD_VERSION D0"
    using assms by (simp add: same_image_def)
  have rt: "variant_map v (D\<lparr>CEG_REGISTER_THREAD_FUNC := t\<rparr>) = variant_map v D" for t
    by (cases v) (simp_all add: variant_map_def)
  have cra: "CalculateRealAddress (D\<lparr>CEG_REGISTER_THREAD_FUNC := t\<rparr>) a b
               = CalculateRealAddress D0 a b" for t a b
    using assms by (simp add: same_image_def CalculateRealAddress_def)
  show ?thesis
  proof (cases "off + 15 \<le> data_size")
    case False
    then show ?thesis by (simp add: ProcessInstruction_def variant_at_def)
  next
    case True
    show ?thesis
    proof (cases "dec m (address + of_nat off)")
      case None
      then show ?thesis using True by (simp add: ProcessInstruction_def variant_at_def)
    next
      case (Some ins)
      show ?thesis
      proof (cases "IsTargetInstruction ins")
        case False
        then show ?thesis
          using True Some by (simp add: ProcessInstruction_def variant_at_def site_target_code)
      next
        case tgt: True
        define target where "target =
          (if mnemonic_of ins = MOV
           then VaToOffset D (word_of_int (imm_value (operand1 ins)))
           else address + of_nat off
                  + word_of_int (imm_value (operand0 ins) + int (instr_length ins)))"
        have st: "site_target D0 (address + of_nat off) ins = Some target"
          using tgt same_image_VaToOffset[OF assms]
          by (simp add: site_target_code target_def)
        define D1 where "D1 =
          (if CEG_REGISTER_THREAD_FUNC D = 0 \<and> CEG_REGISTER_THREAD_FUNC_FUNCS D \<noteq> []
              \<and> target \<in> set (CEG_REGISTER_THREAD_FUNC_FUNCS D)
           then D\<lparr>CEG_REGISTER_THREAD_FUNC := target\<rparr> else D)"
        have D1: "variant_map v D1 = variant_map v D"
          "CEG_OLD_VERSION D1 = CEG_OLD_VERSION D0"
          "CalculateRealAddress D1 a b = CalculateRealAddress D0 a b" for a b
          using rt cra old same_image_CalculateRealAddress[OF assms]
          by (simp_all add: D1_def)
        have PI: "ProcessInstruction dec m data_size address off funcs D =
            (if target \<in> set funcs
             then ProcessProtectedFunction dec m (address + of_nat off) target address off D1
             else D1)"
          using True Some tgt
          by (simp add: ProcessInstruction_def ProcessTargetInstruction_def Let_def
              target_def D1_def)
        show ?thesis
        proof (cases "target \<in> set funcs")
          case False
          then show ?thesis
            using True Some st D1(1) by (simp add: PI variant_at_def)
        next
          case inF: True
          show ?thesis
            unfolding PI using inF True Some st D1
            by (simp add: ProcessProtectedFunction_keys variant_at_def split: option.splits)
        qed
      qed
    qed
  qed
qed

lemma ProcessInstruction_same_image:
  assumes "same_image D0 D"
  shows "same_image D0 (ProcessInstruction dec m data_size address off funcs D)"
proof -
  have rt: "same_image D0 (D\<lparr>CEG_REGISTER_THREAD_FUNC := t\<rparr>)" for t
    using assms by (simp add: same_image_def)
  have "same_image D0 (ProcessTargetInstruction dec m ins address off funcs D)" for ins
    unfolding ProcessTargetInstruction_def Let_def
    using assms rt ProcessProtectedFunction_same_image
    by (simp split: if_splits)
  then show ?thesis
    using assms by (simp add: ProcessInstruction_def split: option.splits)
qed

lemma analyze_loop_keys:
  "same_image D0 D \<Longrightarrow>
   keys (variant_map v (analyze_loop dec m data_size address funcs off D)) =
     keys (variant_map v D)
       \<union> {k. \<exists>j. off \<le> j \<and> j < data_size
                 \<and> variant_at dec m data_size address funcs D0 j = Some (v, k)}"
proof (induction dec m data_size address funcs off D rule: analyze_loop.induct)
  case (1 dec m data_size address funcs off D)
  show ?case
  proof (cases "off < data_size")
    case False
    then show ?thesis
      by (auto simp: analyze_loop.simps[of dec m data_size address funcs off D])
  next
    case True
    define D' where "D' = ProcessInstruction dec m data_size address off funcs D"
    have si: "same_image D0 D'"
      unfolding D'_def by (rule ProcessInstruction_same_image[OF "1.prems"])
    have step: "keys (variant_map v D') =
           keys (variant_map v D)
             \<union> {k. variant_at dec m data_size address funcs D0 off = Some (v, k)}"
      unfolding D'_def ProcessInstruction_keys[OF "1.prems"]
      by (auto split: option.splits)
    have IH: "keys (variant_map v (analyze_loop dec m data_size address funcs (Suc off) D')) =
         keys (variant_map v D')
           \<union> {k. \<exists>j. Suc off \<le> j \<and> j < data_size
                 \<and> variant_at dec m data_size address funcs D0 j = Some (v, k)}"
      using "1.IH"[OF True] si by (simp add: D'_def)
    have "(\<exists>j. off \<le> j \<and> j < data_size
                 \<and> variant_at dec m data_size address funcs D0 j = Some (v, k))
        \<longleftrightarrow> variant_at dec m data_size address funcs D0 off = Some (v, k)
          \<or> (\<exists>j. Suc off \<le> j \<and> j < data_size
                 \<and> variant_at dec m data_size address funcs D0 j = Some (v, k))" for k
      using True by (metis Suc_leD Suc_leI le_neq_implies_less order_refl)
    then have split: "{k. \<exists>j. off \<le> j \<and> j < data_size
                 \<and> variant_at dec m data_size address funcs D0 j = Some (v, k)}
        = {k. variant_at dec m data_size address funcs D0 off = Some (v, k)}
          \<union> {k. \<exists>j. Suc off \<le> j \<and> j < data_size
                 \<and> variant_at dec m data_size address funcs D0 j = Some (v, k)}"
      by blast
    have "analyze_loop dec m data_size address funcs off D =
            analyze_loop dec m data_size address funcs (Suc off) D'"
      using True by (simp add: analyze_loop.simps[of dec m data_size address funcs off D] D'_def)
    then show ?thesis using IH step split by auto
  qed
qed

lemma classified_iff:
  "k \<in> classified dec m data_size address funcs D v \<longleftrightarrow>
     (\<exists>j < data_size. variant_at dec m data_size address funcs D j = Some (v, k))"
proof -
  have F: "k \<in> (case x of None \<Rightarrow> {} | Some (v', k') \<Rightarrow> if v' = v then {k'} else {})
            \<longleftrightarrow> x = Some (v, k)" for x :: "(variant \<times> u32) option"
    by (cases x) (auto split: if_splits)
  show ?thesis by (auto simp: classified_def F)
qed

lemma AnalyzeCEGProtectedFunctions_keys:
  assumes "variant_map v D = []"
  shows "keys (variant_map v (AnalyzeCEGProtectedFunctions dec m data_size address funcs D))
           = classified dec m data_size address funcs D v"
  using analyze_loop_keys[OF same_image_refl, of v dec m data_size address funcs 0 D] assms
  by (auto simp: AnalyzeCEGProtectedFunctions_def classified_iff keys_Nil)

lemma classified_legacy:
  "CEG_OLD_VERSION D \<noteq> 0 \<Longrightarrow>
     classified dec m data_size address funcs D ConstantV2 = {}
     \<and> classified dec m data_size address funcs D StolenV3 = {}"
  by (auto simp: classified_iff variant_at_def classify_def Let_def
      split: if_splits option.splits)

lemma classified_modern:
  "CEG_OLD_VERSION D = 0 \<Longrightarrow> classified dec m data_size address funcs D StolenV1 = {}"
  by (auto simp: classified_iff variant_at_def classify_def Let_def
      split: if_splits option.splits)

lemma remove_duplicates_fields:
  "CEG_PROTECTED_CONSTANT_FUNCS (remove_duplicates D) = CEG_PROTECTED_CONSTANT_FUNCS D"
  "CEG_PROTECTED_STOLEN_FUNCS_v1 (remove_duplicates D) = CEG_PROTECTED_STOLEN_FUNCS_v1 D"
  "CEG_PROTECTED_STOLEN_FUNCS_v3 (remove_duplicates D) = CEG_PROTECTED_STOLEN_FUNCS_v3 D"
  by (simp_all add: remove_duplicates_def remove_ref_eq)

lemma remove_duplicates_keys_v2:
  "keys (CEG_PROTECTED_STOLEN_FUNCS_v2 (remove_duplicates D)) =
     keys (CEG_PROTECTED_STOLEN_FUNCS_v2 D)
       - (if CEG_OLD_VERSION D \<noteq> 0 then keys (CEG_PROTECTED_STOLEN_FUNCS_v1 D)
          else keys (CEG_PROTECTED_CONSTANT_FUNCS D) \<union> keys (CEG_PROTECTED_STOLEN_FUNCS_v3 D))"
proof (cases "CEG_OLD_VERSION D \<noteq> 0")
  case True
  then show ?thesis by (simp add: remove_duplicates_def remove_ref_eq keys_filter)
next
  case False
  have "keys (filter (\<lambda>kv. fst kv \<notin> keys (CEG_PROTECTED_STOLEN_FUNCS_v3 D))
                (filter (\<lambda>kv. fst kv \<notin> keys (CEG_PROTECTED_CONSTANT_FUNCS D))
                   (CEG_PROTECTED_STOLEN_FUNCS_v2 D)))
        = keys (CEG_PROTECTED_STOLEN_FUNCS_v2 D)
            - (keys (CEG_PROTECTED_CONSTANT_FUNCS D) \<union> keys (CEG_PROTECTED_STOLEN_FUNCS_v3 D))"
    by (auto simp: keys_def)
  then show ?thesis using False by (simp add: remove_duplicates_def remove_ref_eq)
qed

text \<open>
  C8. Modern binary, the example section, protected functions at offsets 48 and 80. The
  stub at offset 48 is called at offset 32 (classified StolenV3) and at offset 38
  (classified ConstantV2): after the pass and the de-duplication its address
  \<open>0x00401030\<close> is a key of both maps. The stub at offset 80 is called at offset 72; no
  finalize-CRC pattern occurs in it, and its address \<open>0x00401050\<close> is in no map.
\<close>

theorem C8_variant_maps_counterexample:
  "analyzer_pass decode_fragment ex_mem 112 0x10001000 [0x10001030, 0x10001050] (ex_Data 0)
     = (ex_Data 0)\<lparr>CEG_PROTECTED_STOLEN_FUNCS_v3 :=
                      [(0x00401030, (0x00401010, 0x00401020, 0x00401040))],
                    CEG_PROTECTED_CONSTANT_FUNCS :=
                      [(0x00401030, (0x00401030, 0x00401026, 0x00401040))]\<rparr>
   \<and> map_option (\<lambda>ins. (mnemonic_of ins, 0x10001000 + of_nat 72
                          + word_of_int (imm_value (operand0 ins) + int (instr_length ins))))
        (decode_fragment ex_mem (0x10001000 + of_nat 72)) = Some (CALL, 0x10001050 :: u32)
   \<and> CalculateRealAddress (ex_Data 0) 0x10001000 0x10001050 = 0x00401050
   \<and> CalculateRealAddress (ex_Data 0) 0x10001000 0x10001030 = 0x00401030"
  by code_simp

text \<open>
  C8, amended. Starting from empty maps, after the pass and the de-duplication. A
  function address is a key of ConstantV2, of StolenV1 or of StolenV3 exactly when it is
  the image address of a protected function found at a call site that the rules classify
  as that variant; it is a key of StolenV2 exactly when a call site of it is classified as
  StolenV2 and none as another variant. So the recorded addresses are exactly the
  targets with a classified call site: a found target is in some map as soon as one of
  its call sites is classified, and in no map when none is. Every recorded address is
  the image address of a protected function of the list; no key of StolenV2 is a key of
  another map; a legacy binary has no ConstantV2 and no StolenV3 record, a modern binary
  no StolenV1 record. Only ConstantV2 and StolenV3 of a modern binary can share a
  function address.
\<close>

theorem C8_variant_maps:
  assumes "CEG_PROTECTED_CONSTANT_FUNCS D = []" and "CEG_PROTECTED_STOLEN_FUNCS_v1 D = []"
    and "CEG_PROTECTED_STOLEN_FUNCS_v2 D = []" and "CEG_PROTECTED_STOLEN_FUNCS_v3 D = []"
  shows "keys (CEG_PROTECTED_CONSTANT_FUNCS (analyzer_pass dec m data_size address funcs D))
           = classified dec m data_size address funcs D ConstantV2
       \<and> keys (CEG_PROTECTED_STOLEN_FUNCS_v1 (analyzer_pass dec m data_size address funcs D))
           = classified dec m data_size address funcs D StolenV1
       \<and> keys (CEG_PROTECTED_STOLEN_FUNCS_v3 (analyzer_pass dec m data_size address funcs D))
           = classified dec m data_size address funcs D StolenV3
       \<and> keys (CEG_PROTECTED_STOLEN_FUNCS_v2 (analyzer_pass dec m data_size address funcs D))
           = classified dec m data_size address funcs D StolenV2
               - (classified dec m data_size address funcs D ConstantV2
                    \<union> classified dec m data_size address funcs D StolenV1
                    \<union> classified dec m data_size address funcs D StolenV3)
       \<and> recorded (analyzer_pass dec m data_size address funcs D)
           = classified dec m data_size address funcs D ConstantV2
               \<union> classified dec m data_size address funcs D StolenV1
               \<union> classified dec m data_size address funcs D StolenV2
               \<union> classified dec m data_size address funcs D StolenV3
       \<and> recorded (analyzer_pass dec m data_size address funcs D)
           \<subseteq> CalculateRealAddress D address ` set funcs
       \<and> keys (CEG_PROTECTED_STOLEN_FUNCS_v2 (analyzer_pass dec m data_size address funcs D))
           \<inter> (keys (CEG_PROTECTED_CONSTANT_FUNCS
                       (analyzer_pass dec m data_size address funcs D))
                \<union> keys (CEG_PROTECTED_STOLEN_FUNCS_v1
                         (analyzer_pass dec m data_size address funcs D))
                \<union> keys (CEG_PROTECTED_STOLEN_FUNCS_v3
                         (analyzer_pass dec m data_size address funcs D))) = {}
       \<and> (if CEG_OLD_VERSION D \<noteq> 0
          then CEG_PROTECTED_CONSTANT_FUNCS (analyzer_pass dec m data_size address funcs D) = []
             \<and> CEG_PROTECTED_STOLEN_FUNCS_v3 (analyzer_pass dec m data_size address funcs D) = []
          else CEG_PROTECTED_STOLEN_FUNCS_v1 (analyzer_pass dec m data_size address funcs D) = [])"
proof -
  define A where "A = AnalyzeCEGProtectedFunctions dec m data_size address funcs D"
  define C where "C = classified dec m data_size address funcs D"
  define P where "P = remove_duplicates A"
  have P: "analyzer_pass dec m data_size address funcs D = P"
    by (simp add: analyzer_pass_def P_def A_def)
  have "pass_inv D address funcs D"
    using assms by (simp add: pass_inv_def recorded_def keys_def)
  then have inv: "pass_inv D address funcs A"
    unfolding A_def AnalyzeCEGProtectedFunctions_def by (rule analyze_loop_inv)
  have old: "CEG_OLD_VERSION A = CEG_OLD_VERSION D"
    using inv by (simp add: pass_inv_def)
  have "variant_map v D = []" for v
    using assms by (cases v) (simp_all add: variant_map_def)
  then have "keys (variant_map v A) = C v" for v
    unfolding A_def C_def by (rule AnalyzeCEGProtectedFunctions_keys)
  from this[of ConstantV2] this[of StolenV1] this[of StolenV2] this[of StolenV3]
  have K: "keys (CEG_PROTECTED_CONSTANT_FUNCS A) = C ConstantV2"
    "keys (CEG_PROTECTED_STOLEN_FUNCS_v1 A) = C StolenV1"
    "keys (CEG_PROTECTED_STOLEN_FUNCS_v2 A) = C StolenV2"
    "keys (CEG_PROTECTED_STOLEN_FUNCS_v3 A) = C StolenV3"
    by (simp_all add: variant_map_def)
  have E: "CEG_OLD_VERSION D \<noteq> 0 \<Longrightarrow> C ConstantV2 = {} \<and> C StolenV3 = {}"
    "CEG_OLD_VERSION D = 0 \<Longrightarrow> C StolenV1 = {}"
    unfolding C_def using classified_legacy classified_modern by blast+
  have Z: "if CEG_OLD_VERSION D \<noteq> 0
           then CEG_PROTECTED_CONSTANT_FUNCS A = [] \<and> CEG_PROTECTED_STOLEN_FUNCS_v3 A = []
           else CEG_PROTECTED_STOLEN_FUNCS_v1 A = []"
    using inv by (simp add: pass_inv_def)
  have F: "CEG_PROTECTED_CONSTANT_FUNCS P = CEG_PROTECTED_CONSTANT_FUNCS A"
    "CEG_PROTECTED_STOLEN_FUNCS_v1 P = CEG_PROTECTED_STOLEN_FUNCS_v1 A"
    "CEG_PROTECTED_STOLEN_FUNCS_v3 P = CEG_PROTECTED_STOLEN_FUNCS_v3 A"
    unfolding P_def by (simp_all add: remove_duplicates_fields)
  have c1: "keys (CEG_PROTECTED_CONSTANT_FUNCS P) = C ConstantV2"
    and c2: "keys (CEG_PROTECTED_STOLEN_FUNCS_v1 P) = C StolenV1"
    and c3: "keys (CEG_PROTECTED_STOLEN_FUNCS_v3 P) = C StolenV3"
    using K F by simp_all
  have "keys (CEG_PROTECTED_STOLEN_FUNCS_v2 P) =
          C StolenV2 - (if CEG_OLD_VERSION D \<noteq> 0 then C StolenV1
                        else C ConstantV2 \<union> C StolenV3)"
    unfolding P_def remove_duplicates_keys_v2 old K by (rule refl)
  then have c4: "keys (CEG_PROTECTED_STOLEN_FUNCS_v2 P) =
          C StolenV2 - (C ConstantV2 \<union> C StolenV1 \<union> C StolenV3)"
    using E by (cases "CEG_OLD_VERSION D = 0") auto
  have sub: "recorded A \<subseteq> CalculateRealAddress D address ` set funcs"
    using inv by (simp add: pass_inv_def)
  have "recorded P \<subseteq> recorded A"
    unfolding recorded_def F c4 K by blast
  then have c5: "recorded P \<subseteq> CalculateRealAddress D address ` set funcs"
    using sub by (rule subset_trans)
  have c8: "recorded P = C ConstantV2 \<union> C StolenV1 \<union> C StolenV2 \<union> C StolenV3"
    unfolding recorded_def c1 c2 c3 c4 by blast
  have c6: "keys (CEG_PROTECTED_STOLEN_FUNCS_v2 P)
           \<inter> (keys (CEG_PROTECTED_CONSTANT_FUNCS P) \<union> keys (CEG_PROTECTED_STOLEN_FUNCS_v1 P)
                \<union> keys (CEG_PROTECTED_STOLEN_FUNCS_v3 P)) = {}"
    unfolding c1 c2 c3 c4 by blast
  have c7: "if CEG_OLD_VERSION D \<noteq> 0
          then CEG_PROTECTED_CONSTANT_FUNCS P = [] \<and> CEG_PROTECTED_STOLEN_FUNCS_v3 P = []
          else CEG_PROTECTED_STOLEN_FUNCS_v1 P = []"
    using Z unfolding F by this
  show ?thesis
    unfolding P C_def[symmetric] using c1 c2 c3 c4 c8 c5 c6 c7 by (intro conjI)
qed

theorem C8_variant_maps_witness:
  "CEG_PROTECTED_CONSTANT_FUNCS (ex_Data 0x10001000) = []
   \<and> CEG_PROTECTED_STOLEN_FUNCS_v1 (ex_Data 0x10001000) = []
   \<and> CEG_PROTECTED_STOLEN_FUNCS_v2 (ex_Data 0x10001000) = []
   \<and> CEG_PROTECTED_STOLEN_FUNCS_v3 (ex_Data 0x10001000) = []
   \<and> analyzer_pass decode_fragment ex_mem 112 0x10001000 [0x10001030, 0x10001050]
        (ex_Data 0x10001000)
     = (ex_Data 0x10001000)\<lparr>CEG_PROTECTED_STOLEN_FUNCS_v1 :=
                               [(0x00401050, (0x00401050, 0x00401047, 0x0040104F))]\<rparr>
   \<and> recorded (analyzer_pass decode_fragment ex_mem 112 0x10001000 [0x10001030, 0x10001050]
        (ex_Data 0x10001000))
     \<subseteq> CalculateRealAddress (ex_Data 0x10001000) 0x10001000 ` set [0x10001030, 0x10001050]
   \<and> classified decode_fragment ex_mem 112 0x10001000 [0x10001030, 0x10001050]
        (ex_Data 0x10001000) StolenV1 = {0x00401050}
   \<and> classified decode_fragment ex_mem 112 0x10001000 [0x10001030, 0x10001050]
        (ex_Data 0x10001000) ConstantV2 = {}
   \<and> classified decode_fragment ex_mem 112 0x10001000 [0x10001030, 0x10001050]
        (ex_Data 0x10001000) StolenV3 = {}"
proof -
  have e: "CEG_PROTECTED_CONSTANT_FUNCS (ex_Data 0x10001000) = []"
    "CEG_PROTECTED_STOLEN_FUNCS_v1 (ex_Data 0x10001000) = []"
    "CEG_PROTECTED_STOLEN_FUNCS_v2 (ex_Data 0x10001000) = []"
    "CEG_PROTECTED_STOLEN_FUNCS_v3 (ex_Data 0x10001000) = []"
    by (simp_all add: ex_Data_def)
  have r: "analyzer_pass decode_fragment ex_mem 112 0x10001000 [0x10001030, 0x10001050]
        (ex_Data 0x10001000)
     = (ex_Data 0x10001000)\<lparr>CEG_PROTECTED_STOLEN_FUNCS_v1 :=
                               [(0x00401050, (0x00401050, 0x00401047, 0x0040104F))]\<rparr>"
    by code_simp
  have k: "keys (CEG_PROTECTED_STOLEN_FUNCS_v1
                   ((ex_Data 0x10001000)\<lparr>CEG_PROTECTED_STOLEN_FUNCS_v1 :=
                               [(0x00401050, (0x00401050, 0x00401047, 0x0040104F))]\<rparr>))
             = {0x00401050}"
    "keys (CEG_PROTECTED_CONSTANT_FUNCS
                   ((ex_Data 0x10001000)\<lparr>CEG_PROTECTED_STOLEN_FUNCS_v1 :=
                               [(0x00401050, (0x00401050, 0x00401047, 0x0040104F))]\<rparr>)) = {}"
    "keys (CEG_PROTECTED_STOLEN_FUNCS_v3
                   ((ex_Data 0x10001000)\<lparr>CEG_PROTECTED_STOLEN_FUNCS_v1 :=
                               [(0x00401050, (0x00401050, 0x00401047, 0x0040104F))]\<rparr>)) = {}"
    by (simp_all add: keys_def ex_Data_def)
  note T = C8_variant_maps[OF e, of decode_fragment ex_mem 112 "0x10001000"
      "[0x10001030, 0x10001050]", unfolded r]
  have c1: "classified decode_fragment ex_mem 112 0x10001000 [0x10001030, 0x10001050]
        (ex_Data 0x10001000) ConstantV2 = {}"
    using T[THEN conjunct1] k(2) by simp
  have c2: "classified decode_fragment ex_mem 112 0x10001000 [0x10001030, 0x10001050]
        (ex_Data 0x10001000) StolenV1 = {0x00401050}"
    using T[THEN conjunct2, THEN conjunct1] k(1) by simp
  have c3: "classified decode_fragment ex_mem 112 0x10001000 [0x10001030, 0x10001050]
        (ex_Data 0x10001000) StolenV3 = {}"
    using T[THEN conjunct2, THEN conjunct2, THEN conjunct1] k(3) by simp
  have c5: "recorded ((ex_Data 0x10001000)\<lparr>CEG_PROTECTED_STOLEN_FUNCS_v1 :=
                               [(0x00401050, (0x00401050, 0x00401047, 0x0040104F))]\<rparr>)
     \<subseteq> CalculateRealAddress (ex_Data 0x10001000) 0x10001000 ` set [0x10001030, 0x10001050]"
    using T by blast
  show ?thesis unfolding r using e c1 c2 c3 c5 by (intro conjI refl)
qed

subsection \<open>PE image loader\<close>

text \<open>
  C9. The example image with a first section of virtual size 0: the load fails with
  \<^verbatim>\<open>NullVirtualSize\<close>, and by then the memory base, the declared image base, the
  raw-data pointer and the out-parameter \<open>address\<close> have been assigned.
\<close>

theorem C9_no_partial_results_counterexample:
  "fst (LoadBinaryImage 0x10000000 768 (ex_loader_state (ex_image(0x10000141 := 0))))
     = Some NullVirtualSize
   \<and> CEG_IMAGEBASE_MEMORY (globals (snd (LoadBinaryImage 0x10000000 768
         (ex_loader_state (ex_image(0x10000141 := 0)))))) = 0x10000000
   \<and> CEG_IMAGEBASE_RAW (globals (snd (LoadBinaryImage 0x10000000 768
         (ex_loader_state (ex_image(0x10000141 := 0)))))) = 0x00400000
   \<and> CEG_RAW_DATA_POINTER (globals (snd (LoadBinaryImage 0x10000000 768
         (ex_loader_state (ex_image(0x10000141 := 0)))))) = 0x200
   \<and> out_address (snd (LoadBinaryImage 0x10000000 768
         (ex_loader_state (ex_image(0x10000141 := 0))))) = 0x10000200
   \<and> CEG_IMAGEBASE_MEMORY (globals (ex_loader_state (ex_image(0x10000141 := 0)))) = 0
   \<and> CEG_IMAGEBASE_RAW (globals (ex_loader_state (ex_image(0x10000141 := 0)))) = 0
   \<and> CEG_RAW_DATA_POINTER (globals (ex_loader_state (ex_image(0x10000141 := 0)))) = 0
   \<and> out_address (ex_loader_state (ex_image(0x10000141 := 0))) = 0"
  by code_simp

text \<open>
  C9, amended. A failed load reports one of eight error kinds: the seven of the
  specification and \<^verbatim>\<open>NullBaseAddress\<close>, the latter only for a buffer at address 0.
  On failure the buffer, the code base, the first-section virtual address and the ASLR
  flag are never modified, and the other results are those assigned before the failing
  check: nothing for \<^verbatim>\<open>EmptyContent\<close>; the memory base for \<^verbatim>\<open>NullBaseAddress\<close>,
  \<^verbatim>\<open>InvalidDOSHeader\<close>, \<^verbatim>\<open>InvalidPEHeader\<close> and \<^verbatim>\<open>NullImageBase\<close>; also the
  declared image base for \<^verbatim>\<open>EmptyNtHeader\<close> and \<^verbatim>\<open>NullRawPointer\<close>; also the
  raw-data pointer and both out-parameters for \<^verbatim>\<open>NullVirtualSize\<close>.
\<close>

theorem C9_load_failure:
  assumes "LoadBinaryImage content_data content_size s = (Some e, s')"
  shows "e \<in> {EmptyContent, NullBaseAddress, InvalidDOSHeader, InvalidPEHeader, NullImageBase,
              EmptyNtHeader, NullRawPointer, NullVirtualSize}
       \<and> (e = NullBaseAddress \<longrightarrow> content_data = 0)
       \<and> (e = EmptyContent \<longrightarrow> s' = s)
       \<and> (e \<in> {NullBaseAddress, InvalidDOSHeader, InvalidPEHeader, NullImageBase} \<longrightarrow>
            s' = s\<lparr>globals := (globals s)\<lparr>CEG_IMAGEBASE_MEMORY := content_data\<rparr>\<rparr>)
       \<and> (e \<in> {EmptyNtHeader, NullRawPointer} \<longrightarrow>
            (\<exists>image_base. image_base \<noteq> 0 \<and>
               s' = s\<lparr>globals := (globals s)\<lparr>CEG_IMAGEBASE_MEMORY := content_data,
                                               CEG_IMAGEBASE_RAW := image_base\<rparr>\<rparr>))
       \<and> (e = NullVirtualSize \<longrightarrow>
            (\<exists>image_base raw. image_base \<noteq> 0 \<and> raw \<noteq> 0 \<and>
               s' = s\<lparr>globals := (globals s)\<lparr>CEG_IMAGEBASE_MEMORY := content_data,
                                               CEG_IMAGEBASE_RAW := image_base,
                                               CEG_RAW_DATA_POINTER := raw\<rparr>,
                       out_address := content_data + raw, out_size := 0\<rparr>))
       \<and> image s' = image s
       \<and> CEG_CODE_BASE (globals s') = CEG_CODE_BASE (globals s)
       \<and> CEG_VIRTUAL_ADDRESS (globals s') = CEG_VIRTUAL_ADDRESS (globals s)
       \<and> CEG_ASLR_ENABLED (globals s') = CEG_ASLR_ENABLED (globals s)"
  using assms
  unfolding LoadBinaryImage_def Let_def
  by (auto split: if_splits prod.splits)

theorem C9_load_failure_witness:
  "LoadBinaryImage 0x10000000 768 (ex_loader_state (\<lambda>_. 0))
     = (Some InvalidDOSHeader,
        (ex_loader_state (\<lambda>_. 0))
          \<lparr>globals := (globals (ex_loader_state (\<lambda>_. 0)))
                        \<lparr>CEG_IMAGEBASE_MEMORY := 0x10000000\<rparr>\<rparr>)"
proof -
  define r where "r = LoadBinaryImage 0x10000000 768 (ex_loader_state (\<lambda>_. 0))"
  have f: "fst r = Some InvalidDOSHeader" unfolding r_def by code_simp
  then have "LoadBinaryImage 0x10000000 768 (ex_loader_state (\<lambda>_. 0))
               = (Some InvalidDOSHeader, snd r)"
    by (simp add: r_def prod_eq_iff)
  from C9_load_failure[OF this] this show ?thesis by simp
qed
subsection \<open>Hex strings of the recipe\<close>

lemma is_hex8_unfilled: "is_hex8 False ''0x00000000''"
  using format_0x08_is_hex8[of False 0] by (simp add: format_0x08_zero)

lemma add_protected_funcs_strings:
  "s \<in> set (concat (map json_strings (add_protected_funcs container type))) \<Longrightarrow>
   is_hex8 False s"
  by (auto simp: add_protected_funcs_def format_0x08_is_hex8 is_hex8_unfilled)

lemma add_protected_funcs_keys:
  "e \<in> set (add_protected_funcs container type) \<Longrightarrow>
   \<exists>k d. e = JObject [(k, d)] \<and> is_hex8 False k"
  by (auto simp: add_protected_funcs_def format_0x08_is_hex8)

lemma WriteJSON_entries:
  "entries (WriteJSON D) =
     add_protected_funcs (CEG_PROTECTED_CONSTANT_FUNCS D) 1
     @ add_protected_funcs (CEG_PROTECTED_STOLEN_FUNCS_v1 D) 2
     @ add_protected_funcs (CEG_PROTECTED_STOLEN_FUNCS_v2 D) 3
     @ add_protected_funcs (CEG_PROTECTED_STOLEN_FUNCS_v3 D) 4"
  by (simp add: entries_def WriteJSON_def json_at_def)

lemma WriteJSON_strings:
  assumes "s \<in> set (json_strings (WriteJSON D) @ entry_keys (WriteJSON D))"
  shows "is_hex8 False s"
proof -
  consider (v) "s \<in> set (json_strings (WriteJSON D))" | (k) "s \<in> set (entry_keys (WriteJSON D))"
    using assms by auto
  then show ?thesis
  proof cases
    case v
    then show ?thesis
      using add_protected_funcs_strings
      by (auto simp: WriteJSON_def add_funcs_def format_0x08_is_hex8)
  next
    case k
    then obtain e where e: "e \<in> set (entries (WriteJSON D))"
      "s \<in> set (case e of JObject kvs \<Rightarrow> map fst kvs | _ \<Rightarrow> [])"
      by (auto simp: entry_keys_def)
    then obtain c t where "e \<in> set (add_protected_funcs c t)"
      unfolding WriteJSON_entries by auto
    from add_protected_funcs_keys[OF this] e(2) show ?thesis by auto
  qed
qed

lemma map_of_insort_key:
  "map_of kvs k = None \<Longrightarrow> map_of (insort_key fst (k, v) kvs) k = Some v"
  by (induction kvs) (auto split: if_splits)

lemma map_of_obj_set: "map_of (obj_set k v kvs) k = Some v"
proof (cases "map_of kvs k")
  case None
  then show ?thesis by (simp add: obj_set_def map_of_insort_key)
next
  case (Some w)
  then show ?thesis by (rule map_of_obj_set_same)
qed

lemma set_entry_value_written:
  "set_entry_value s data = Some data' \<Longrightarrow> json_at data' ''Value'' = Some (JString s)"
  by (auto simp: set_entry_value_def json_at_def map_of_obj_set split: json.splits)

lemma update_entry_written:
  "update_entry s entry = Some entry' \<Longrightarrow> entry_value entry' = Some (JString s)"
  by (auto simp: update_entry_def entry_value_def set_entry_value_written
      split: json.splits list.splits)

lemma UpdateEntry_written:
  assumes "UpdateEntry i eax j = Some j'" and "i < length (entries j)"
  shows "i < length (entries j')
         \<and> entry_value (entries j' ! i) = Some (JString (format_0x08 True eax))"
proof -
  obtain kvs es where j: "j = JObject kvs" "map_of kvs ''ConstantOrStolen'' = Some (JArray es)"
    using assms(2) by (auto simp: entries_def json_at_def split: option.splits json.splits)
  then have es: "entries j = es" by (simp add: entries_def json_at_def)
  obtain e' where e': "update_entry (format_0x08 True eax) (es ! i) = Some e'"
    "j' = JObject (obj_set ''ConstantOrStolen'' (JArray (es[i := e'])) kvs)"
    using assms j es by (auto simp: UpdateEntry_def json_size_def)
  have "entries j' = es[i := e']"
    by (simp add: e'(2) entries_def json_at_def map_of_obj_set)
  then show ?thesis
    using assms(2) es update_entry_written[OF e'(1)] by simp
qed

lemma ex_UpdateEntry:
  "map_option entries (UpdateEntry 0 0xDEADBEEF ex_recipe) =
     Some [ex_entry ''0x00401000'' ''0x00500000'' ''0x00500020'' ''0xDEADBEEF'' 1,
           ex_entry ''0x00402000'' ''0x00600000'' ''0x00600020'' ''0x00000000'' 4]"
  by (simp add: UpdateEntry_def ex_recipe_def json_size_def update_entry_def ex_entry_def
      set_entry_value_def obj_set_def entries_def json_at_def is_hex8_upper_not_lower)

text \<open>
  C5. The extractor formats the captured value with \<^verbatim>\<open>0x{:08X}\<close>: for
  \<open>EAX = 0xDEADBEEF\<close> the string written into the first entry of the example recipe is
  \<^verbatim>\<open>0xDEADBEEF\<close>, whose digits are not lower case.
\<close>

theorem C5_hex_strings_counterexample:
  "map_option (\<lambda>j'. entry_value (entries j' ! 0)) (UpdateEntry 0 0xDEADBEEF ex_recipe)
     = Some (Some (JString ''0xDEADBEEF''))
   \<and> \<not> is_hex8 False ''0xDEADBEEF''"
proof -
  have "\<not> is_hex8 False ''0xDEADBEEF''"
    by (simp add: is_hex8_def hex_alphabet_def)
  moreover have "entry_value (ex_entry ''0x00401000'' ''0x00500000'' ''0x00500020''
                   ''0xDEADBEEF'' 1) = Some (JString ''0xDEADBEEF'')"
    by (simp add: entry_value_def ex_entry_def json_at_def)
  ultimately show ?thesis
    using ex_UpdateEntry by (auto simp: map_option_case split: option.splits)
qed

text \<open>
  C5, amended. Every hex string the analyzer's recipe writer emits (the values of the
  document and the keys of the entries) is \<^verbatim>\<open>0x\<close> followed by exactly 8 lower-case
  hex digits. The \<^verbatim>\<open>Value\<close> string the extractor writes back after a breakpoint hit is
  \<^verbatim>\<open>0x\<close> followed by exactly 8 upper-case hex digits.
\<close>

theorem C5_hex_strings:
  "(\<forall>s \<in> set (json_strings (WriteJSON D) @ entry_keys (WriteJSON D)). is_hex8 False s)
   \<and> (UpdateEntry i eax j = Some j' \<and> i < length (entries j) \<longrightarrow>
        i < length (entries j')
        \<and> entry_value (entries j' ! i) = Some (JString (format_0x08 True eax))
        \<and> is_hex8 True (format_0x08 True eax))"
  using WriteJSON_strings[of _ D] UpdateEntry_written[of i eax j j']
    format_0x08_is_hex8[of True eax]
  by blast

theorem C5_hex_strings_witness:
  "json_strings (WriteJSON ((ex_Data 0)\<lparr>CEG_PROTECTED_CONSTANT_FUNCS :=
       [(0x00401030, (0x00401030, 0x00401026, 0x0040104A))]\<rparr>))
     = [''0x0040104a'', ''0x00401026'', ''0x00401030'', ''0x00000000'', ''0x00000000'',
        ''0x00000000'', ''0x00000000'']
   \<and> entry_keys (WriteJSON ((ex_Data 0)\<lparr>CEG_PROTECTED_CONSTANT_FUNCS :=
       [(0x00401030, (0x00401030, 0x00401026, 0x0040104A))]\<rparr>)) = [''0x00401030'']
   \<and> list_all (is_hex8 False)
        [''0x0040104a'', ''0x00401026'', ''0x00401030'', ''0x00000000'']
   \<and> (\<exists>j'. UpdateEntry 0 0xDEADBEEF ex_recipe = Some j'
          \<and> entry_value (entries j' ! 0) = Some (JString ''0xDEADBEEF''))
   \<and> is_hex8 True ''0xDEADBEEF''"
proof -
  define D where "D = (ex_Data 0)\<lparr>CEG_PROTECTED_CONSTANT_FUNCS :=
       [(0x00401030, (0x00401030, 0x00401026, 0x0040104A))]\<rparr>"
  have r2: "replicate 2 CHR ''0'' = ''00''" by (simp add: numeral_2_eq_2)
  have f: "format_0x08 False (0x0040104A :: u32) = ''0x0040104a''"
    "format_0x08 False (0x00401026 :: u32) = ''0x00401026''"
    "format_0x08 False (0x00401030 :: u32) = ''0x00401030''"
    by (simp_all add: format_0x08_def to_hex.simps hex_alphabet_def r2)
  have s: "json_strings (WriteJSON D)
     = [''0x0040104a'', ''0x00401026'', ''0x00401030'', ''0x00000000'', ''0x00000000'',
        ''0x00000000'', ''0x00000000'']"
    by (simp add: D_def WriteJSON_def ex_Data_def add_protected_funcs_def add_funcs_def f
        format_0x08_zero)
  have k: "entry_keys (WriteJSON D) = [''0x00401030'']"
    by (simp add: entry_keys_def WriteJSON_entries D_def ex_Data_def add_protected_funcs_def f)
  obtain j' where j': "UpdateEntry 0 0xDEADBEEF ex_recipe = Some j'"
    using ex_UpdateEntry by (cases "UpdateEntry 0 0xDEADBEEF ex_recipe") auto
  have l: "0 < length (entries ex_recipe)" by (simp add: ex_entries)
  from C5_hex_strings[of D 0 "0xDEADBEEF" ex_recipe j'] j' l
  have "\<forall>s \<in> set (json_strings (WriteJSON D) @ entry_keys (WriteJSON D)). is_hex8 False s"
    and "entry_value (entries j' ! 0) = Some (JString (format_0x08 True 0xDEADBEEF))"
    and "is_hex8 True (format_0x08 True 0xDEADBEEF)"
    by blast+
  then show ?thesis
    using s k j' unfolding D_def[symmetric] by (auto simp: is_hex8_upper_not_lower)
qed

end
